(* ===== verification/Prelude.thy ===== *)
theory Prelude
  imports Complex_Main "HOL-Library.Multiset"
begin

text \<open>
  Shared vocabulary of the Spendy development: the named collections of
  equations that the component proofs unfold, the type names of the model,
  and generic facts on lists and sums that several components use (filter
  partitions, left folds of additions, updates of list elements by a
  predicate).
\<close>

named_theorems handler_defs "definitions of the App.js event handlers"
named_theorems view_defs "definitions of the derived month view"

type_synonym ms = nat
  \<comment> \<open>a reading of \<open>Date.now()\<close>: milliseconds since the epoch\<close>

type_synonym txn_id = string
  \<comment> \<open>\<open>Date.now().toString()\<close>\<close>

text \<open>
  The validation failures of the handlers. App.js reports them with
  \<open>Alert.alert\<close> (or, for an empty category name, by returning silently);
  the model returns them as the left side of a sum.
\<close>

datatype validation_error =
    MissingInfo        \<comment> \<open>no amount or no category when saving a transaction\<close>
  | EmptyCategoryName  \<comment> \<open>the trimmed new category name is empty\<close>
  | DuplicateCategory  \<comment> \<open>the category already exists for the type\<close>
  | NoReassignTarget   \<comment> \<open>reassignment requested without a target category\<close>

subsection \<open>Sums over a partition of a list\<close>

lemma sum_list_filter_partition:
  fixes f :: "'a \<Rightarrow> 'b::comm_monoid_add"
  shows "sum_list (map f (filter P xs)) + sum_list (map f (filter (\<lambda>x. \<not> P x) xs))
         = sum_list (map f xs)"
  by (induction xs) (simp_all add: ac_simps)

lemma foldl_plus_sum_list:
  fixes f :: "'a \<Rightarrow> 'b::comm_monoid_add"
  shows "foldl (\<lambda>acc x. acc + f x) a xs = a + sum_list (map f xs)"
  by (induction xs arbitrary: a) (simp_all add: ac_simps)

lemma sum_list_filter_keys:
  fixes f :: "'a \<Rightarrow> 'b::comm_monoid_add"
  assumes "finite K" and "g ` set xs \<subseteq> K"
  shows "(\<Sum>k\<in>K. sum_list (map f (filter (\<lambda>x. g x = k) xs))) = sum_list (map f xs)"
  using assms(2)
proof (induction xs)
  case Nil
  then show ?case by simp
next
  case (Cons x xs)
  have split: "(\<Sum>k\<in>K. sum_list (map f (filter (\<lambda>y. g y = k) (x # xs))))
      = (\<Sum>k\<in>K. if g x = k then f x else 0)
        + (\<Sum>k\<in>K. sum_list (map f (filter (\<lambda>y. g y = k) xs)))"
  proof -
    have "(\<Sum>k\<in>K. sum_list (map f (filter (\<lambda>y. g y = k) (x # xs))))
        = (\<Sum>k\<in>K. (if g x = k then f x else 0) + sum_list (map f (filter (\<lambda>y. g y = k) xs)))"
      by (rule sum.cong) auto
    then show ?thesis by (simp only: sum.distrib)
  qed
  have "(\<Sum>k\<in>K. if g x = k then f x else 0) = f x"
    using Cons.prems assms(1) by (simp add: sum.delta)
  with split Cons show ?case by simp
qed

lemma sum_list_distinct_filter_keys:
  fixes f :: "'a \<Rightarrow> 'b::comm_monoid_add"
  assumes "distinct ks" and "set ks = g ` set xs"
  shows "sum_list (map (\<lambda>k. sum_list (map f (filter (\<lambda>x. g x = k) xs))) ks) = sum_list (map f xs)"
proof -
  have "sum_list (map (\<lambda>k. sum_list (map f (filter (\<lambda>x. g x = k) xs))) ks)
      = (\<Sum>k\<in>set ks. sum_list (map f (filter (\<lambda>x. g x = k) xs)))"
    using assms(1) by (simp add: sum_list_distinct_conv_sum_set)
  also have "\<dots> = sum_list (map f xs)"
    using assms(2) by (intro sum_list_filter_keys) auto
  finally show ?thesis .
qed

lemma sum_list_keys_subset:
  fixes f :: "'a \<Rightarrow> 'b::comm_monoid_add"
  assumes "distinct ks" and "g ` set xs \<subseteq> set ks"
  shows "sum_list (map (\<lambda>k. sum_list (map f (filter (\<lambda>x. g x = k) xs))) ks) = sum_list (map f xs)"
  using assms by (simp add: sum_list_distinct_conv_sum_set sum_list_filter_keys)

lemma sum_list_mset_eq:
  fixes f :: "'a \<Rightarrow> 'b::comm_monoid_add"
  assumes "mset xs = mset ys"
  shows "sum_list (map f xs) = sum_list (map f ys)"
proof -
  have "sum_list (map f xs) = sum_mset (image_mset f (mset xs))"
    by (simp add: sum_mset_sum_list [symmetric])
  also have "\<dots> = sum_list (map f ys)"
    using assms by (simp add: sum_mset_sum_list [symmetric])
  finally show ?thesis .
qed

text \<open>The keys of a list in order of first occurrence (the insertion order of a JS object).\<close>

definition first_occurrences :: "'a list \<Rightarrow> 'a list" where
  "first_occurrences xs = rev (remdups (rev xs))"

lemma first_occurrences_distinct [simp]: "distinct (first_occurrences xs)"
  and first_occurrences_set [simp]: "set (first_occurrences xs) = set xs"
  by (simp_all add: first_occurrences_def)

lemma first_occurrences_snoc:
  "first_occurrences (xs @ [x]) = (if x \<in> set xs then first_occurrences xs else first_occurrences xs @ [x])"
  by (simp add: first_occurrences_def)

lemma length_filter_not:
  "length (filter (\<lambda>x. \<not> P x) xs) = length xs - length (filter P xs)"
  using sum_length_filter_compl [of P xs] by simp

lemma length_filter_distinct_key:
  "distinct (map f xs) \<Longrightarrow> a \<in> f ` set xs \<Longrightarrow> Suc (length (filter (\<lambda>x. f x \<noteq> a) xs)) = length xs"
proof (induction xs)
  case Nil
  then show ?case by simp
next
  case (Cons x xs)
  show ?case
  proof (cases "f x = a")
    case True
    with Cons.prems have "filter (\<lambda>y. f y \<noteq> a) xs = xs"
      by (auto simp: filter_id_conv image_iff)
    with True show ?thesis by simp
  next
    case False
    with Cons show ?thesis by simp
  qed
qed

end
