(* ===== verification/JsNum.thy ===== *)
theory JsNum
  imports Prelude
begin

text \<open>
  JavaScript numbers as App.js uses them: the amounts of transactions, the
  running totals of the month view and the comparator of the group sort.
  A number is a finite value, one of the two infinities, or NaN. Finite
  values are exact rationals: the rounding of IEEE doubles is not modelled,
  so addition is exact and associative (see the header of Spec2Isabelle).
  Addition follows ECMAScript Number::add: NaN absorbs, opposite infinities
  give NaN. The commutative-monoid instance of this addition is in
  JsNumSum.

  Also here: \<open>parseFloat\<close>, which App.js applies to the amount typed by the
  user, and \<open>Number.prototype.toString\<close> on the naturals returned by
  \<open>Date.now()\<close>, which App.js uses as transaction ids.
\<close>

datatype jsnum = Fin rat | PInf | NInf | NaN

fun js_add :: "jsnum \<Rightarrow> jsnum \<Rightarrow> jsnum" where
  "js_add NaN y = NaN"
| "js_add x NaN = NaN"
| "js_add PInf NInf = NaN"
| "js_add NInf PInf = NaN"
| "js_add PInf y = PInf"
| "js_add x PInf = PInf"
| "js_add NInf y = NInf"
| "js_add x NInf = NInf"
| "js_add (Fin a) (Fin b) = Fin (a + b)"

fun js_neg :: "jsnum \<Rightarrow> jsnum" where
  "js_neg (Fin a) = Fin (- a)"
| "js_neg PInf = NInf"
| "js_neg NInf = PInf"
| "js_neg NaN = NaN"

definition js_sub :: "jsnum \<Rightarrow> jsnum \<Rightarrow> jsnum" where
  "js_sub x y = js_add x (js_neg y)"

fun js_finite :: "jsnum \<Rightarrow> bool" where
  "js_finite (Fin _) = True"
| "js_finite _ = False"

text \<open>
  \<open>Array.prototype.sort\<close> reads the comparator's result \<open>v\<close> through
  SortCompare: NaN counts as \<open>+0\<close>; the first argument goes first when the
  result is not positive (the sort is stable).
\<close>

fun js_nonpos :: "jsnum \<Rightarrow> bool" where
  "js_nonpos (Fin a) = (a \<le> 0)"
| "js_nonpos NInf = True"
| "js_nonpos PInf = False"
| "js_nonpos NaN = True"


subsection \<open>Number.prototype.toString on naturals\<close>

text \<open>The decimal digits of a natural number, most significant first.\<close>

fun nat_digits :: "nat \<Rightarrow> nat list" where
  "nat_digits n = (if n < 10 then [n] else nat_digits (n div 10) @ [n mod 10])"

declare nat_digits.simps [simp del]

definition digit_char :: "nat \<Rightarrow> char" where
  "digit_char d = char_of (48 + d)"

definition show_nat :: "nat \<Rightarrow> string" where
  "show_nat n = map digit_char (nat_digits n)"

definition show_int :: "int \<Rightarrow> string" where
  "show_int i = (if i < 0 then CHR ''-'' # show_nat (nat (- i)) else show_nat (nat i))"

subsection \<open>parseFloat\<close>

text \<open>
  ECMAScript \<open>parseFloat(s)\<close>: skip leading white space, then read the longest
  prefix that is a StrDecimalLiteral (an optional sign, then \<open>Infinity\<close> or
  digits with an optional fraction and an optional exponent); NaN when there
  is no such prefix. White space is the ASCII part of StrWhiteSpaceChar
  (tab, line feed, vertical tab, form feed, carriage return, space).
\<close>

definition is_ws :: "char \<Rightarrow> bool" where
  "is_ws c \<longleftrightarrow> of_char c \<in> {9, 10, 11, 12, 13, 32 :: nat}"

definition is_digit :: "char \<Rightarrow> bool" where
  "is_digit c \<longleftrightarrow> 48 \<le> (of_char c :: nat) \<and> (of_char c :: nat) \<le> 57"

definition digit_val :: "char \<Rightarrow> nat" where
  "digit_val c = of_char c - 48"

definition digits_value :: "char list \<Rightarrow> nat" where
  "digits_value ds = foldl (\<lambda>n c. 10 * n + digit_val c) 0 ds"

definition split_sign :: "string \<Rightarrow> bool \<times> string" where
  "split_sign s = (case s of
       c # r \<Rightarrow> if c = CHR ''-'' then (True, r)
                else if c = CHR ''+'' then (False, r) else (False, s)
     | [] \<Rightarrow> (False, []))"

definition exponent_part :: "string \<Rightarrow> int" where
  "exponent_part s = (case s of
       c # r \<Rightarrow>
         if c = CHR ''e'' \<or> c = CHR ''E'' then
           (let (neg, r2) = split_sign r; eds = takeWhile is_digit r2
            in if eds = [] then 0
               else if neg then - int (digits_value eds) else int (digits_value eds))
         else 0
     | [] \<Rightarrow> 0)"

definition scale10 :: "rat \<Rightarrow> int \<Rightarrow> rat" where
  "scale10 q e = (if 0 \<le> e then q * 10 ^ nat e else q / 10 ^ nat (- e))"

definition parse_float :: "string \<Rightarrow> jsnum" where
  "parse_float s =
     (let (neg, s2) = split_sign (dropWhile is_ws s)
      in if take 8 s2 = ''Infinity'' then (if neg then NInf else PInf)
         else
           (let ip = takeWhile is_digit s2;
                s3 = dropWhile is_digit s2;
                (fp, s4) = (case s3 of
                    c # r \<Rightarrow> if c = CHR ''.'' then (takeWhile is_digit r, dropWhile is_digit r)
                             else ([], s3)
                  | [] \<Rightarrow> ([], []))
            in if ip = [] \<and> fp = [] then NaN
               else
                 (let m = scale10 (of_nat (digits_value (ip @ fp))) (exponent_part s4 - int (length fp))
                  in Fin (if neg then - m else m))))"

subsection \<open>Digits\<close>

lemma digit_char_digit:
  "d < 10 \<Longrightarrow> is_digit (digit_char d)"
  "d < 10 \<Longrightarrow> digit_val (digit_char d) = d"
  by (simp_all add: digit_char_def is_digit_def digit_val_def of_char_of)

lemma digits_value_show_nat: "digits_value (show_nat n) = n"
proof (induction n rule: nat_digits.induct)
  case (1 n)
  show ?case
  proof (cases "n < 10")
    case True
    then show ?thesis
      by (simp add: show_nat_def digits_value_def nat_digits.simps digit_char_digit)
  next
    case False
    then have "show_nat n = show_nat (n div 10) @ [digit_char (n mod 10)]"
      by (simp add: show_nat_def nat_digits.simps [of n])
    with 1 False show ?thesis
      by (simp add: digits_value_def digit_char_digit)
  qed
qed

lemma show_nat_inj: "show_nat m = show_nat n \<longleftrightarrow> m = n"
  by (metis digits_value_show_nat)

end
