(* ===== verification/JsNumSum.thy ===== *)
theory JsNumSum
  imports JsNum
begin

text \<open>
  JS addition makes \<open>jsnum\<close> a commutative monoid with \<open>Fin 0\<close> as unit:
  NaN absorbs, opposite infinities give NaN, and finite values add exactly.
  The instance lets the library's \<open>sum_list\<close> facts apply to the totals and
  the group totals of App.js, which are sums of amounts.
\<close>

instantiation jsnum :: comm_monoid_add
begin

definition zero_jsnum :: jsnum where
  "zero_jsnum = Fin 0"

definition plus_jsnum :: "jsnum \<Rightarrow> jsnum \<Rightarrow> jsnum" where
  "plus_jsnum = js_add"

instance
proof
  fix a b c :: jsnum
  show "a + b + c = a + (b + c)"
    by (cases a; cases b; cases c) (simp_all add: plus_jsnum_def)
  show "a + b = b + a"
    by (cases a; cases b) (simp_all add: plus_jsnum_def)
  show "0 + a = a"
    by (cases a) (simp_all add: plus_jsnum_def zero_jsnum_def)
qed

end

subsection \<open>Sums of amounts\<close>

lemma js_add_Fin [simp]: "Fin a + Fin b = Fin (a + b)"
  by (simp add: plus_jsnum_def)

lemma js_zero_Fin: "(0::jsnum) = Fin 0"
  by (simp add: zero_jsnum_def)

lemma js_add_NaN [simp]: "NaN + x = NaN" "x + NaN = NaN" "js_add x NaN = NaN"
  by (cases x; simp add: plus_jsnum_def)+

lemma sum_list_Fin:
  "sum_list (map (\<lambda>x. Fin (f x)) xs) = Fin (sum_list (map f xs))"
  by (induction xs) (simp_all add: js_zero_Fin)

lemma sum_list_NaN:
  "NaN \<in> set (map f xs) \<Longrightarrow> sum_list (map f xs) = NaN"
  by (induction xs) auto

end
