(* ===== verification/Dates.thy ===== *)
theory Dates
  imports Prelude
begin

text \<open>
  The calendar part of JavaScript \<open>Date\<close> that App.js relies on. A date is
  its local calendar fields: the full year, the month index \<open>0..11\<close> of
  \<open>getMonth()\<close> and the day of month of \<open>getDate()\<close>. The time of day is
  not modelled (App.js never reads it). The setters \<open>setDate\<close> and
  \<open>setMonth\<close> and the constructor \<open>new Date(y, m, d)\<close> go through
  ECMAScript MakeDay, which accepts any month and day and normalises them by
  carrying into neighbouring months and years: \<open>norm_day\<close> models that
  carrying one month at a time and terminates by a measure on the day.
  On top of these: the helpers \<open>isSameMonth\<close> and \<open>isFutureMonth\<close> and the
  date arithmetic of \<open>handleAddTransaction\<close> (the rollover rule) and
  \<open>changeMonth\<close>.
\<close>

record jsdate =
  year :: int
  month :: int
  day :: int

definition leap_year :: "int \<Rightarrow> bool" where
  "leap_year y \<longleftrightarrow> (y mod 4 = 0 \<and> y mod 100 \<noteq> 0) \<or> y mod 400 = 0"

definition days_in_month :: "int \<Rightarrow> int \<Rightarrow> int" where
  "days_in_month y m =
     (if m = 1 then (if leap_year y then 29 else 28)
      else if m = 3 \<or> m = 5 \<or> m = 8 \<or> m = 10 then 30 else 31)"

function norm_day :: "int \<Rightarrow> int \<Rightarrow> int \<Rightarrow> jsdate" where
  "norm_day y m d =
     (if d < 1 then
        (if m = 0 then norm_day (y - 1) 11 (d + 31)
         else norm_day y (m - 1) (d + days_in_month y (m - 1)))
      else if days_in_month y m < d then
        (if m = 11 then norm_day (y + 1) 0 (d - 31)
         else norm_day y (m + 1) (d - days_in_month y m))
      else \<lparr>year = y, month = m, day = d\<rparr>)"
  by pat_completeness auto
termination
  by (relation "measure (\<lambda>(y, m, d). nat (if d < 1 then 33 - d else d))")
     (auto simp: days_in_month_def)

declare norm_day.simps [simp del]

text \<open>MakeDay(y, m, d): the month is first brought into \<open>0..11\<close>.\<close>

definition make_day :: "int \<Rightarrow> int \<Rightarrow> int \<Rightarrow> jsdate" where
  "make_day y m d = norm_day (y + m div 12) (m mod 12) d"

text \<open>\<open>new Date(y, m, d)\<close>: a year in \<open>0..99\<close> is read as \<open>1900 + y\<close>.\<close>

definition new_date :: "int \<Rightarrow> int \<Rightarrow> int \<Rightarrow> jsdate" where
  "new_date y m d = make_day (if 0 \<le> y \<and> y \<le> 99 then 1900 + y else y) m d"

text \<open>\<open>t.setDate(dt)\<close> and \<open>t.setMonth(m)\<close>.\<close>

definition set_date :: "int \<Rightarrow> jsdate \<Rightarrow> jsdate" where
  "set_date dt t = make_day (year t) (month t) dt"

definition set_month :: "int \<Rightarrow> jsdate \<Rightarrow> jsdate" where
  "set_month m t = make_day (year t) m (day t)"

definition valid_date :: "jsdate \<Rightarrow> bool" where
  "valid_date t \<longleftrightarrow>
     0 \<le> month t \<and> month t < 12 \<and> 1 \<le> day t \<and> day t \<le> days_in_month (year t) (month t)"

text \<open>Comparison of two dates (\<open>viewed > current\<close> compares time values).\<close>

definition date_lt :: "jsdate \<Rightarrow> jsdate \<Rightarrow> bool" where
  "date_lt a b \<longleftrightarrow>
     year a < year b \<or> (year a = year b \<and> (month a < month b \<or> (month a = month b \<and> day a < day b)))"

subsection \<open>The helpers of App.js\<close>

definition isSameMonth :: "jsdate \<Rightarrow> jsdate \<Rightarrow> bool" where
  "isSameMonth d1 d2 \<longleftrightarrow> month d1 = month d2 \<and> year d1 = year d2"

definition isFutureMonth :: "jsdate \<Rightarrow> jsdate \<Rightarrow> bool" where
  "isFutureMonth now date \<longleftrightarrow>
     date_lt (new_date (year now) (month now) 1) (new_date (year date) (month date) 1)"

text \<open>
  The date given to a new transaction (\<open>handleAddTransaction\<close>): today's day
  of month in the viewed month, and if that overflows into the next month,
  \<open>setDate(0)\<close>, the last day of the month before.
\<close>

definition transaction_date :: "jsdate \<Rightarrow> jsdate \<Rightarrow> jsdate" where
  "transaction_date now cur =
     (let t = set_date (day now) cur
      in if month t \<noteq> month cur then set_date 0 t else t)"

definition changeMonth :: "int \<Rightarrow> jsdate \<Rightarrow> jsdate" where
  "changeMonth direction cur = set_month (month cur + direction) cur"

subsection \<open>Normalisation and the date arithmetic of the handlers\<close>

lemma days_in_month_ge [simp]: "28 \<le> days_in_month y m"
  and days_in_month_le [simp]: "days_in_month y m \<le> 31"
  and days_in_month_pos [simp]: "1 \<le> days_in_month y m"
  by (simp_all add: days_in_month_def)

lemma norm_day_id:
  "1 \<le> d \<Longrightarrow> d \<le> days_in_month y m \<Longrightarrow> norm_day y m d = \<lparr>year = y, month = m, day = d\<rparr>"
  by (subst norm_day.simps) simp

lemma norm_day_valid:
  "0 \<le> m \<Longrightarrow> m < 12 \<Longrightarrow> valid_date (norm_day y m d)"
proof (induction y m d rule: norm_day.induct)
  case (1 y m d)
  show ?case
  proof (cases "d < 1")
    case True
    with "1.IH"(1,2) "1.prems" show ?thesis
      by (subst norm_day.simps) (simp split: if_splits)
  next
    case False
    with "1.IH"(3,4) "1.prems" show ?thesis
      by (subst norm_day.simps) (auto simp: valid_date_def)
  qed
qed

lemma make_day_valid: "valid_date (make_day y m d)"
  by (simp add: make_day_def norm_day_valid)

lemma set_date_in_month:
  assumes "valid_date t" and "1 \<le> dt" and "dt \<le> days_in_month (year t) (month t)"
  shows "set_date dt t = t\<lparr>day := dt\<rparr>"
  using assms by (simp add: set_date_def make_day_def valid_date_def norm_day_id)

lemma days_in_month_short_not_dec:
  "days_in_month y m < 31 \<Longrightarrow> m \<noteq> 11"
  by (auto simp: days_in_month_def)

lemma norm_day_overflow:
  assumes "0 \<le> m" and "m < 12" and "days_in_month y m < d" and "d \<le> 31"
  shows "norm_day y m d = \<lparr>year = y, month = m + 1, day = d - days_in_month y m\<rparr>"
proof -
  have "days_in_month y m < 31" using assms(3,4) by simp
  then have "m \<noteq> 11" by (rule days_in_month_short_not_dec)
  moreover have "\<not> d < 1" using assms(3) days_in_month_ge [of y m] by linarith
  ultimately have "norm_day y m d = norm_day y (m + 1) (d - days_in_month y m)"
    using assms(3) by (subst norm_day.simps) simp
  also have "\<dots> = \<lparr>year = y, month = m + 1, day = d - days_in_month y m\<rparr>"
    using assms(3,4) days_in_month_ge [of y m] days_in_month_ge [of y "m + 1"]
    by (intro norm_day_id) linarith+
  finally show ?thesis .
qed

lemma norm_day_zero:
  "norm_day y m 0 =
     (if m = 0 then \<lparr>year = y - 1, month = 11, day = 31\<rparr>
      else \<lparr>year = y, month = m - 1, day = days_in_month y (m - 1)\<rparr>)"
proof -
  have "days_in_month (y - 1) 11 = 31" by (simp add: days_in_month_def)
  then show ?thesis
    by (subst norm_day.simps) (simp add: norm_day_id)
qed

theorem transaction_date_clamp:
  assumes "valid_date now" and "valid_date cur"
  shows "transaction_date now cur =
           cur\<lparr>day := min (day now) (days_in_month (year cur) (month cur))\<rparr>"
proof (cases "day now \<le> days_in_month (year cur) (month cur)")
  case True
  with assms have "set_date (day now) cur = cur\<lparr>day := day now\<rparr>"
    by (intro set_date_in_month) (simp_all add: valid_date_def)
  with True show ?thesis by (simp add: transaction_date_def)
next
  case False
  let ?y = "year cur" and ?m = "month cur"
  have m: "0 \<le> ?m" "?m < 12" using assms(2) by (simp_all add: valid_date_def)
  have d31: "day now \<le> 31"
    using assms(1) days_in_month_le [of "year now" "month now"] unfolding valid_date_def by linarith
  have over: "set_date (day now) cur = \<lparr>year = ?y, month = ?m + 1, day = day now - days_in_month ?y ?m\<rparr>"
    using m False d31 by (simp add: set_date_def make_day_def norm_day_overflow)
  have under: "set_date 0 \<lparr>year = ?y, month = ?m + 1, day = day now - days_in_month ?y ?m\<rparr>
      = \<lparr>year = ?y, month = ?m, day = days_in_month ?y ?m\<rparr>"
  proof -
    have "?m + 1 < 12" using False d31 m days_in_month_short_not_dec [of ?y ?m] by fastforce
    with m show ?thesis by (simp add: set_date_def make_day_def norm_day_zero)
  qed
  from False over under show ?thesis
    by (simp add: transaction_date_def)
qed

text \<open>
  C13. \<open>changeMonth\<close> moves to the target month (the viewed month plus the
  direction, carried into the year) only when the viewed day of month exists
  there; otherwise \<open>setMonth\<close> overflows and the result lies in the month
  after the target, on the excess day.
\<close>

theorem changeMonth_result:
  assumes "valid_date cur"
  shows "changeMonth direction cur =
    (let y' = year cur + (month cur + direction) div 12; m' = (month cur + direction) mod 12
     in if day cur \<le> days_in_month y' m' then \<lparr>year = y', month = m', day = day cur\<rparr>
        else \<lparr>year = y', month = m' + 1, day = day cur - days_in_month y' m'\<rparr>)"
proof -
  let ?y = "year cur + (month cur + direction) div 12" and ?m = "(month cur + direction) mod 12"
  have m: "0 \<le> ?m" "?m < 12" by simp_all
  have d: "1 \<le> day cur" "day cur \<le> 31"
    using assms days_in_month_le [of "year cur" "month cur"] unfolding valid_date_def by linarith+
  show ?thesis
  proof (cases "day cur \<le> days_in_month ?y ?m")
    case True
    with d show ?thesis
      by (simp add: changeMonth_def set_month_def make_day_def norm_day_id Let_def)
  next
    case False
    with m d show ?thesis
      by (simp add: changeMonth_def set_month_def make_day_def norm_day_overflow Let_def)
  qed
qed

lemma changeMonth_result_witness:
  "valid_date \<lparr>year = 2025, month = 0, day = 31\<rparr> \<and>
   changeMonth 1 \<lparr>year = 2025, month = 0, day = 31\<rparr> = \<lparr>year = 2025, month = 2, day = 3\<rparr>"
proof -
  have v: "valid_date \<lparr>year = 2025, month = 0, day = 31\<rparr>"
    by (simp add: valid_date_def days_in_month_def)
  show ?thesis
    using changeMonth_result [OF v, of 1] v by (simp add: days_in_month_def leap_year_def Let_def)
qed

end
