(* ===== verification/Ledger.thy ===== *)
theory Ledger
  imports JsNumSum Dates
begin

text \<open>
  The transaction ledger of App.js: the \<open>transactions\<close> state array, the
  transaction object built by \<open>handleAddTransaction\<close>, the \<open>newTransaction\<close>
  form it is built from, and the pure list operations the handlers apply to
  the array: prepending a new transaction, removing one by id
  (\<open>confirmDelete\<close>), and removing or re-categorising the transactions of a
  category (\<open>executeCategoryDeletion\<close>).
\<close>

datatype ttype = Income | Expense

definition type_name :: "ttype \<Rightarrow> string" where
  "type_name ty = (case ty of Income \<Rightarrow> ''Income'' | Expense \<Rightarrow> ''Expense'')"

text \<open>
  A transaction object. \<open>amount\<close> is \<open>None\<close> for a JSON \<open>null\<close>, which is
  what a non-finite amount becomes after a save and a reload (see
  Persistence); every numeric use in App.js reads \<open>null\<close> as \<open>0\<close>
  (\<open>amount_value\<close>).
\<close>

record txn =
  tid :: txn_id
  dateISO :: jsdate
  displayDate :: string
  ttype :: ttype
  amount :: "jsnum option"
  category :: string
  tnote :: string

text \<open>The \<open>newTransaction\<close> form state: the amount is the text typed so far.\<close>

record txn_form =
  ftype :: ttype
  famount :: string
  fcategory :: string
  fnote :: string

definition empty_form :: txn_form where
  "empty_form = \<lparr>ftype = Expense, famount = [], fcategory = [], fnote = []\<rparr>"

definition amount_value :: "txn \<Rightarrow> jsnum" where
  "amount_value t = (case amount t of None \<Rightarrow> 0 | Some v \<Rightarrow> v)"

text \<open>\<open>toLocaleDateString()\<close> in the en-US locale: month/day/year.\<close>

definition locale_date_string :: "jsdate \<Rightarrow> string" where
  "locale_date_string d =
     show_int (month d + 1) @ ''/'' @ show_int (day d) @ ''/'' @ show_int (year d)"

text \<open>
  The object literal of \<open>handleAddTransaction\<close>: the id is the clock reading,
  the date follows the rollover rule, the form's fields are spread in and the
  amount is the form's text through \<open>parseFloat\<close>.
\<close>

definition new_transaction :: "ms \<Rightarrow> jsdate \<Rightarrow> jsdate \<Rightarrow> txn_form \<Rightarrow> txn" where
  "new_transaction now_ms now cur f =
     (let d = transaction_date now cur
      in \<lparr>tid = show_nat now_ms, dateISO = d, displayDate = locale_date_string d,
          ttype = ftype f, amount = Some (parse_float (famount f)),
          category = fcategory f, tnote = fnote f\<rparr>)"

text \<open>
  The guard and the update of \<open>handleAddTransaction\<close>: a falsy amount text or
  category (the empty string) is refused; otherwise the new transaction is
  prepended.
\<close>

definition add_transaction ::
  "ms \<Rightarrow> jsdate \<Rightarrow> jsdate \<Rightarrow> txn_form \<Rightarrow> txn list \<Rightarrow> validation_error + txn list" where
  "add_transaction now_ms now cur f txns =
     (if famount f = [] \<or> fcategory f = [] then Inl MissingInfo
      else Inr (new_transaction now_ms now cur f # txns))"

text \<open>\<open>prev.filter(t => t.id !== id)\<close> in the Delete button of \<open>confirmDelete\<close>.\<close>

definition remove_transaction :: "txn_id \<Rightarrow> txn list \<Rightarrow> txn list" where
  "remove_transaction i txns = filter (\<lambda>t. tid t \<noteq> i) txns"

text \<open>A transaction depends on category \<open>name\<close> of type \<open>ty\<close>.\<close>

definition is_dependent :: "string \<Rightarrow> ttype \<Rightarrow> txn \<Rightarrow> bool" where
  "is_dependent name ty t \<longleftrightarrow> category t = name \<and> ttype t = ty"

definition hasTransactions :: "string \<Rightarrow> ttype \<Rightarrow> txn list \<Rightarrow> bool" where
  "hasTransactions name ty txns \<longleftrightarrow> list_ex (is_dependent name ty) txns"

datatype deletion_action = DeleteAction | ReassignAction

definition delete_dependents :: "string \<Rightarrow> ttype \<Rightarrow> txn list \<Rightarrow> txn list" where
  "delete_dependents name ty txns = filter (\<lambda>t. \<not> is_dependent name ty t) txns"

definition reassign_dependents :: "string \<Rightarrow> ttype \<Rightarrow> string \<Rightarrow> txn list \<Rightarrow> txn list" where
  "reassign_dependents name ty target txns =
     map (\<lambda>t. if is_dependent name ty t then t\<lparr>category := target\<rparr> else t) txns"

text \<open>
  The ledger half of \<open>executeCategoryDeletion\<close>: the \<open>'delete'\<close> action
  drops the dependents, \<open>'reassign'\<close> needs a non-empty target and rewrites
  their category.
\<close>

definition ledger_category_deletion ::
  "string \<Rightarrow> ttype \<Rightarrow> deletion_action \<Rightarrow> string \<Rightarrow> txn list \<Rightarrow> validation_error + txn list" where
  "ledger_category_deletion name ty action target txns =
     (case action of
        DeleteAction \<Rightarrow> Inr (delete_dependents name ty txns)
      | ReassignAction \<Rightarrow>
          if target = [] then Inl NoReassignTarget
          else Inr (reassign_dependents name ty target txns))"

subsection \<open>Facts about the list operations\<close>

lemma delete_dependents_none:
  "\<not> hasTransactions name ty ts \<Longrightarrow> delete_dependents name ty ts = ts"
  by (simp add: delete_dependents_def hasTransactions_def list_ex_iff)

lemma reassign_dependents_nth:
  "i < length ts \<Longrightarrow> reassign_dependents name ty target ts ! i =
     (if is_dependent name ty (ts ! i) then (ts ! i)\<lparr>category := target\<rparr> else ts ! i)"
  by (simp add: reassign_dependents_def)

lemma reassign_dependents_none_left:
  "target \<noteq> name \<Longrightarrow> filter (is_dependent name ty) (reassign_dependents name ty target ts) = []"
  by (induction ts) (auto simp: reassign_dependents_def is_dependent_def)

lemma reassign_dependents_target_count:
  "target \<noteq> name \<Longrightarrow>
   length (filter (is_dependent target ty) (reassign_dependents name ty target ts)) =
   length (filter (is_dependent target ty) ts) + length (filter (is_dependent name ty) ts)"
  by (induction ts) (auto simp: reassign_dependents_def is_dependent_def)

end
