(* ===== verification/Registry.thy ===== *)
theory Registry
  imports Ledger
begin

text \<open>
  The category registry of App.js: the \<open>categories\<close> state object with one
  ordered list of names per transaction type, its default value, the guard
  and the update of \<open>handleAddNewCategory\<close> (trim, refuse an empty or an
  existing name, append), and the removal of a name done by
  \<open>executeCategoryDeletion\<close>.
\<close>

record cat_registry =
  income_cats :: "string list"
  expense_cats :: "string list"

text \<open>\<open>categories[type]\<close> and \<open>{ ...prev, [type]: names }\<close>.\<close>

definition cats_for :: "cat_registry \<Rightarrow> ttype \<Rightarrow> string list" where
  "cats_for c ty = (case ty of Income \<Rightarrow> income_cats c | Expense \<Rightarrow> expense_cats c)"

definition set_cats_for :: "ttype \<Rightarrow> string list \<Rightarrow> cat_registry \<Rightarrow> cat_registry" where
  "set_cats_for ty names c =
     (case ty of Income \<Rightarrow> c\<lparr>income_cats := names\<rparr> | Expense \<Rightarrow> c\<lparr>expense_cats := names\<rparr>)"

definition default_categories :: cat_registry where
  "default_categories =
     \<lparr>income_cats = [''Salary'', ''Gift'', ''Freelance''],
      expense_cats = [''Food'', ''Transport'', ''Shopping'', ''Bills'']\<rparr>"

text \<open>\<open>String.prototype.trim\<close>: white space removed at both ends.\<close>

definition js_trim :: "string \<Rightarrow> string" where
  "js_trim s = rev (dropWhile is_ws (rev (dropWhile is_ws s)))"

text \<open>
  The registry half of \<open>handleAddNewCategory\<close>: an empty trimmed name is
  refused (silently in App.js), an existing one with the duplicate alert;
  otherwise the trimmed name is appended to the list of the form's type.
\<close>

definition add_category :: "ttype \<Rightarrow> string \<Rightarrow> cat_registry \<Rightarrow> validation_error + cat_registry" where
  "add_category ty name c =
     (let n = js_trim name
      in if n = [] then Inl EmptyCategoryName
         else if n \<in> set (cats_for c ty) then Inl DuplicateCategory
         else Inr (set_cats_for ty (cats_for c ty @ [n]) c))"

definition remove_category :: "ttype \<Rightarrow> string \<Rightarrow> cat_registry \<Rightarrow> cat_registry" where
  "remove_category ty name c = set_cats_for ty (filter (\<lambda>x. x \<noteq> name) (cats_for c ty)) c"

text \<open>Names are unique within each type's list.\<close>

definition registry_wf :: "cat_registry \<Rightarrow> bool" where
  "registry_wf c \<longleftrightarrow> distinct (income_cats c) \<and> distinct (expense_cats c)"

subsection \<open>Facts about the registry operations\<close>

lemma cats_for_set_cats_for [simp]:
  "cats_for (set_cats_for ty names c) ty' = (if ty' = ty then names else cats_for c ty')"
  by (cases ty; cases ty') (simp_all add: cats_for_def set_cats_for_def)

lemma cats_for_remove_category:
  "cats_for (remove_category ty name c) ty' =
     (if ty' = ty then filter (\<lambda>x. x \<noteq> name) (cats_for c ty) else cats_for c ty')"
  by (simp add: remove_category_def)

lemma registry_wf_set_cats_for:
  "registry_wf c \<Longrightarrow> distinct names \<Longrightarrow> registry_wf (set_cats_for ty names c)"
  by (cases ty) (simp_all add: registry_wf_def set_cats_for_def)

lemma registry_wf_cats_for: "registry_wf c \<Longrightarrow> distinct (cats_for c ty)"
  by (cases ty) (simp_all add: registry_wf_def cats_for_def)

lemma add_category_wf:
  "add_category ty name c = Inr c' \<Longrightarrow> registry_wf c \<Longrightarrow> registry_wf c'"
  by (auto simp: add_category_def Let_def registry_wf_cats_for intro!: registry_wf_set_cats_for
      split: if_splits)

lemma add_category_cats:
  "add_category ty name c = Inr c' \<Longrightarrow>
   cats_for c' ty' = (if ty' = ty then cats_for c ty @ [js_trim name] else cats_for c ty')"
  by (auto simp: add_category_def Let_def split: if_splits)

lemma remove_category_wf: "registry_wf c \<Longrightarrow> registry_wf (remove_category ty name c)"
  by (simp add: remove_category_def registry_wf_set_cats_for registry_wf_cats_for)

lemma default_categories_wf: "registry_wf default_categories"
  by (simp add: registry_wf_def default_categories_def)

end
