(* ===== verification/MonthView.thy ===== *)
theory MonthView
  imports Ledger "HOL-Library.Product_Lexorder"
begin

text \<open>
  The derived month view of App.js, recomputed on every render:
  \<open>getFilteredTransactions\<close> (the transactions of the viewed month),
  \<open>getTotals\<close> (income, expense and balance of those) and
  \<open>getGroupedTransactions\<close> (one group per type and category, built by a
  \<open>forEach\<close> loop into an object whose keys keep insertion order, then
  sorted with a comparator: Income groups first, then by descending total).
  The loop is modelled as a left fold over an association list; the sort as
  the stable insertion sort that \<open>Array.prototype.sort\<close> specifies for a
  consistent comparator.
\<close>

definition getFilteredTransactions :: "jsdate \<Rightarrow> txn list \<Rightarrow> txn list" where
  "getFilteredTransactions cur txns = filter (\<lambda>t. isSameMonth (dateISO t) cur) txns"

record totals =
  income :: jsnum
  expense :: jsnum
  balance :: jsnum

text \<open>\<open>.filter(t => t.type === ty).reduce((acc, curr) => acc + Number(curr.amount), 0)\<close>\<close>

definition type_total :: "ttype \<Rightarrow> txn list \<Rightarrow> jsnum" where
  "type_total ty ts = foldl (\<lambda>acc t. acc + amount_value t) 0 (filter (\<lambda>t. ttype t = ty) ts)"

definition getTotals :: "txn list \<Rightarrow> totals" where
  "getTotals ts =
     (let i = type_total Income ts; e = type_total Expense ts
      in \<lparr>income = i, expense = e, balance = js_sub i e\<rparr>)"

text \<open>The key \<open>`${t.type}-${t.category}`\<close> of a transaction's group.\<close>

definition group_key :: "txn \<Rightarrow> string" where
  "group_key t = type_name (ttype t) @ ''-'' @ category t"

record txn_group =
  gkey :: string
  gcategory :: string
  gtype :: ttype
  gtotal :: jsnum
  gtxns :: "txn list"

text \<open>
  One iteration of the \<open>forEach\<close>: create the group of the key at the end of
  the object if it is missing (\<open>new_group\<close>: total \<open>0\<close>, then the push
  and the addition), otherwise push the transaction and add its amount to
  the running total (\<open>push_txn\<close>).
\<close>

definition push_txn :: "txn_group \<Rightarrow> txn \<Rightarrow> txn_group" where
  "push_txn g t = g\<lparr>gtxns := gtxns g @ [t], gtotal := gtotal g + amount_value t\<rparr>"

definition new_group :: "txn \<Rightarrow> txn_group" where
  "new_group t =
     push_txn \<lparr>gkey = group_key t, gcategory = category t, gtype = ttype t, gtotal = 0, gtxns = []\<rparr> t"

fun add_to_groups :: "txn_group list \<Rightarrow> txn \<Rightarrow> txn_group list" where
  "add_to_groups [] t = [new_group t]"
| "add_to_groups (g # gs) t =
     (if gkey g = group_key t then push_txn g t # gs else g # add_to_groups gs t)"

definition collect_groups :: "txn list \<Rightarrow> txn_group list" where
  "collect_groups ts = foldl add_to_groups [] ts"

text \<open>The comparator passed to \<open>sort\<close>.\<close>

definition group_cmp :: "txn_group \<Rightarrow> txn_group \<Rightarrow> jsnum" where
  "group_cmp a b =
     (if gtype a \<noteq> gtype b then (if gtype a = Income then Fin (-1) else Fin 1)
      else js_sub (gtotal b) (gtotal a))"

text \<open>
  Stable sort with a comparator: an element is placed before the first
  element it does not compare greater than.
\<close>

fun insert_by_cmp :: "('a \<Rightarrow> 'a \<Rightarrow> jsnum) \<Rightarrow> 'a \<Rightarrow> 'a list \<Rightarrow> 'a list" where
  "insert_by_cmp cmp x [] = [x]"
| "insert_by_cmp cmp x (y # ys) =
     (if js_nonpos (cmp x y) then x # y # ys else y # insert_by_cmp cmp x ys)"

definition sort_by_cmp :: "('a \<Rightarrow> 'a \<Rightarrow> jsnum) \<Rightarrow> 'a list \<Rightarrow> 'a list" where
  "sort_by_cmp cmp xs = foldr (insert_by_cmp cmp) xs []"

definition getGroupedTransactions :: "txn list \<Rightarrow> txn_group list" where
  "getGroupedTransactions ts = sort_by_cmp group_cmp (collect_groups ts)"

subsection \<open>The abstract view\<close>

text \<open>
  What the view promises: one group per key, in order of first occurrence,
  holding the transactions of that key in ledger order and their total,
  added left to right from \<open>0\<close> as \<open>groups[key].total += t.amount\<close> does
  (no reassociation, so the statement does not depend on the exactness of
  the model's addition).
\<close>

definition group_of :: "txn list \<Rightarrow> string \<Rightarrow> txn_group" where
  "group_of ts k =
     (let members = filter (\<lambda>t. group_key t = k) ts
      in \<lparr>gkey = k, gcategory = category (hd members), gtype = ttype (hd members),
          gtotal = foldl (+) 0 (map amount_value members), gtxns = members\<rparr>)"

definition abstract_groups :: "txn list \<Rightarrow> txn_group list" where
  "abstract_groups ts = map (group_of ts) (first_occurrences (map group_key ts))"

text \<open>The order the comparator means when every total is finite.\<close>

fun total_rat :: "jsnum \<Rightarrow> rat" where
  "total_rat (Fin q) = q"
| "total_rat _ = 0"

definition group_rank :: "txn_group \<Rightarrow> nat \<times> rat" where
  "group_rank g = (if gtype g = Income then 0 else 1, - total_rat (gtotal g))"

text \<open>A transaction of March 2025, for the examples below.\<close>

definition march_txn :: "string \<Rightarrow> ttype \<Rightarrow> rat \<Rightarrow> string \<Rightarrow> txn" where
  "march_txn i ty a c = \<lparr>tid = i, dateISO = \<lparr>year = 2025, month = 2, day = 10\<rparr>,
     displayDate = ''3/10/2025'', ttype = ty, amount = Some (Fin a), category = c, tnote = []\<rparr>"

subsection \<open>Correctness of the view\<close>

lemma group_key_eq_iff:
  "group_key a = group_key b \<longleftrightarrow> ttype a = ttype b \<and> category a = category b"
  by (cases "ttype a"; cases "ttype b") (simp_all add: group_key_def type_name_def)

lemma gkey_group_of [simp]: "gkey (group_of ts k) = k"
  by (simp add: group_of_def Let_def)

lemma add_to_groups_map:
  assumes "distinct ks"
  shows "add_to_groups (map (group_of ts) ks) t =
     (if group_key t \<in> set ks
      then map (\<lambda>k. if k = group_key t then push_txn (group_of ts k) t else group_of ts k) ks
      else map (group_of ts) ks @ [new_group t])"
  using assms by (induction ks) (auto simp: new_group_def push_txn_def)

lemma group_of_snoc:
  "group_of (ts @ [t]) k =
     (if group_key t = k then
        (if k \<in> group_key ` set ts then push_txn (group_of ts k) t else new_group t)
      else group_of ts k)"
proof (cases "group_key t = k")
  case True
  show ?thesis
  proof (cases "k \<in> group_key ` set ts")
    case True
    then have "filter (\<lambda>x. group_key x = k) ts \<noteq> []"
      by (auto simp: filter_empty_conv)
    with \<open>group_key t = k\<close> True show ?thesis
      by (auto simp: group_of_def push_txn_def Let_def)
  next
    case False
    then have "filter (\<lambda>x. group_key x = k) ts = []"
      by (auto simp: filter_empty_conv)
    with \<open>group_key t = k\<close> False show ?thesis
      by (simp add: group_of_def new_group_def push_txn_def Let_def)
  qed
next
  case False
  then show ?thesis by (simp add: group_of_def)
qed

theorem collect_groups_refines:
  "collect_groups ts = abstract_groups ts"
proof (induction ts rule: rev_induct)
  case Nil
  show ?case by (simp add: collect_groups_def abstract_groups_def first_occurrences_def)
next
  case (snoc t ts)
  let ?ks = "first_occurrences (map group_key ts)"
  have "collect_groups (ts @ [t]) = add_to_groups (map (group_of ts) ?ks) t"
    using snoc.IH by (simp add: collect_groups_def abstract_groups_def)
  also have "\<dots> = abstract_groups (ts @ [t])"
  proof (cases "group_key t \<in> group_key ` set ts")
    case True
    then show ?thesis
      by (auto simp: add_to_groups_map abstract_groups_def first_occurrences_snoc group_of_snoc
          intro!: map_cong)
  next
    case False
    then show ?thesis
      by (auto simp: add_to_groups_map abstract_groups_def first_occurrences_snoc group_of_snoc
          intro!: map_cong)
  qed
  finally show ?case .
qed

lemma mset_insert_by_cmp [simp]: "mset (insert_by_cmp cmp x xs) = add_mset x (mset xs)"
  by (induction xs) auto

lemma mset_sort_by_cmp [simp]: "mset (sort_by_cmp cmp xs) = mset xs"
  by (induction xs) (simp_all add: sort_by_cmp_def)

lemma group_cmp_rank:
  assumes "js_finite (gtotal a)" and "js_finite (gtotal b)"
  shows "js_nonpos (group_cmp a b) \<longleftrightarrow> group_rank a \<le> group_rank b"
  using assms
  by (cases "gtotal a"; cases "gtotal b"; cases "gtype a"; cases "gtype b")
     (simp_all add: group_cmp_def group_rank_def js_sub_def)

lemma insert_by_cmp_insort_key:
  assumes "\<forall>y\<in>set ys. js_nonpos (cmp x y) \<longleftrightarrow> f x \<le> f y"
  shows "insert_by_cmp cmp x ys = insort_key f x ys"
  using assms by (induction ys) auto

lemma sort_by_cmp_sort_key:
  assumes "\<forall>x\<in>set xs. \<forall>y\<in>set xs. js_nonpos (cmp x y) \<longleftrightarrow> f x \<le> f y"
  shows "sort_by_cmp cmp xs = sort_key f xs"
  using assms
proof (induction xs)
  case Nil
  then show ?case by (simp add: sort_by_cmp_def sort_key_def)
next
  case (Cons x xs)
  then have IH: "sort_by_cmp cmp xs = sort_key f xs" by simp
  have "insert_by_cmp cmp x (sort_key f xs) = insort_key f x (sort_key f xs)"
    using Cons.prems by (intro insert_by_cmp_insort_key) simp
  with IH show ?case by (simp add: sort_by_cmp_def sort_key_def)
qed

lemma js_finite_foldl:
  "js_finite a \<Longrightarrow> \<forall>x\<in>set xs. js_finite (f x) \<Longrightarrow> js_finite (foldl (+) a (map f xs))"
  by (induction xs arbitrary: a) (auto elim!: js_finite.elims)

lemma gtotal_finite_collect_groups:
  assumes "\<forall>t\<in>set ts. js_finite (amount_value t)"
  shows "\<forall>g\<in>set (collect_groups ts). js_finite (gtotal g)"
  using assms by (auto simp: collect_groups_refines abstract_groups_def group_of_def Let_def
      intro!: js_finite_foldl simp: js_zero_Fin)

subsection \<open>The properties of the month view\<close>

text \<open>
  C9. Order of the grouped view: when every amount is a finite number, all
  Income groups come before all Expense groups, and groups of the same type
  come in non-increasing order of their totals.
\<close>

theorem grouped_order:
  assumes "\<forall>t\<in>set ts. js_finite (amount_value t)"
    and "i < j" and "j < length (getGroupedTransactions ts)"
  shows "(gtype (getGroupedTransactions ts ! i) = Expense \<longrightarrow> gtype (getGroupedTransactions ts ! j) = Expense)
       \<and> (gtype (getGroupedTransactions ts ! i) = gtype (getGroupedTransactions ts ! j) \<longrightarrow>
            total_rat (gtotal (getGroupedTransactions ts ! j)) \<le> total_rat (gtotal (getGroupedTransactions ts ! i)))"
proof -
  let ?gs = "getGroupedTransactions ts"
  have "?gs = sort_key group_rank (collect_groups ts)"
    unfolding getGroupedTransactions_def
    using gtotal_finite_collect_groups [OF assms(1)]
    by (intro sort_by_cmp_sort_key) (simp add: group_cmp_rank)
  then have "sorted (map group_rank ?gs)" by simp
  then have "group_rank (?gs ! i) \<le> group_rank (?gs ! j)"
    using assms(2,3) by (auto simp: sorted_iff_nth_mono_less)
  then show ?thesis
    by (cases "gtype (?gs ! i)"; cases "gtype (?gs ! j)") (auto simp: group_rank_def)
qed

lemma grouped_order_witness:
  "let ts = [march_txn ''2'' Expense 50 ''Food'', march_txn ''1'' Income 1000 ''Salary''];
       gs = getGroupedTransactions ts
   in (\<forall>t\<in>set ts. js_finite (amount_value t)) \<and> (0::nat) < 1 \<and> 1 < length gs \<and>
      (gtype (gs ! 0) = Expense \<longrightarrow> gtype (gs ! 1) = Expense) \<and>
      (gtype (gs ! 0) = gtype (gs ! 1) \<longrightarrow> total_rat (gtotal (gs ! 1)) \<le> total_rat (gtotal (gs ! 0)))"
proof -
  let ?ts = "[march_txn ''2'' Expense 50 ''Food'', march_txn ''1'' Income 1000 ''Salary'']"
  have fin: "\<forall>t\<in>set ?ts. js_finite (amount_value t)"
    by (simp add: march_txn_def amount_value_def)
  have len: "1 < length (getGroupedTransactions ?ts)"
    by (simp add: getGroupedTransactions_def collect_groups_def sort_by_cmp_def group_cmp_def
        new_group_def push_txn_def group_key_def type_name_def march_txn_def amount_value_def js_zero_Fin)
  show ?thesis
    using grouped_order [OF fin _ len, of 0] fin len by (simp add: Let_def)
qed

text \<open>
  C10. The comparator sort is the library's stable sort by key: when every
  amount is finite, sorting the groups with the comparator of
  \<open>getGroupedTransactions\<close> gives exactly \<open>sort_key\<close> by the rank
  (type first, then the negated total), so the result is the unique stable
  ordering of the groups by that rank.
\<close>

theorem grouped_sort_key:
  assumes "\<forall>t\<in>set ts. js_finite (amount_value t)"
  shows "getGroupedTransactions ts = sort_key group_rank (collect_groups ts)"
  unfolding getGroupedTransactions_def
  using gtotal_finite_collect_groups [OF assms]
  by (intro sort_by_cmp_sort_key) (simp add: group_cmp_rank)

lemma grouped_sort_key_witness:
  "let ts = [march_txn ''2'' Expense 50 ''Food'', march_txn ''1'' Income 1000 ''Salary'']
   in (\<forall>t\<in>set ts. js_finite (amount_value t)) \<and>
      getGroupedTransactions ts = sort_key group_rank (collect_groups ts)"
proof -
  let ?ts = "[march_txn ''2'' Expense 50 ''Food'', march_txn ''1'' Income 1000 ''Salary'']"
  have fin: "\<forall>t\<in>set ?ts. js_finite (amount_value t)"
    by (simp add: march_txn_def amount_value_def)
  show ?thesis using grouped_sort_key [OF fin] fin by (simp add: Let_def)
qed

text \<open>
  C8. Each group of the view is exactly what the spec describes: the keys are
  distinct and are the keys of the ledger, and the group of a key holds all
  transactions of that type and category in ledger order (none of them
  missing, none repeated, and not re-sorted by date, whatever the comment
  at App.js line 199 says), carries their type and category, and its total
  is their amounts added left to right from \<open>0\<close>, in that order.
\<close>

theorem grouped_members:
  "distinct (map gkey (getGroupedTransactions ts)) \<and>
   gkey ` set (getGroupedTransactions ts) = group_key ` set ts \<and>
   (\<forall>g\<in>set (getGroupedTransactions ts).
      gtxns g = filter (\<lambda>t. group_key t = gkey g) ts \<and> gtxns g \<noteq> [] \<and>
      gtotal g = foldl (+) 0 (map amount_value (gtxns g)) \<and>
      (\<forall>t\<in>set (gtxns g). ttype t = gtype g \<and> category t = gcategory g))"
proof -
  have set_eq: "set (getGroupedTransactions ts) = set (abstract_groups ts)"
    unfolding getGroupedTransactions_def collect_groups_refines [symmetric]
    by (metis mset_sort_by_cmp set_mset_mset)
  have mset_eq: "mset (map gkey (getGroupedTransactions ts)) = mset (first_occurrences (map group_key ts))"
    by (simp add: getGroupedTransactions_def collect_groups_refines abstract_groups_def
        image_mset.compositionality comp_def)
  have "distinct (map gkey (getGroupedTransactions ts))"
    using mset_eq by (metis mset_eq_imp_distinct_iff first_occurrences_distinct)
  moreover have "gkey ` set (getGroupedTransactions ts) = group_key ` set ts"
    using set_eq by (auto simp: abstract_groups_def image_image)
  moreover have "\<forall>g\<in>set (getGroupedTransactions ts).
      gtxns g = filter (\<lambda>t. group_key t = gkey g) ts \<and> gtxns g \<noteq> [] \<and>
      gtotal g = foldl (+) 0 (map amount_value (gtxns g)) \<and>
      (\<forall>t\<in>set (gtxns g). ttype t = gtype g \<and> category t = gcategory g)"
  proof
    fix g assume "g \<in> set (getGroupedTransactions ts)"
    then obtain k where k: "k \<in> group_key ` set ts" and g: "g = group_of ts k"
      using set_eq by (auto simp: abstract_groups_def)
    then have ne: "filter (\<lambda>t. group_key t = k) ts \<noteq> []"
      by (auto simp: filter_empty_conv)
    have "\<forall>t\<in>set (filter (\<lambda>t. group_key t = k) ts).
        ttype t = ttype (hd (filter (\<lambda>t. group_key t = k) ts)) \<and>
        category t = category (hd (filter (\<lambda>t. group_key t = k) ts))"
      using ne hd_in_set [OF ne] by (auto simp: group_key_eq_iff)
    with ne show "gtxns g = filter (\<lambda>t. group_key t = gkey g) ts \<and> gtxns g \<noteq> [] \<and>
      gtotal g = foldl (+) 0 (map amount_value (gtxns g)) \<and>
      (\<forall>t\<in>set (gtxns g). ttype t = gtype g \<and> category t = gcategory g)"
      by (simp add: g group_of_def Let_def)
  qed
  ultimately show ?thesis by blast
qed

lemma grouped_members_witness:
  "let ts = [march_txn ''2'' Expense 50 ''Food'', march_txn ''1'' Income 1000 ''Salary'']
   in length (getGroupedTransactions ts) = 2 \<and>
      (\<forall>g\<in>set (getGroupedTransactions ts). gtotal g = foldl (+) 0 (map amount_value (gtxns g)))"
proof -
  let ?ts = "[march_txn ''2'' Expense 50 ''Food'', march_txn ''1'' Income 1000 ''Salary'']"
  have "length (getGroupedTransactions ?ts) = 2"
    by (simp add: getGroupedTransactions_def collect_groups_def sort_by_cmp_def group_cmp_def
        new_group_def push_txn_def group_key_def type_name_def march_txn_def amount_value_def js_zero_Fin)
  then show ?thesis using grouped_members [of ?ts] by (simp add: Let_def)
qed

end
