(* ===== verification/AppState.thy ===== *)
theory AppState
  imports Registry MonthView
begin

text \<open>
  The state of the \<open>App\<close> component (its \<open>useState\<close> hooks) as one record,
  and its handlers as functions from the state to the next state. A handler
  that calls several setters is one function that updates all of their
  fields; \<open>Alert.alert\<close> puts a dialog into the \<open>alert\<close> field, and the
  dialog's buttons are events of the App theory. The persistence effects are
  in the Persistence theory; the time and the clock are inputs of the events
  that read them (\<open>new Date()\<close>, \<open>Date.now()\<close>).
\<close>

datatype theme_mode = Light | Dark

text \<open>The dialogs App.js opens with \<open>Alert.alert\<close>.\<close>

datatype alert_box =
    Notice string string
  | ConfirmTxnDelete txn_id
  | ConfirmCategoryDelete string ttype

text \<open>A reading of the clock: \<open>Date.now()\<close> and the local date of \<open>new Date()\<close>.\<close>

record clock =
  now_ms :: ms
  now_date :: jsdate

text \<open>What \<open>loadData\<close> finds under a storage key: nothing, a parsable value, or
  text on which \<open>JSON.parse\<close> throws.\<close>

datatype 'a stored = Missing | Stored 'a | Unparsable

record app_state =
  theme :: theme_mode
  isLoaded :: bool
  transactions :: "txn list"
  categories :: cat_registry
  modalVisible :: bool
  newTransaction :: txn_form
  newCategoryName :: string
  isAddingCategory :: bool
  currentDate :: jsdate
  pickerVisible :: bool
  pickerYear :: int
  expandedCategories :: "string \<Rightarrow> bool"
  deleteModalVisible :: bool
  categoryToDelete :: "(string \<times> ttype) option"
  reassignCategory :: string
  alert :: "alert_box option"

text \<open>The initial values of the hooks, at the clock reading of the first render.\<close>

definition initial_state :: "clock \<Rightarrow> app_state" where
  "initial_state c =
     \<lparr>theme = Light, isLoaded = False, transactions = [], categories = default_categories,
      modalVisible = False, newTransaction = empty_form, newCategoryName = [],
      isAddingCategory = False, currentDate = now_date c, pickerVisible = False,
      pickerYear = year (now_date c), expandedCategories = (\<lambda>_. False),
      deleteModalVisible = False, categoryToDelete = None, reassignCategory = [], alert = None\<rparr>"

text \<open>The dialog each validation failure raises (none for an empty category name).\<close>

definition alert_of_error :: "validation_error \<Rightarrow> alert_box option" where
  "alert_of_error e = (case e of
       MissingInfo \<Rightarrow> Some (Notice ''Missing Info'' ''Please enter an amount and select a category.'')
     | EmptyCategoryName \<Rightarrow> None
     | DuplicateCategory \<Rightarrow> Some (Notice ''Error'' ''Category already exists.'')
     | NoReassignTarget \<Rightarrow> Some (Notice ''Error'' ''Please select a category to reassign to.''))"

subsection \<open>Loading\<close>

text \<open>
  \<open>loadData\<close> once all three reads resolved: each present value is parsed
  and set in turn; a parse failure jumps to the catch block (the error
  dialog), skipping the later setters; \<open>finally\<close> sets \<open>isLoaded\<close>.
\<close>

definition load_error :: alert_box where
  "load_error = Notice ''Error'' ''Failed to load data.''"

definition loadData ::
  "txn list stored \<Rightarrow> cat_registry stored \<Rightarrow> theme_mode option \<Rightarrow> app_state \<Rightarrow> app_state" where
  "loadData st sc th s =
     (case st of
        Unparsable \<Rightarrow> s\<lparr>alert := Some load_error, isLoaded := True\<rparr>
      | _ \<Rightarrow>
        (let s1 = (case st of Stored ts \<Rightarrow> s\<lparr>transactions := ts\<rparr> | _ \<Rightarrow> s)
         in case sc of
              Unparsable \<Rightarrow> s1\<lparr>alert := Some load_error, isLoaded := True\<rparr>
            | _ \<Rightarrow>
              (let s2 = (case sc of Stored c \<Rightarrow> s1\<lparr>categories := c\<rparr> | _ \<Rightarrow> s1);
                   s3 = (case th of Some t \<Rightarrow> s2\<lparr>theme := t\<rparr> | None \<Rightarrow> s2)
               in s3\<lparr>isLoaded := True\<rparr>)))"

text \<open>\<open>Promise.all\<close> rejected: only the catch block and \<open>finally\<close> run.\<close>

definition loadRejected :: "app_state \<Rightarrow> app_state" where
  "loadRejected s = s\<lparr>alert := Some load_error, isLoaded := True\<rparr>"

subsection \<open>Handlers\<close>

definition toggleTheme :: "app_state \<Rightarrow> app_state" where
  "toggleTheme s = s\<lparr>theme := (if theme s = Light then Dark else Light)\<rparr>"

definition handleAddTransaction :: "clock \<Rightarrow> app_state \<Rightarrow> app_state" where
  "handleAddTransaction c s =
     (case add_transaction (now_ms c) (now_date c) (currentDate s) (newTransaction s) (transactions s) of
        Inl e \<Rightarrow> s\<lparr>alert := alert_of_error e\<rparr>
      | Inr txns \<Rightarrow>
          s\<lparr>transactions := txns, modalVisible := False, newTransaction := empty_form,
            newCategoryName := [], isAddingCategory := False\<rparr>)"

definition confirmDelete :: "txn_id \<Rightarrow> app_state \<Rightarrow> app_state" where
  "confirmDelete i s = s\<lparr>alert := Some (ConfirmTxnDelete i)\<rparr>"

text \<open>The Delete button of that dialog.\<close>

definition deleteTransaction :: "txn_id \<Rightarrow> app_state \<Rightarrow> app_state" where
  "deleteTransaction i s = s\<lparr>transactions := remove_transaction i (transactions s)\<rparr>"

definition handleAddNewCategory :: "app_state \<Rightarrow> app_state" where
  "handleAddNewCategory s =
     (case add_category (ftype (newTransaction s)) (newCategoryName s) (categories s) of
        Inl e \<Rightarrow> (if e = EmptyCategoryName then s else s\<lparr>alert := alert_of_error e\<rparr>)
      | Inr c \<Rightarrow>
          s\<lparr>categories := c,
            newTransaction := (newTransaction s)\<lparr>fcategory := js_trim (newCategoryName s)\<rparr>,
            newCategoryName := [], isAddingCategory := False\<rparr>)"

text \<open>
  Deleting a category first looks for dependent transactions of the form's
  current type: with dependents the resolution modal opens, without them a
  confirmation dialog.
\<close>

definition handleDeleteCategoryInitiation :: "string \<Rightarrow> app_state \<Rightarrow> app_state" where
  "handleDeleteCategoryInitiation name s =
     (let ty = ftype (newTransaction s)
      in if hasTransactions name ty (transactions s)
         then s\<lparr>categoryToDelete := Some (name, ty), deleteModalVisible := True\<rparr>
         else s\<lparr>alert := Some (ConfirmCategoryDelete name ty)\<rparr>)"

definition executeCategoryDeletion ::
  "string \<Rightarrow> ttype \<Rightarrow> deletion_action \<Rightarrow> app_state \<Rightarrow> app_state" where
  "executeCategoryDeletion name ty action s =
     (case ledger_category_deletion name ty action (reassignCategory s) (transactions s) of
        Inl e \<Rightarrow> s\<lparr>alert := alert_of_error e\<rparr>
      | Inr txns \<Rightarrow>
          s\<lparr>transactions := txns,
            categories := remove_category ty name (categories s),
            newTransaction :=
              (if fcategory (newTransaction s) = name
               then (newTransaction s)\<lparr>fcategory := []\<rparr> else newTransaction s),
            deleteModalVisible := False, categoryToDelete := None, reassignCategory := []\<rparr>)"

definition openPicker :: "app_state \<Rightarrow> app_state" where
  "openPicker s = s\<lparr>pickerYear := year (currentDate s), pickerVisible := True\<rparr>"

definition selectMonthYear :: "int \<Rightarrow> app_state \<Rightarrow> app_state" where
  "selectMonthYear monthIndex s =
     s\<lparr>currentDate := new_date (pickerYear s) monthIndex 1, pickerVisible := False\<rparr>"

definition toggleCategory :: "string \<Rightarrow> app_state \<Rightarrow> app_state" where
  "toggleCategory k s =
     s\<lparr>expandedCategories := (expandedCategories s)(k := \<not> expandedCategories s k)\<rparr>"

text \<open>A clock reading on 10 March 2025 and a loaded state with a filled form, for the examples.\<close>

definition clock_mar10 :: clock where
  "clock_mar10 = \<lparr>now_ms = 1741600000000, now_date = \<lparr>year = 2025, month = 2, day = 10\<rparr>\<rparr>"

definition filled_state :: "string \<Rightarrow> app_state" where
  "filled_state amt = (initial_state clock_mar10)\<lparr>isLoaded := True, modalVisible := True,
     newTransaction := \<lparr>ftype = Expense, famount = amt, fcategory = ''Food'', fnote = []\<rparr>\<rparr>"

subsection \<open>The rendered view\<close>

definition filteredTransactions :: "app_state \<Rightarrow> txn list" where
  "filteredTransactions s = getFilteredTransactions (currentDate s) (transactions s)"

definition groupedTransactions :: "app_state \<Rightarrow> txn_group list" where
  "groupedTransactions s = getGroupedTransactions (filteredTransactions s)"

definition totalsOf :: "app_state \<Rightarrow> totals" where
  "totalsOf s = getTotals (filteredTransactions s)"

declare toggleTheme_def [handler_defs] confirmDelete_def [handler_defs]
  openPicker_def [handler_defs] selectMonthYear_def [handler_defs] toggleCategory_def [handler_defs]
declare filteredTransactions_def [view_defs] getFilteredTransactions_def [view_defs]
  isSameMonth_def [view_defs]

subsection \<open>The handlers' behaviour\<close>

lemma valid_date_mar10: "valid_date (now_date clock_mar10)"
  by (simp add: clock_mar10_def valid_date_def days_in_month_def)

lemma type_total_NaN:
  assumes "t \<in> set ts" and "ttype t = ty" and "amount_value t = NaN"
  shows "type_total ty ts = NaN"
proof -
  have "NaN \<in> set (map amount_value (filter (\<lambda>t. ttype t = ty) ts))"
    using assms by (auto intro: rev_image_eqI [of t])
  then show ?thesis by (simp add: type_total_def foldl_plus_sum_list sum_list_NaN)
qed

text \<open>
  C1. Saving a transaction with an amount text and a category prepends exactly
  one transaction: its id is the clock reading as a string, its date is the
  viewed month with today's day of month clamped to the month's last day
  (the rollover rule), its fields are the form's with the amount through
  \<open>parseFloat\<close>; it appears in the month view, and the form is reset and
  the modal closed.
\<close>

theorem handleAddTransaction_adds:
  assumes "famount (newTransaction s) \<noteq> []" and "fcategory (newTransaction s) \<noteq> []"
    and "valid_date (now_date c)" and "valid_date (currentDate s)"
  shows "\<exists>t. transactions (handleAddTransaction c s) = t # transactions s \<and>
           tid t = show_nat (now_ms c) \<and>
           dateISO t = (currentDate s)\<lparr>day := min (day (now_date c))
                          (days_in_month (year (currentDate s)) (month (currentDate s)))\<rparr> \<and>
           ttype t = ftype (newTransaction s) \<and> category t = fcategory (newTransaction s) \<and>
           amount t = Some (parse_float (famount (newTransaction s))) \<and>
           tnote t = fnote (newTransaction s) \<and>
           t \<in> set (filteredTransactions (handleAddTransaction c s)) \<and>
           newTransaction (handleAddTransaction c s) = empty_form \<and>
           \<not> modalVisible (handleAddTransaction c s) \<and> alert (handleAddTransaction c s) = alert s"
proof -
  let ?t = "new_transaction (now_ms c) (now_date c) (currentDate s) (newTransaction s)"
  have d: "dateISO ?t = (currentDate s)\<lparr>day := min (day (now_date c))
              (days_in_month (year (currentDate s)) (month (currentDate s)))\<rparr>"
    using assms(3,4) by (simp add: new_transaction_def Let_def transaction_date_clamp)
  have s': "handleAddTransaction c s =
      s\<lparr>transactions := ?t # transactions s, modalVisible := False, newTransaction := empty_form,
        newCategoryName := [], isAddingCategory := False\<rparr>"
    using assms(1,2) by (simp add: handleAddTransaction_def add_transaction_def)
  have "?t \<in> set (filteredTransactions (handleAddTransaction c s))"
    using d by (simp add: s' view_defs)
  with d show ?thesis
    by (intro exI [of _ ?t]) (simp add: s' new_transaction_def Let_def)
qed

lemma handleAddTransaction_adds_witness:
  "let s = filled_state ''12.50''; c = clock_mar10 in
     famount (newTransaction s) \<noteq> [] \<and> fcategory (newTransaction s) \<noteq> [] \<and>
     valid_date (now_date c) \<and> valid_date (currentDate s) \<and>
     length (transactions (handleAddTransaction c s)) = Suc (length (transactions s))"
proof -
  have v: "valid_date (currentDate (filled_state ''12.50''))"
    using valid_date_mar10 by (simp add: filled_state_def initial_state_def)
  show ?thesis
    using handleAddTransaction_adds [of "filled_state ''12.50''" clock_mar10] v valid_date_mar10
    by (auto simp: filled_state_def Let_def)
qed

text \<open>
  C11. The validation errors of the handlers change nothing but the dialog:
  a save without an amount text or a category opens the Missing Info
  notice; a new category name that trims to nothing is ignored without any
  dialog (the handler returns early); a name already listed for the type
  opens the duplicate notice; a reassignment without a chosen target opens
  its notice.
\<close>

theorem validation_errors:
  "(famount (newTransaction sm) = [] \<or> fcategory (newTransaction sm) = [] \<longrightarrow>
      handleAddTransaction c sm =
        sm\<lparr>alert := Some (Notice ''Missing Info'' ''Please enter an amount and select a category.'')\<rparr>) \<and>
   (js_trim (newCategoryName se) = [] \<longrightarrow> handleAddNewCategory se = se) \<and>
   (js_trim (newCategoryName sd) \<noteq> [] \<and>
    js_trim (newCategoryName sd) \<in> set (cats_for (categories sd) (ftype (newTransaction sd))) \<longrightarrow>
      handleAddNewCategory sd = sd\<lparr>alert := Some (Notice ''Error'' ''Category already exists.'')\<rparr>) \<and>
   (reassignCategory sr = [] \<longrightarrow>
      executeCategoryDeletion name ty ReassignAction sr =
        sr\<lparr>alert := Some (Notice ''Error'' ''Please select a category to reassign to.'')\<rparr>)"
proof (intro conjI impI)
  assume "famount (newTransaction sm) = [] \<or> fcategory (newTransaction sm) = []"
  then show "handleAddTransaction c sm =
      sm\<lparr>alert := Some (Notice ''Missing Info'' ''Please enter an amount and select a category.'')\<rparr>"
    by (auto simp: handleAddTransaction_def add_transaction_def alert_of_error_def)
next
  assume "js_trim (newCategoryName se) = []"
  then show "handleAddNewCategory se = se"
    by (simp add: handleAddNewCategory_def add_category_def alert_of_error_def)
next
  assume "js_trim (newCategoryName sd) \<noteq> [] \<and>
    js_trim (newCategoryName sd) \<in> set (cats_for (categories sd) (ftype (newTransaction sd)))"
  then show "handleAddNewCategory sd = sd\<lparr>alert := Some (Notice ''Error'' ''Category already exists.'')\<rparr>"
    by (simp add: handleAddNewCategory_def add_category_def alert_of_error_def Let_def)
next
  assume "reassignCategory sr = []"
  then show "executeCategoryDeletion name ty ReassignAction sr =
      sr\<lparr>alert := Some (Notice ''Error'' ''Please select a category to reassign to.'')\<rparr>"
    by (simp add: executeCategoryDeletion_def ledger_category_deletion_def alert_of_error_def)
qed

lemma validation_errors_witness:
  "famount (newTransaction (filled_state [])) = [] \<and>
   handleAddTransaction clock_mar10 (filled_state []) =
     (filled_state [])\<lparr>alert := Some (Notice ''Missing Info'' ''Please enter an amount and select a category.'')\<rparr> \<and>
   js_trim (newCategoryName (filled_state ''12'')) = [] \<and>
   handleAddNewCategory (filled_state ''12'') = filled_state ''12'' \<and>
   js_trim (newCategoryName ((filled_state ''12'')\<lparr>newCategoryName := '' Food ''\<rparr>)) = ''Food'' \<and>
   alert (handleAddNewCategory ((filled_state ''12'')\<lparr>newCategoryName := '' Food ''\<rparr>)) =
     Some (Notice ''Error'' ''Category already exists.'') \<and>
   reassignCategory (filled_state []) = [] \<and>
   alert (executeCategoryDeletion ''Food'' Expense ReassignAction (filled_state [])) =
     Some (Notice ''Error'' ''Please select a category to reassign to.'')"
proof -
  have t: "js_trim '' Food '' = ''Food''" "js_trim [] = []"
    by (simp_all add: js_trim_def is_ws_def)
  have h: "famount (newTransaction (filled_state [])) = []"
    "js_trim (newCategoryName (filled_state ''12'')) = []"
    "js_trim (newCategoryName ((filled_state ''12'')\<lparr>newCategoryName := '' Food ''\<rparr>)) \<noteq> [] \<and>
     js_trim (newCategoryName ((filled_state ''12'')\<lparr>newCategoryName := '' Food ''\<rparr>)) \<in>
       set (cats_for (categories ((filled_state ''12'')\<lparr>newCategoryName := '' Food ''\<rparr>))
         (ftype (newTransaction ((filled_state ''12'')\<lparr>newCategoryName := '' Food ''\<rparr>))))"
    "reassignCategory (filled_state []) = []"
    using t by (simp_all add: filled_state_def initial_state_def cats_for_def default_categories_def)
  show ?thesis
    using validation_errors [where sm = "filled_state []" and c = clock_mar10 and se = "filled_state ''12''"
        and sd = "(filled_state ''12'')\<lparr>newCategoryName := '' Food ''\<rparr>" and sr = "filled_state []"
        and name = "''Food''" and ty = Expense] h t
    by simp
qed

text \<open>
  C14. An amount text that \<open>parseFloat\<close> cannot read is accepted: the only
  check is that the text is not empty. The transaction is stored with
  amount NaN, and the balance of its month becomes NaN.
\<close>

theorem handleAddTransaction_nan_amount:
  assumes "famount (newTransaction s) \<noteq> []" and "fcategory (newTransaction s) \<noteq> []"
    and "valid_date (now_date c)" and "valid_date (currentDate s)"
    and "parse_float (famount (newTransaction s)) = NaN"
  shows "amount (hd (transactions (handleAddTransaction c s))) = Some NaN \<and>
         balance (totalsOf (handleAddTransaction c s)) = NaN"
proof -
  let ?s = "handleAddTransaction c s"
  let ?t = "new_transaction (now_ms c) (now_date c) (currentDate s) (newTransaction s)"
  have s': "transactions ?s = ?t # transactions s" "currentDate ?s = currentDate s"
    using assms(1,2) by (simp_all add: handleAddTransaction_def add_transaction_def)
  have d: "isSameMonth (dateISO ?t) (currentDate s)"
    using assms(3,4) by (simp add: new_transaction_def Let_def transaction_date_clamp isSameMonth_def)
  have a: "amount_value ?t = NaN"
    using assms(5) by (simp add: new_transaction_def Let_def amount_value_def)
  have "?t \<in> set (filteredTransactions ?s)"
    using d s' by (simp add: view_defs)
  then have "type_total (ttype ?t) (filteredTransactions ?s) = NaN"
    using a by (simp add: type_total_NaN)
  then have "balance (totalsOf ?s) = NaN"
    by (cases "ttype ?t") (simp_all add: totalsOf_def getTotals_def Let_def js_sub_def)
  moreover have "amount (hd (transactions ?s)) = Some NaN"
    using assms(5) s' by (simp add: new_transaction_def Let_def)
  ultimately show ?thesis by simp
qed

lemma handleAddTransaction_nan_amount_witness:
  "let s = filled_state ''abc''; c = clock_mar10 in
     famount (newTransaction s) \<noteq> [] \<and> fcategory (newTransaction s) \<noteq> [] \<and>
     valid_date (now_date c) \<and> valid_date (currentDate s) \<and>
     parse_float (famount (newTransaction s)) = NaN \<and>
     balance (totalsOf (handleAddTransaction c s)) = NaN"
proof -
  have v: "valid_date (currentDate (filled_state ''abc''))"
    using valid_date_mar10 by (simp add: filled_state_def initial_state_def)
  have p: "parse_float (famount (newTransaction (filled_state ''abc''))) = NaN"
    by (simp add: filled_state_def parse_float_def is_ws_def is_digit_def split_sign_def)
  show ?thesis
    using handleAddTransaction_nan_amount [of "filled_state ''abc''" clock_mar10] v p valid_date_mar10
    by (auto simp: filled_state_def Let_def)
qed

text \<open>
  C4. Deleting a category with the delete-all choice removes exactly its
  dependent transactions (those of its type and name), keeps every other
  transaction in order, removes the name from its type's list only, clears
  the form's category if it was that name, and closes the modal.
\<close>

theorem executeCategoryDeletion_delete:
  "let s' = executeCategoryDeletion name ty DeleteAction s in
     transactions s' = filter (\<lambda>t. \<not> is_dependent name ty t) (transactions s) \<and>
     length (transactions s') = length (transactions s) - length (filter (is_dependent name ty) (transactions s)) \<and>
     \<not> hasTransactions name ty (transactions s') \<and>
     cats_for (categories s') ty = filter (\<lambda>x. x \<noteq> name) (cats_for (categories s) ty) \<and>
     (\<forall>ty'. ty' \<noteq> ty \<longrightarrow> cats_for (categories s') ty' = cats_for (categories s) ty') \<and>
     fcategory (newTransaction s') =
       (if fcategory (newTransaction s) = name then [] else fcategory (newTransaction s)) \<and>
     \<not> deleteModalVisible s' \<and> categoryToDelete s' = None"
  by (auto simp: executeCategoryDeletion_def ledger_category_deletion_def Let_def
      length_filter_not cats_for_remove_category hasTransactions_def list_ex_iff
      delete_dependents_def)

lemma executeCategoryDeletion_delete_witness:
  "let s = (filled_state [])\<lparr>transactions := [new_transaction 0 (now_date clock_mar10)
             (now_date clock_mar10) (newTransaction (filled_state []))]\<rparr>;
       s' = executeCategoryDeletion ''Food'' Expense DeleteAction s in
     transactions s' = [] \<and>
     cats_for (categories s') Expense = [''Transport'', ''Shopping'', ''Bills''] \<and>
     cats_for (categories s') Income = [''Salary'', ''Gift'', ''Freelance''] \<and>
     fcategory (newTransaction s') = []"
proof -
  let ?s = "(filled_state [])\<lparr>transactions := [new_transaction 0 (now_date clock_mar10)
             (now_date clock_mar10) (newTransaction (filled_state []))]\<rparr>"
  have c: "cats_for (categories ?s) Expense = [''Food'', ''Transport'', ''Shopping'', ''Bills'']"
    "cats_for (categories ?s) Income = [''Salary'', ''Gift'', ''Freelance'']"
    "fcategory (newTransaction ?s) = ''Food''"
    "is_dependent ''Food'' Expense (hd (transactions ?s))" "transactions ?s = [hd (transactions ?s)]"
    by (simp_all add: filled_state_def initial_state_def cats_for_def default_categories_def
        is_dependent_def new_transaction_def Let_def)
  show ?thesis
    using executeCategoryDeletion_delete [of "''Food''" Expense ?s] c
    by (simp add: Let_def)
qed

text \<open>
  C5. Deleting a category by reassignment to a target other than itself keeps
  the length of the ledger, rewrites the category of exactly the dependent
  transactions (position by position) to the target, so that none is left
  and the target gains exactly as many, and removes the name from its
  type's list.
\<close>

theorem executeCategoryDeletion_reassign:
  assumes "reassignCategory s \<noteq> []" and "reassignCategory s \<noteq> name"
  shows "let s' = executeCategoryDeletion name ty ReassignAction s; ts = transactions s;
             ts' = transactions s'; target = reassignCategory s in
     length ts' = length ts \<and>
     (\<forall>i<length ts. ts' ! i =
        (if is_dependent name ty (ts ! i) then (ts ! i)\<lparr>category := target\<rparr> else ts ! i)) \<and>
     \<not> hasTransactions name ty ts' \<and>
     length (filter (is_dependent target ty) ts') =
       length (filter (is_dependent target ty) ts) + length (filter (is_dependent name ty) ts) \<and>
     cats_for (categories s') ty = filter (\<lambda>x. x \<noteq> name) (cats_for (categories s) ty) \<and>
     \<not> deleteModalVisible s' \<and> reassignCategory s' = []"
proof -
  have s': "executeCategoryDeletion name ty ReassignAction s =
      s\<lparr>transactions := reassign_dependents name ty (reassignCategory s) (transactions s),
        categories := remove_category ty name (categories s),
        newTransaction := (if fcategory (newTransaction s) = name
                           then (newTransaction s)\<lparr>fcategory := []\<rparr> else newTransaction s),
        deleteModalVisible := False, categoryToDelete := None, reassignCategory := []\<rparr>"
    using assms(1) by (simp add: executeCategoryDeletion_def ledger_category_deletion_def)
  have none: "\<not> hasTransactions name ty (reassign_dependents name ty (reassignCategory s) (transactions s))"
    using reassign_dependents_none_left [OF assms(2)]
    by (simp add: hasTransactions_def list_ex_iff filter_empty_conv)
  show ?thesis
    using none assms(2)
    by (simp add: s' Let_def reassign_dependents_nth reassign_dependents_target_count
        cats_for_remove_category) (simp add: reassign_dependents_def)
qed

lemma executeCategoryDeletion_reassign_witness:
  "let s = (filled_state [])\<lparr>reassignCategory := ''Bills''\<rparr> in
     reassignCategory s \<noteq> [] \<and> reassignCategory s \<noteq> ''Food'' \<and>
     \<not> deleteModalVisible (executeCategoryDeletion ''Food'' Expense ReassignAction s)"
  using executeCategoryDeletion_reassign [of "(filled_state [])\<lparr>reassignCategory := ''Bills''\<rparr>" "''Food''" Expense]
  by (simp add: Let_def)

text \<open>
  C29. The outcome of \<open>loadData\<close> on every combination of what the three
  reads found. The app always counts as loaded afterwards. A slot that does
  not parse opens the error dialog and stops the sequence there: the
  transactions are set only if their slot parsed, the categories only if
  both slots parsed, and the theme only if neither failed. So a category
  list that does not parse leaves a partial load, with the transactions
  kept and the categories and theme at their old values.
\<close>

theorem loadData_outcome:
  "let s' = loadData st sc th s in
     isLoaded s' \<and>
     alert s' = (if st = Unparsable \<or> sc = Unparsable then Some load_error else alert s) \<and>
     transactions s' = (case st of Stored ts \<Rightarrow> ts | _ \<Rightarrow> transactions s) \<and>
     categories s' = (case (st, sc) of (Unparsable, _) \<Rightarrow> categories s | (_, Stored c) \<Rightarrow> c
                        | _ \<Rightarrow> categories s) \<and>
     theme s' = (case th of Some t \<Rightarrow> if st = Unparsable \<or> sc = Unparsable then theme s else t
                  | None \<Rightarrow> theme s) \<and>
     s'\<lparr>isLoaded := isLoaded s, alert := alert s, transactions := transactions s,
        categories := categories s, theme := theme s\<rparr> = s"
  by (cases st; cases sc; cases th) (simp_all add: loadData_def Let_def)

end
