(* ===== verification/AppEvents.thy ===== *)
theory AppEvents
  imports AppState
begin

text \<open>
  The user interface of App.js as a state machine. Each \<open>onPress\<close>,
  \<open>onLongPress\<close>, \<open>onChangeText\<close> and \<open>onRequestClose\<close> callback of the JSX
  is an event; an event only has an effect when its element is rendered and
  on top: the spinner before loading, then an open dialog, then the
  category-deletion modal, then the month picker or the add-transaction
  modal, then the main screen. Elements the JSX renders conditionally (the
  add button, the chips, the category name field) carry their condition as
  the guard of their event. \<open>step\<close> is one event; \<open>reachable\<close> are the
  states a run of events leads to from the first render.
\<close>

datatype event =
    LoadDone "txn list stored" "cat_registry stored" "theme_mode option"
  | LoadRejected
  | PressTheme
  | PressPrevMonth
  | PressNextMonth
  | PressMonthTitle
  | PressGroup string
  | LongPressTxn txn_id
  | PressFab clock
  | CloseAddModal
  | PressType ttype
  | TypeAmount string
  | PressAddNew
  | TypeCategoryName string
  | PressAddCategory
  | PressCancelCategory
  | PressCategoryChip string
  | LongPressCategoryChip string
  | TypeNote string
  | PressSave clock
  | PickerPrevYear
  | PickerNextYear
  | PickerSelectMonth int
  | ClosePicker
  | AlertConfirm
  | AlertCancel
  | PressDeleteAll
  | PressReassignChip string
  | PressReassign
  | PressCancelDelete
  | BackDeleteModal

datatype layer = Loading | DialogLayer | DeleteModal | PickerModal | AddModal | MainScreen

definition ui_layer :: "app_state \<Rightarrow> layer" where
  "ui_layer s =
     (if \<not> isLoaded s then Loading
      else if alert s \<noteq> None then DialogLayer
      else if deleteModalVisible s then DeleteModal
      else if pickerVisible s then PickerModal
      else if modalVisible s then AddModal
      else MainScreen)"

text \<open>The spinner: only the completion of \<open>loadData\<close>.\<close>

fun loading_step :: "app_state \<Rightarrow> event \<Rightarrow> app_state" where
  "loading_step s (LoadDone st sc th) = loadData st sc th s"
| "loading_step s LoadRejected = loadRejected s"
| "loading_step s _ = s"

text \<open>
  The dialogs: a notice has one OK button; the two confirmations have
  Cancel and Delete, whose \<open>onPress\<close> runs after the dialog closes.
\<close>

fun dialog_step :: "app_state \<Rightarrow> event \<Rightarrow> app_state" where
  "dialog_step s AlertConfirm =
     (case alert s of
        Some (ConfirmTxnDelete i) \<Rightarrow> deleteTransaction i (s\<lparr>alert := None\<rparr>)
      | Some (ConfirmCategoryDelete name ty) \<Rightarrow>
          executeCategoryDeletion name ty DeleteAction (s\<lparr>alert := None\<rparr>)
      | _ \<Rightarrow> s\<lparr>alert := None\<rparr>)"
| "dialog_step s AlertCancel =
     (case alert s of
        Some (Notice _ _) \<Rightarrow> s
      | _ \<Rightarrow> s\<lparr>alert := None\<rparr>)"
| "dialog_step s _ = s"

text \<open>
  The category-deletion modal: delete all, choose a target among the other
  categories of the type, reassign (disabled without a target), cancel, and
  the Android back button, which only hides the modal.
\<close>

fun delete_modal_step :: "app_state \<Rightarrow> event \<Rightarrow> app_state" where
  "delete_modal_step s PressDeleteAll =
     (case categoryToDelete s of
        Some (name, ty) \<Rightarrow> executeCategoryDeletion name ty DeleteAction s
      | None \<Rightarrow> s)"
| "delete_modal_step s (PressReassignChip cat) =
     (case categoryToDelete s of
        Some (name, ty) \<Rightarrow>
          if cat \<in> set (filter (\<lambda>c. c \<noteq> name) (cats_for (categories s) ty))
          then s\<lparr>reassignCategory := cat\<rparr> else s
      | None \<Rightarrow> s)"
| "delete_modal_step s PressReassign =
     (case categoryToDelete s of
        Some (name, ty) \<Rightarrow>
          if reassignCategory s \<noteq> [] then executeCategoryDeletion name ty ReassignAction s else s
      | None \<Rightarrow> s)"
| "delete_modal_step s PressCancelDelete =
     s\<lparr>deleteModalVisible := False, categoryToDelete := None, reassignCategory := []\<rparr>"
| "delete_modal_step s BackDeleteModal = s\<lparr>deleteModalVisible := False\<rparr>"
| "delete_modal_step s _ = s"

text \<open>The month picker.\<close>

fun picker_step :: "app_state \<Rightarrow> event \<Rightarrow> app_state" where
  "picker_step s PickerPrevYear = s\<lparr>pickerYear := pickerYear s - 1\<rparr>"
| "picker_step s PickerNextYear = s\<lparr>pickerYear := pickerYear s + 1\<rparr>"
| "picker_step s (PickerSelectMonth i) = (if 0 \<le> i \<and> i < 12 then selectMonthYear i s else s)"
| "picker_step s ClosePicker = s\<lparr>pickerVisible := False\<rparr>"
| "picker_step s _ = s"

text \<open>
  The add-transaction modal. The chips of the form's type are shown while
  no new category is being typed; the name field and its buttons otherwise.
\<close>

definition chip_shown :: "app_state \<Rightarrow> string \<Rightarrow> bool" where
  "chip_shown s cat \<longleftrightarrow>
     \<not> isAddingCategory s \<and> cat \<in> set (cats_for (categories s) (ftype (newTransaction s)))"

fun add_modal_step :: "app_state \<Rightarrow> event \<Rightarrow> app_state" where
  "add_modal_step s CloseAddModal = s\<lparr>modalVisible := False\<rparr>"
| "add_modal_step s (PressType ty) =
     s\<lparr>newTransaction := (newTransaction s)\<lparr>ftype := ty, fcategory := []\<rparr>\<rparr>"
| "add_modal_step s (TypeAmount txt) =
     s\<lparr>newTransaction := (newTransaction s)\<lparr>famount := txt\<rparr>\<rparr>"
| "add_modal_step s PressAddNew =
     (if isAddingCategory s then s else s\<lparr>isAddingCategory := True\<rparr>)"
| "add_modal_step s (TypeCategoryName n) =
     (if isAddingCategory s then s\<lparr>newCategoryName := n\<rparr> else s)"
| "add_modal_step s PressAddCategory =
     (if isAddingCategory s then handleAddNewCategory s else s)"
| "add_modal_step s PressCancelCategory =
     (if isAddingCategory s then s\<lparr>isAddingCategory := False\<rparr> else s)"
| "add_modal_step s (PressCategoryChip cat) =
     (if chip_shown s cat then s\<lparr>newTransaction := (newTransaction s)\<lparr>fcategory := cat\<rparr>\<rparr> else s)"
| "add_modal_step s (LongPressCategoryChip cat) =
     (if chip_shown s cat then handleDeleteCategoryInitiation cat s else s)"
| "add_modal_step s (TypeNote n) =
     s\<lparr>newTransaction := (newTransaction s)\<lparr>fnote := n\<rparr>\<rparr>"
| "add_modal_step s (PressSave c) = handleAddTransaction c s"
| "add_modal_step s _ = s"

text \<open>
  The main screen: the theme button, the month arrows and title, the group
  headers and, inside an expanded group, the transactions, and the add
  button, which is rendered only when the viewed month is not in the future.
\<close>

definition txn_shown :: "app_state \<Rightarrow> txn_id \<Rightarrow> bool" where
  "txn_shown s i \<longleftrightarrow>
     (\<exists>g\<in>set (groupedTransactions s). expandedCategories s (gkey g) \<and> i \<in> tid ` set (gtxns g))"

fun main_step :: "app_state \<Rightarrow> event \<Rightarrow> app_state" where
  "main_step s PressTheme = toggleTheme s"
| "main_step s PressPrevMonth = s\<lparr>currentDate := changeMonth (-1) (currentDate s)\<rparr>"
| "main_step s PressNextMonth = s\<lparr>currentDate := changeMonth 1 (currentDate s)\<rparr>"
| "main_step s PressMonthTitle = openPicker s"
| "main_step s (PressGroup k) =
     (if k \<in> gkey ` set (groupedTransactions s) then toggleCategory k s else s)"
| "main_step s (LongPressTxn i) = (if txn_shown s i then confirmDelete i s else s)"
| "main_step s (PressFab c) =
     (if isFutureMonth (now_date c) (currentDate s) then s else s\<lparr>modalVisible := True\<rparr>)"
| "main_step s _ = s"

definition step :: "app_state \<Rightarrow> event \<Rightarrow> app_state" where
  "step s e =
     (case ui_layer s of
        Loading \<Rightarrow> loading_step s e
      | DialogLayer \<Rightarrow> dialog_step s e
      | DeleteModal \<Rightarrow> delete_modal_step s e
      | PickerModal \<Rightarrow> picker_step s e
      | AddModal \<Rightarrow> add_modal_step s e
      | MainScreen \<Rightarrow> main_step s e)"

fun run :: "app_state \<Rightarrow> event list \<Rightarrow> app_state" where
  "run s [] = s"
| "run s (e # es) = run (step s e) es"

subsection \<open>Which layer is on top\<close>

lemma ui_layer_iff:
  "ui_layer s = Loading \<longleftrightarrow> \<not> isLoaded s"
  "ui_layer s = DialogLayer \<longleftrightarrow> isLoaded s \<and> alert s \<noteq> None"
  "ui_layer s = DeleteModal \<longleftrightarrow> isLoaded s \<and> alert s = None \<and> deleteModalVisible s"
  "ui_layer s = PickerModal \<longleftrightarrow>
     isLoaded s \<and> alert s = None \<and> \<not> deleteModalVisible s \<and> pickerVisible s"
  "ui_layer s = AddModal \<longleftrightarrow>
     isLoaded s \<and> alert s = None \<and> \<not> deleteModalVisible s \<and> \<not> pickerVisible s \<and> modalVisible s"
  "ui_layer s = MainScreen \<longleftrightarrow>
     isLoaded s \<and> alert s = None \<and> \<not> deleteModalVisible s \<and> \<not> pickerVisible s \<and> \<not> modalVisible s"
  by (auto simp: ui_layer_def)

lemma run_append: "run s (xs @ ys) = run (run s xs) ys"
  by (induction xs arbitrary: s) simp_all

end
