(* ===== verification/AppInvariants.thy ===== *)
theory AppInvariants
  imports AppEvents
begin

text \<open>
  What holds in every state the interface can reach. Reachability starts at
  the first render and takes any event; a completed load must bring data
  this version could have saved (a duplicate-free registry whose lists
  contain the category of every stored transaction). Two invariants:
  \<open>ui_inv\<close> (the registry stays duplicate-free, the form's category is a
  category of its type, the picker and the add modal are never open
  together, the deletion modal only above the add modal) holds with every
  event; \<open>refs_inv\<close> (every transaction's category is listed for its type,
  and the reassignment target is a live category other than the one being
  deleted) holds in runs that never use the Android back button on the
  deletion modal. The back button breaks it: from every reachable state
  with a reassignment target chosen, three further events leave a
  transaction whose category was deleted.
\<close>

definition stored_consistent :: "txn list stored \<Rightarrow> cat_registry stored \<Rightarrow> bool" where
  "stored_consistent st sc \<longleftrightarrow>
     (let c = (case sc of Stored c \<Rightarrow> c | _ \<Rightarrow> default_categories)
      in registry_wf c \<and>
         (case st of Stored ts \<Rightarrow> (\<forall>t\<in>set ts. category t \<in> set (cats_for c (ttype t))) | _ \<Rightarrow> True))"

fun load_ok :: "event \<Rightarrow> bool" where
  "load_ok (LoadDone st sc th) = stored_consistent st sc"
| "load_ok _ = True"

inductive reachable :: "(event \<Rightarrow> bool) \<Rightarrow> app_state \<Rightarrow> bool" for allowed where
  init: "reachable allowed (initial_state c)"
| step: "reachable allowed s \<Longrightarrow> allowed e \<Longrightarrow> load_ok e \<Longrightarrow> reachable allowed (step s e)"

definition form_ok :: "app_state \<Rightarrow> bool" where
  "form_ok s \<longleftrightarrow> fcategory (newTransaction s) = [] \<or>
     fcategory (newTransaction s) \<in> set (cats_for (categories s) (ftype (newTransaction s)))"

definition ui_inv :: "app_state \<Rightarrow> bool" where
  "ui_inv s \<longleftrightarrow>
     registry_wf (categories s) \<and> form_ok s \<and>
     (\<not> isLoaded s \<longrightarrow> transactions s = [] \<and> categories s = default_categories \<and>
        newTransaction s = empty_form \<and> alert s = None \<and> reassignCategory s = [] \<and>
        \<not> deleteModalVisible s) \<and>
     \<not> (pickerVisible s \<and> modalVisible s) \<and>
     (deleteModalVisible s \<longrightarrow> modalVisible s \<and> categoryToDelete s \<noteq> None)"

definition loaded_txns :: "txn list stored \<Rightarrow> txn list \<Rightarrow> txn list" where
  "loaded_txns st ts = (case st of Stored l \<Rightarrow> l | _ \<Rightarrow> ts)"

definition loaded_cats :: "txn list stored \<Rightarrow> cat_registry stored \<Rightarrow> cat_registry \<Rightarrow> cat_registry" where
  "loaded_cats st sc c = (case st of Unparsable \<Rightarrow> c | _ \<Rightarrow> (case sc of Stored c' \<Rightarrow> c' | _ \<Rightarrow> c))"

definition loaded_theme :: "txn list stored \<Rightarrow> cat_registry stored \<Rightarrow> theme_mode option \<Rightarrow> theme_mode \<Rightarrow> theme_mode" where
  "loaded_theme st sc th t =
     (if st = Unparsable \<or> sc = Unparsable then t else (case th of Some t' \<Rightarrow> t' | None \<Rightarrow> t))"

definition loaded_alert :: "txn list stored \<Rightarrow> cat_registry stored \<Rightarrow> alert_box option \<Rightarrow> alert_box option" where
  "loaded_alert st sc a = (if st = Unparsable \<or> sc = Unparsable then Some load_error else a)"

definition refs_ok :: "app_state \<Rightarrow> bool" where
  "refs_ok s \<longleftrightarrow> (\<forall>t\<in>set (transactions s). category t \<in> set (cats_for (categories s) (ttype t)))"

definition target_ok :: "app_state \<Rightarrow> bool" where
  "target_ok s \<longleftrightarrow>
     (deleteModalVisible s \<longrightarrow>
        (\<forall>n ty. categoryToDelete s = Some (n, ty) \<longrightarrow> reassignCategory s = [] \<or>
           (reassignCategory s \<in> set (cats_for (categories s) ty) \<and> reassignCategory s \<noteq> n))) \<and>
     (\<not> deleteModalVisible s \<longrightarrow> reassignCategory s = [])"

definition refs_inv :: "app_state \<Rightarrow> bool" where
  "refs_inv s \<longleftrightarrow> refs_ok s \<and> target_ok s"

text \<open>Two March 2025 expenses, for the run below.\<close>

definition food_txn :: txn where
  "food_txn = \<lparr>tid = ''1'', dateISO = \<lparr>year = 2025, month = 2, day = 10\<rparr>,
     displayDate = ''3/10/2025'', ttype = Expense, amount = Some (Fin 50), category = ''Food'', tnote = []\<rparr>"

definition bills_txn :: txn where
  "bills_txn = \<lparr>tid = ''2'', dateISO = \<lparr>year = 2025, month = 2, day = 10\<rparr>,
     displayDate = ''3/10/2025'', ttype = Expense, amount = Some (Fin 80), category = ''Bills'', tnote = []\<rparr>"

text \<open>
  Load the two, open the add modal, long-press Food (it has a transaction,
  so the deletion modal opens) and choose Bills as the target.
\<close>

definition stale_target_run :: "event list" where
  "stale_target_run =
     [LoadDone (Stored [food_txn, bills_txn]) Missing None, PressFab clock_mar10,
      LongPressCategoryChip ''Food'', PressReassignChip ''Bills'']"

subsection \<open>Preservation, handler by handler\<close>

lemma ui_inv_initial: "ui_inv (initial_state c)"
  by (simp add: ui_inv_def initial_state_def form_ok_def empty_form_def registry_wf_def
      default_categories_def)

lemma loadData_eq:
  "loadData st sc th s =
     s\<lparr>transactions := loaded_txns st (transactions s),
       categories := loaded_cats st sc (categories s), theme := loaded_theme st sc th (theme s),
       alert := loaded_alert st sc (alert s), isLoaded := True\<rparr>"
  by (cases st; cases sc; cases th)
     (simp_all add: loadData_def loaded_txns_def loaded_cats_def loaded_theme_def loaded_alert_def)

lemma loading_step_eq:
  "loading_step s e =
     (case e of LoadDone st sc th \<Rightarrow> loadData st sc th s | LoadRejected \<Rightarrow> loadRejected s | _ \<Rightarrow> s)"
  by (cases e) simp_all

lemma stored_consistent_loaded:
  "stored_consistent st sc \<Longrightarrow>
   registry_wf (loaded_cats st sc default_categories) \<and>
   (\<forall>t\<in>set (loaded_txns st []). category t \<in> set (cats_for (loaded_cats st sc default_categories) (ttype t)))"
  by (cases st; cases sc)
     (simp_all add: stored_consistent_def loaded_cats_def loaded_txns_def registry_wf_def default_categories_def)

lemma ui_inv_loading:
  assumes "ui_inv s" and "ui_layer s = Loading" and "load_ok e"
  shows "ui_inv (loading_step s e)"
proof (cases e)
  case (LoadDone st sc th)
  from assms have s: "categories s = default_categories" "newTransaction s = empty_form" "alert s = None"
    by (simp_all add: ui_inv_def ui_layer_iff)
  from assms LoadDone have wf: "registry_wf (loaded_cats st sc default_categories)"
    using stored_consistent_loaded by simp
  from assms(1) s wf show ?thesis
    by (simp add: LoadDone loadData_eq ui_inv_def form_ok_def empty_form_def load_error_def loaded_alert_def)
next
  case LoadRejected
  with assms show ?thesis
    by (auto simp: ui_inv_def form_ok_def loadRejected_def load_error_def ui_layer_iff)
qed (use assms in simp_all)

lemma form_ok_execute:
  "form_ok s \<Longrightarrow> form_ok (executeCategoryDeletion name ty action s)"
  by (auto simp: executeCategoryDeletion_def form_ok_def cats_for_remove_category split: sum.split)

lemma ui_inv_execute:
  "ui_inv s \<Longrightarrow> isLoaded s \<Longrightarrow> ui_inv (executeCategoryDeletion name ty action s)"
  using form_ok_execute [of s name ty action]
  by (auto simp: ui_inv_def executeCategoryDeletion_def remove_category_wf form_ok_def split: sum.split)

lemma ui_inv_alert_update:
  "ui_inv s \<Longrightarrow> isLoaded s \<Longrightarrow> ui_inv (s\<lparr>alert := a\<rparr>)"
  by (simp add: ui_inv_def form_ok_def)

lemma ui_inv_dialog:
  assumes "ui_inv s" and "ui_layer s = DialogLayer"
  shows "ui_inv (dialog_step s e)"
proof -
  have l: "isLoaded s" using assms(2) by (simp add: ui_layer_iff)
  have a: "ui_inv (s\<lparr>alert := None\<rparr>)" using assms(1) l by (rule ui_inv_alert_update)
  have x: "\<forall>n ty act. ui_inv (executeCategoryDeletion n ty act (s\<lparr>alert := None\<rparr>))"
    using a l by (simp add: ui_inv_execute)
  have d: "\<forall>i. ui_inv (deleteTransaction i (s\<lparr>alert := None\<rparr>))"
    using a l by (simp add: deleteTransaction_def ui_inv_def form_ok_def)
  show ?thesis
    using a x d assms(1)
    by (cases e) (simp_all split: option.split alert_box.split)
qed

lemma ui_inv_handleAddNewCategory:
  "ui_inv s \<Longrightarrow> isLoaded s \<Longrightarrow> ui_inv (handleAddNewCategory s)"
  by (auto simp: handleAddNewCategory_def ui_inv_def form_ok_def add_category_cats
      dest: add_category_wf split: sum.split)

lemma ui_inv_handleAddTransaction:
  "ui_inv s \<Longrightarrow> isLoaded s \<Longrightarrow> \<not> deleteModalVisible s \<Longrightarrow> ui_inv (handleAddTransaction c s)"
  by (auto simp: handleAddTransaction_def ui_inv_def form_ok_def empty_form_def split: sum.split)

lemma ui_inv_initiation:
  "ui_inv s \<Longrightarrow> isLoaded s \<Longrightarrow> modalVisible s \<Longrightarrow> ui_inv (handleDeleteCategoryInitiation n s)"
  by (auto simp: handleDeleteCategoryInitiation_def ui_inv_def form_ok_def Let_def)

lemma ui_inv_add_modal:
  assumes "ui_inv s" and "ui_layer s = AddModal"
  shows "ui_inv (add_modal_step s e)"
proof -
  have l: "isLoaded s" "\<not> deleteModalVisible s" "modalVisible s"
    using assms(2) by (simp_all add: ui_layer_iff)
  have h: "ui_inv (handleAddNewCategory s)" "\<forall>n. ui_inv (handleDeleteCategoryInitiation n s)"
      "\<forall>c. ui_inv (handleAddTransaction c s)"
    using assms(1) l
    by (simp_all add: ui_inv_handleAddNewCategory ui_inv_initiation ui_inv_handleAddTransaction)
  show ?thesis
    using assms(1) l h
    by (cases e) (auto simp: ui_inv_def form_ok_def chip_shown_def)
qed

lemma ui_inv_delete_modal:
  assumes "ui_inv s" and "ui_layer s = DeleteModal"
  shows "ui_inv (delete_modal_step s e)"
proof -
  have l: "isLoaded s" "deleteModalVisible s" using assms(2) by (simp_all add: ui_layer_iff)
  have x: "\<forall>n ty act. ui_inv (executeCategoryDeletion n ty act s)"
    using assms(1) l by (simp add: ui_inv_execute)
  show ?thesis
    using assms(1) l x
    by (cases e) (auto simp: ui_inv_def form_ok_def split: option.split)
qed

lemma ui_inv_picker:
  assumes "ui_inv s" and "ui_layer s = PickerModal"
  shows "ui_inv (picker_step s e)"
  using assms
  by (cases e) (auto simp: ui_layer_iff ui_inv_def form_ok_def handler_defs)

lemma ui_inv_main:
  assumes "ui_inv s" and "ui_layer s = MainScreen"
  shows "ui_inv (main_step s e)"
  using assms
  by (cases e) (auto simp: ui_layer_iff ui_inv_def form_ok_def handler_defs)

lemma ui_inv_step:
  "ui_inv s \<Longrightarrow> load_ok e \<Longrightarrow> ui_inv (step s e)"
  by (cases "ui_layer s")
     (simp_all add: step_def ui_inv_loading ui_inv_dialog ui_inv_delete_modal ui_inv_picker
        ui_inv_add_modal ui_inv_main)

theorem reachable_ui_inv:
  "reachable allowed s \<Longrightarrow> ui_inv s"
  by (induction rule: reachable.induct) (simp_all add: ui_inv_initial ui_inv_step)

lemma refs_inv_initial: "refs_inv (initial_state c)"
  by (simp add: refs_inv_def refs_ok_def target_ok_def initial_state_def)

lemma refs_inv_loading:
  assumes "ui_inv s" and "ui_layer s = Loading" and "load_ok e"
  shows "refs_inv (loading_step s e)"
proof (cases e)
  case (LoadDone st sc th)
  from assms have s: "categories s = default_categories" "transactions s = []"
      "reassignCategory s = []" "\<not> deleteModalVisible s"
    by (simp_all add: ui_inv_def ui_layer_iff)
  from assms LoadDone stored_consistent_loaded [of st sc] s show ?thesis
    by (simp add: loadData_eq refs_inv_def refs_ok_def target_ok_def)
next
  case LoadRejected
  with assms show ?thesis
    by (simp add: refs_inv_def refs_ok_def target_ok_def loadRejected_def ui_inv_def ui_layer_iff)
qed (use assms in \<open>simp_all add: refs_inv_def refs_ok_def target_ok_def ui_inv_def ui_layer_iff\<close>)

lemma refs_ok_delete_all:
  "refs_ok s \<Longrightarrow> refs_ok (executeCategoryDeletion name ty DeleteAction s)"
  by (auto simp: executeCategoryDeletion_def ledger_category_deletion_def refs_ok_def
      delete_dependents_def is_dependent_def cats_for_remove_category)

lemma refs_ok_reassign:
  assumes "refs_ok s" and "reassignCategory s \<in> set (cats_for (categories s) ty)"
    and "reassignCategory s \<noteq> name"
  shows "refs_ok (executeCategoryDeletion name ty ReassignAction s)"
  using assms
  by (auto simp: executeCategoryDeletion_def ledger_category_deletion_def refs_ok_def
      reassign_dependents_def is_dependent_def cats_for_remove_category)

lemma target_ok_alert [simp]: "target_ok (s\<lparr>alert := a\<rparr>) = target_ok s"
  by (simp add: target_ok_def)

lemma target_ok_execute:
  "target_ok s \<Longrightarrow> target_ok (executeCategoryDeletion name ty act s)"
  by (simp add: executeCategoryDeletion_def split: sum.split) (simp add: target_ok_def)

lemma refs_inv_dialog:
  assumes "refs_inv s" and "ui_layer s = DialogLayer"
  shows "refs_inv (dialog_step s e)"
proof -
  have a: "refs_inv (s\<lparr>alert := None\<rparr>)" using assms(1) by (simp add: refs_inv_def refs_ok_def)
  have x: "\<forall>n ty. refs_inv (executeCategoryDeletion n ty DeleteAction (s\<lparr>alert := None\<rparr>))"
    using a by (simp add: refs_inv_def refs_ok_delete_all target_ok_execute)
  have d: "\<forall>i. refs_inv (deleteTransaction i (s\<lparr>alert := None\<rparr>))"
    using a by (auto simp: deleteTransaction_def refs_inv_def refs_ok_def remove_transaction_def target_ok_def)
  show ?thesis
    using a x d assms(1)
    by (cases e) (simp_all split: option.split alert_box.split)
qed

lemma refs_inv_delete_modal:
  assumes "refs_inv s" and "ui_layer s = DeleteModal" and "e \<noteq> BackDeleteModal"
  shows "refs_inv (delete_modal_step s e)"
proof -
  have l: "deleteModalVisible s" using assms(2) by (simp add: ui_layer_iff)
  have del: "\<forall>n ty. refs_inv (executeCategoryDeletion n ty DeleteAction s)"
    using assms(1) by (simp add: refs_inv_def refs_ok_delete_all target_ok_execute)
  have re: "\<forall>n ty. categoryToDelete s = Some (n, ty) \<longrightarrow> reassignCategory s \<noteq> [] \<longrightarrow>
      refs_inv (executeCategoryDeletion n ty ReassignAction s)"
  proof (intro allI impI)
    fix n ty
    assume c: "categoryToDelete s = Some (n, ty)" and r: "reassignCategory s \<noteq> []"
    have ok: "refs_ok s" "target_ok s" using assms(1) by (simp_all add: refs_inv_def)
    then have "reassignCategory s \<in> set (cats_for (categories s) ty)" "reassignCategory s \<noteq> n"
      using l c r by (simp_all add: target_ok_def)
    with ok show "refs_inv (executeCategoryDeletion n ty ReassignAction s)"
      by (simp add: refs_inv_def refs_ok_reassign target_ok_execute)
  qed
  show ?thesis
    using assms(1,3) l del re
    by (cases e) (auto simp: refs_inv_def refs_ok_def target_ok_def split: option.split)
qed

lemma refs_inv_picker:
  "refs_inv s \<Longrightarrow> refs_inv (picker_step s e)"
  by (cases e) (simp_all add: refs_inv_def refs_ok_def target_ok_def handler_defs)

lemma refs_ok_handleAddTransaction:
  "refs_ok s \<Longrightarrow> form_ok s \<Longrightarrow> refs_ok (handleAddTransaction c s)"
  by (auto simp: handleAddTransaction_def add_transaction_def new_transaction_def Let_def
      refs_ok_def form_ok_def split: sum.split if_splits)

lemma refs_inv_add_modal:
  assumes "refs_inv s" and "ui_inv s" and "ui_layer s = AddModal"
  shows "refs_inv (add_modal_step s e)"
proof -
  have l: "\<not> deleteModalVisible s" "reassignCategory s = []"
    using assms by (simp_all add: ui_layer_iff refs_inv_def target_ok_def)
  have t: "\<forall>c. refs_inv (handleAddTransaction c s)"
    using assms(1,2) l refs_ok_handleAddTransaction
    by (auto simp: refs_inv_def ui_inv_def handleAddTransaction_def target_ok_def split: sum.split)
  have n: "refs_inv (handleAddNewCategory s)"
    using assms(1) l
    by (auto simp: handleAddNewCategory_def refs_inv_def refs_ok_def target_ok_def add_category_cats
        split: sum.split)
  have i: "\<forall>n. refs_inv (handleDeleteCategoryInitiation n s)"
    using assms(1) l
    by (auto simp: handleDeleteCategoryInitiation_def refs_inv_def refs_ok_def target_ok_def Let_def)
  show ?thesis
    using assms(1) l t n i
    by (cases e) (simp_all add: refs_inv_def refs_ok_def target_ok_def)
qed

lemma refs_inv_main:
  "refs_inv s \<Longrightarrow> refs_inv (main_step s e)"
  by (cases e) (simp_all add: refs_inv_def refs_ok_def target_ok_def handler_defs)

lemma refs_inv_step:
  "refs_inv s \<Longrightarrow> ui_inv s \<Longrightarrow> load_ok e \<Longrightarrow> e \<noteq> BackDeleteModal \<Longrightarrow> refs_inv (step s e)"
  by (cases "ui_layer s")
     (simp_all add: step_def refs_inv_loading refs_inv_dialog refs_inv_delete_modal refs_inv_picker
        refs_inv_add_modal refs_inv_main)

theorem reachable_refs_inv:
  "reachable allowed s \<Longrightarrow> (\<forall>e. allowed e \<longrightarrow> e \<noteq> BackDeleteModal) \<Longrightarrow> refs_inv s"
proof (induction rule: reachable.induct)
  case (init c)
  show ?case by (rule refs_inv_initial)
next
  case (step s e)
  then show ?case using reachable_ui_inv refs_inv_step by blast
qed

lemma reachable_run:
  "reachable allowed s \<Longrightarrow> list_all (\<lambda>e. allowed e \<and> load_ok e) es \<Longrightarrow> reachable allowed (run s es)"
  by (induction es arbitrary: s) (auto intro: reachable.step)

subsection \<open>The properties of the interface\<close>

text \<open>
  C7. In every reachable state the category lists have no duplicates, the
  form's selected category (if any) is a category of the form's type, the
  month picker and the add-transaction modal are never both open, and the
  deletion modal is only open above the add-transaction modal with a
  category to delete.
\<close>

theorem reachable_registry_modals:
  assumes "reachable allowed s"
  shows "distinct (cats_for (categories s) Income) \<and> distinct (cats_for (categories s) Expense) \<and>
         (fcategory (newTransaction s) = [] \<or>
          fcategory (newTransaction s) \<in> set (cats_for (categories s) (ftype (newTransaction s)))) \<and>
         \<not> (pickerVisible s \<and> modalVisible s) \<and>
         (deleteModalVisible s \<longrightarrow> modalVisible s \<and> categoryToDelete s \<noteq> None)"
  using reachable_ui_inv [OF assms]
  by (simp add: ui_inv_def form_ok_def registry_wf_cats_for)

lemma reachable_registry_modals_witness:
  "reachable (\<lambda>_. True) (initial_state clock_mar10) \<and>
   distinct (cats_for (categories (initial_state clock_mar10)) Expense)"
  using reachable_registry_modals [OF reachable.init [of "\<lambda>_. True" clock_mar10]]
  by (simp add: reachable.init)

text \<open>
  C2. In every state reachable without the Android back button on the
  deletion modal, every transaction's category is listed in the registry
  for the transaction's type: adding, deleting with either choice, and
  adding categories never leave a transaction with a deleted category.
\<close>

theorem reachable_no_dangling:
  assumes "reachable allowed s" and "\<forall>e. allowed e \<longrightarrow> e \<noteq> BackDeleteModal"
  shows "\<forall>t\<in>set (transactions s). category t \<in> set (cats_for (categories s) (ttype t))"
  using reachable_refs_inv [OF assms] by (simp add: refs_inv_def refs_ok_def)

lemma reachable_no_dangling_witness:
  "reachable (\<lambda>e. e \<noteq> BackDeleteModal) (initial_state clock_mar10) \<and>
   \<not> (\<lambda>e. e \<noteq> BackDeleteModal) BackDeleteModal \<and>
   list_all (\<lambda>t. category t \<in> set (cats_for (categories (initial_state clock_mar10)) (ttype t)))
     (transactions (initial_state clock_mar10))"
  using reachable_no_dangling [OF reachable.init [of "\<lambda>e. e \<noteq> BackDeleteModal" clock_mar10]]
  by (simp add: reachable.init list_all_iff)

text \<open>
  C3. The back button breaks it: in every reachable state where the
  deletion modal is open with a chosen reassignment target, the back button
  hides the modal but keeps the target; a long press on the target category
  itself (when it has transactions of the form's type) reopens the modal for
  it with the stale target, and Reassign then rewrites its transactions to
  their own category and deletes it. The ledger is unchanged and its
  transactions name a category that is no longer listed.
\<close>

theorem stale_target_dangling:
  assumes "reachable allowed s" and "ui_layer s = DeleteModal"
    and "reassignCategory s = name" and "name \<noteq> []" and "chip_shown s name"
    and "hasTransactions name (ftype (newTransaction s)) (transactions s)"
  shows "let s' = run s [BackDeleteModal, LongPressCategoryChip name, PressReassign] in
     transactions s' = transactions s \<and>
     name \<notin> set (cats_for (categories s') (ftype (newTransaction s))) \<and>
     (\<exists>t\<in>set (transactions s'). category t = name \<and> ttype t = ftype (newTransaction s))"
proof -
  let ?ty = "ftype (newTransaction s)"
  let ?b = "s\<lparr>deleteModalVisible := False\<rparr>"
  let ?i = "?b\<lparr>categoryToDelete := Some (name, ?ty), deleteModalVisible := True\<rparr>"
  have l: "isLoaded s" "alert s = None" "deleteModalVisible s"
    using assms(2) by (simp_all add: ui_layer_iff)
  have v: "modalVisible s" "\<not> pickerVisible s"
    using reachable_ui_inv [OF assms(1)] l(3) by (auto simp: ui_inv_def)
  have b: "step s BackDeleteModal = ?b"
    using assms(2) by (simp add: step_def)
  have "ui_layer ?b = AddModal"
    using l v by (simp add: ui_layer_iff)
  then have i: "step ?b (LongPressCategoryChip name) = ?i"
    using assms(5,6) by (simp add: step_def chip_shown_def handleDeleteCategoryInitiation_def Let_def)
  have "ui_layer ?i = DeleteModal"
    using l by (simp add: ui_layer_iff)
  then have r: "step ?i PressReassign = executeCategoryDeletion name ?ty ReassignAction ?i"
    using assms(3,4) by (simp add: step_def)
  have tx: "reassign_dependents name ?ty name (transactions s) = transactions s"
    by (auto simp: reassign_dependents_def is_dependent_def intro!: map_idI)
  show ?thesis
    using assms(3,4,6) b i r tx
    by (auto simp: Let_def executeCategoryDeletion_def ledger_category_deletion_def
        cats_for_remove_category hasTransactions_def list_ex_iff is_dependent_def)
qed

lemma stale_target_dangling_witness:
  "let s = run (initial_state clock_mar10) stale_target_run;
       s' = run s [BackDeleteModal, LongPressCategoryChip ''Bills'', PressReassign] in
   reachable (\<lambda>_. True) s \<and> ui_layer s = DeleteModal \<and> reassignCategory s = ''Bills'' \<and>
   ''Bills'' \<noteq> [] \<and> chip_shown s ''Bills'' \<and> ftype (newTransaction s) = Expense \<and>
   hasTransactions ''Bills'' (ftype (newTransaction s)) (transactions s) \<and>
   bills_txn \<in> set (transactions s') \<and> ''Bills'' \<notin> set (cats_for (categories s') Expense)"
proof -
  let ?s = "run (initial_state clock_mar10) stale_target_run"
  have ok: "list_all (\<lambda>e. True \<and> load_ok e) stale_target_run"
    by (simp add: stale_target_run_def stored_consistent_def default_categories_def registry_wf_def
        food_txn_def bills_txn_def cats_for_def)
  have r: "reachable (\<lambda>_. True) ?s"
    using reachable_run [OF reachable.init ok] .
  have st: "ui_layer ?s = DeleteModal \<and> reassignCategory ?s = ''Bills'' \<and> chip_shown ?s ''Bills'' \<and>
      ftype (newTransaction ?s) = Expense \<and> transactions ?s = [food_txn, bills_txn]"
    by (simp add: stale_target_run_def initial_state_def clock_mar10_def food_txn_def bills_txn_def
        step_def ui_layer_def loadData_def default_categories_def empty_form_def chip_shown_def
        cats_for_def handleDeleteCategoryInitiation_def hasTransactions_def is_dependent_def
        isFutureMonth_def new_date_def make_day_def norm_day.simps date_lt_def days_in_month_def
        leap_year_def)
  have h: "hasTransactions ''Bills'' (ftype (newTransaction ?s)) (transactions ?s)"
    using st by (simp add: hasTransactions_def is_dependent_def bills_txn_def)
  show ?thesis
    using stale_target_dangling [OF r, of "''Bills''"] st h r
    by (simp add: Let_def bills_txn_def)
qed

text \<open>
  C6. Deleting a category that no transaction of the form's type uses: the
  long press opens a confirmation; Delete removes the name from the list of
  that type only and leaves the ledger unchanged; Cancel restores the state
  before the long press.
\<close>

theorem delete_unused_category:
  assumes "ui_layer s = AddModal" and "chip_shown s name"
    and "\<not> hasTransactions name (ftype (newTransaction s)) (transactions s)"
  shows "let ty = ftype (newTransaction s);
             s' = step (step s (LongPressCategoryChip name)) AlertConfirm in
     transactions s' = transactions s \<and>
     cats_for (categories s') ty = filter (\<lambda>x. x \<noteq> name) (cats_for (categories s) ty) \<and>
     (\<forall>ty'. ty' \<noteq> ty \<longrightarrow> cats_for (categories s') ty' = cats_for (categories s) ty') \<and>
     step (step s (LongPressCategoryChip name)) AlertCancel = s"
proof -
  let ?ty = "ftype (newTransaction s)"
  have l: "isLoaded s" "alert s = None" using assms(1) by (simp_all add: ui_layer_iff)
  have p: "step s (LongPressCategoryChip name) = s\<lparr>alert := Some (ConfirmCategoryDelete name ?ty)\<rparr>"
    using assms by (simp add: step_def handleDeleteCategoryInitiation_def Let_def)
  have d: "ui_layer (s\<lparr>alert := Some (ConfirmCategoryDelete name ?ty)\<rparr>) = DialogLayer"
    using l by (simp add: ui_layer_iff)
  have e: "s\<lparr>alert := None\<rparr> = s" using l(2) by (cases s) simp
  have "step (step s (LongPressCategoryChip name)) AlertConfirm =
      executeCategoryDeletion name ?ty DeleteAction (s\<lparr>alert := None\<rparr>)"
    unfolding p using d by (simp add: step_def)
  then have c: "step (step s (LongPressCategoryChip name)) AlertConfirm =
      executeCategoryDeletion name ?ty DeleteAction s"
    by (simp only: e)
  have "step (step s (LongPressCategoryChip name)) AlertCancel = s"
    unfolding p using d l by (simp add: step_def)
  with c assms(3) show ?thesis
    by (simp add: Let_def executeCategoryDeletion_def ledger_category_deletion_def
        delete_dependents_none cats_for_remove_category)
qed

lemma delete_unused_category_witness:
  "ui_layer (filled_state []) = AddModal \<and> chip_shown (filled_state []) ''Shopping'' \<and>
   \<not> hasTransactions ''Shopping'' Expense (transactions (filled_state [])) \<and>
   transactions (step (step (filled_state []) (LongPressCategoryChip ''Shopping'')) AlertConfirm) = [] \<and>
   cats_for (categories (step (step (filled_state []) (LongPressCategoryChip ''Shopping'')) AlertConfirm)) Expense
     = [''Food'', ''Transport'', ''Bills'']"
proof -
  have h: "ui_layer (filled_state []) = AddModal" "chip_shown (filled_state []) ''Shopping''"
    "\<not> hasTransactions ''Shopping'' (ftype (newTransaction (filled_state []))) (transactions (filled_state []))"
    by (simp_all add: filled_state_def initial_state_def ui_layer_def chip_shown_def cats_for_def
        default_categories_def hasTransactions_def)
  have t: "ftype (newTransaction (filled_state [])) = Expense" "transactions (filled_state []) = []"
      "cats_for (categories (filled_state [])) Expense = [''Food'', ''Transport'', ''Shopping'', ''Bills'']"
    by (simp_all add: filled_state_def initial_state_def cats_for_def default_categories_def)
  show ?thesis
    using delete_unused_category [OF h] h t by (simp add: Let_def)
qed

end
