(* ===== verification/AppRuns.thy ===== *)
theory AppRuns
  imports AppInvariants
begin

text \<open>
  Properties of whole runs of the interface. Dates: every date the state
  holds (the viewed month and each transaction's date) stays a valid
  calendar date as long as the clock reports valid dates and loads bring
  valid dates (\<open>dates_ok_run\<close>, which FutureGate builds on). Progress: from every reachable state a fixed
  sequence of five events (reject a pending load, confirm the dialog, cancel
  the deletion modal, close the picker, close the add modal) leads back to
  the main screen, so no combination of modals and dialogs traps the user.
\<close>

definition dates_ok :: "app_state \<Rightarrow> bool" where
  "dates_ok s \<longleftrightarrow>
     valid_date (currentDate s) \<and> list_all (\<lambda>t. valid_date (dateISO t)) (transactions s)"

text \<open>The clock readings and the loaded data an event brings are valid.\<close>

fun event_dates_ok :: "event \<Rightarrow> bool" where
  "event_dates_ok (LoadDone (Stored ts) _ _) = list_all (\<lambda>t. valid_date (dateISO t)) ts"
| "event_dates_ok (PressSave c) = valid_date (now_date c)"
| "event_dates_ok _ = True"

definition escape :: "event list" where
  "escape = [LoadRejected, AlertConfirm, PressCancelDelete, ClosePicker, CloseAddModal]"

subsection \<open>Dates stay valid\<close>

lemma transaction_date_valid:
  "valid_date now \<Longrightarrow> valid_date cur \<Longrightarrow> valid_date (transaction_date now cur)"
  by (simp add: transaction_date_clamp valid_date_def)

lemma dates_ok_execute: "dates_ok s \<Longrightarrow> dates_ok (executeCategoryDeletion n ty a s)"
  by (cases a)
     (auto simp: dates_ok_def executeCategoryDeletion_def ledger_category_deletion_def
       delete_dependents_def reassign_dependents_def list_all_iff split: sum.split)

lemma dates_ok_deleteTransaction: "dates_ok s \<Longrightarrow> dates_ok (deleteTransaction i s)"
  by (simp add: dates_ok_def deleteTransaction_def remove_transaction_def list_all_iff)

lemma dates_ok_fields [simp]:
  "dates_ok (s\<lparr>alert := a\<rparr>) = dates_ok s"
  "dates_ok (s\<lparr>newTransaction := f\<rparr>) = dates_ok s"
  "dates_ok (s\<lparr>categories := c\<rparr>) = dates_ok s"
  "dates_ok (s\<lparr>reassignCategory := r\<rparr>) = dates_ok s"
  "dates_ok (s\<lparr>deleteModalVisible := b\<rparr>) = dates_ok s"
  "dates_ok (s\<lparr>categoryToDelete := k\<rparr>) = dates_ok s"
  "dates_ok (s\<lparr>modalVisible := b\<rparr>) = dates_ok s"
  "dates_ok (s\<lparr>pickerVisible := b\<rparr>) = dates_ok s"
  "dates_ok (s\<lparr>pickerYear := y\<rparr>) = dates_ok s"
  "dates_ok (s\<lparr>isAddingCategory := b\<rparr>) = dates_ok s"
  "dates_ok (s\<lparr>newCategoryName := n\<rparr>) = dates_ok s"
  "dates_ok (s\<lparr>expandedCategories := x\<rparr>) = dates_ok s"
  "dates_ok (s\<lparr>theme := m\<rparr>) = dates_ok s"
  by (simp_all add: dates_ok_def)

lemma dates_ok_step:
  assumes "dates_ok s" and "event_dates_ok e"
  shows "dates_ok (step s e)"
proof (cases "ui_layer s")
  case Loading
  show ?thesis
  proof (cases e)
    case (LoadDone st sc th)
    then show ?thesis using Loading assms
      by (cases st) (simp_all add: step_def loadData_eq loaded_txns_def dates_ok_def)
  qed (use Loading assms in \<open>simp_all add: step_def loadRejected_def dates_ok_def\<close>)
next
  case DialogLayer
  then show ?thesis using assms
    by (cases e) (auto simp: step_def dates_ok_deleteTransaction dates_ok_execute
        split: option.split alert_box.split)
next
  case DeleteModal
  then show ?thesis using assms
    by (cases e) (auto simp: step_def dates_ok_execute split: option.split prod.split)
next
  case PickerModal
  then show ?thesis using assms
    by (cases e) (simp_all add: step_def selectMonthYear_def new_date_def make_day_valid dates_ok_def)
next
  case AddModal
  then show ?thesis using assms
    by (cases e) (auto simp: step_def handleAddNewCategory_def handleDeleteCategoryInitiation_def
        handleAddTransaction_def add_transaction_def new_transaction_def Let_def dates_ok_def
        transaction_date_valid split: sum.split)
next
  case MainScreen
  then show ?thesis using assms
    by (cases e) (simp_all add: step_def changeMonth_def set_month_def make_day_valid dates_ok_def
        handler_defs)
qed

lemma dates_ok_run:
  "dates_ok s \<Longrightarrow> list_all event_dates_ok es \<Longrightarrow> dates_ok (run s es)"
  by (induction es arbitrary: s) (simp_all add: dates_ok_step)

subsection \<open>Back to the main screen\<close>

lemma step_loaded_LoadRejected: "isLoaded s \<Longrightarrow> step s LoadRejected = s"
proof -
  assume "isLoaded s"
  then have "ui_layer s \<noteq> Loading" by (simp add: ui_layer_iff)
  then show ?thesis by (cases "ui_layer s") (simp_all add: step_def)
qed

lemma step_AlertConfirm_closes:
  assumes "ui_inv s" and "isLoaded s"
  shows "alert (step s AlertConfirm) = None \<and> isLoaded (step s AlertConfirm)"
proof (cases "alert s")
  case None
  then have "ui_layer s \<noteq> DialogLayer" "ui_layer s \<noteq> Loading" using assms(2) by (simp_all add: ui_layer_iff)
  then show ?thesis using None assms(2)
    by (cases "ui_layer s") (simp_all add: step_def)
next
  case (Some a)
  then have "ui_layer s = DialogLayer" using assms(2) by (simp add: ui_layer_iff)
  then show ?thesis using Some assms(2)
    by (cases a) (simp_all add: step_def deleteTransaction_def executeCategoryDeletion_def
        ledger_category_deletion_def)
qed

lemma close_modals:
  assumes "ui_inv s" and "isLoaded s" and "alert s = None"
  shows "ui_layer (run s [PressCancelDelete, ClosePicker, CloseAddModal]) = MainScreen"
  using assms by (auto simp: ui_inv_def step_def ui_layer_def)

text \<open>
  C22. No state traps the user: from every reachable state, rejecting a
  pending load, confirming the open dialog, cancelling the deletion modal,
  closing the picker and closing the add modal, in this order, leads to the
  main screen.
\<close>

theorem escape_to_main:
  assumes "reachable allowed s"
  shows "ui_layer (run s escape) = MainScreen"
proof -
  have u: "ui_inv s" using assms by (rule reachable_ui_inv)
  let ?s1 = "step s LoadRejected"
  have u1: "ui_inv ?s1" using u by (simp add: ui_inv_step)
  have l1: "isLoaded ?s1"
  proof (cases "isLoaded s")
    case True
    then show ?thesis by (simp add: step_loaded_LoadRejected)
  next
    case False
    then have "ui_layer s = Loading" by (simp add: ui_layer_iff)
    then show ?thesis by (simp add: step_def loadRejected_def)
  qed
  let ?s2 = "step ?s1 AlertConfirm"
  have u2: "ui_inv ?s2" using u1 by (simp add: ui_inv_step)
  have "alert ?s2 = None \<and> isLoaded ?s2" using step_AlertConfirm_closes [OF u1 l1] .
  then have "ui_layer (run ?s2 [PressCancelDelete, ClosePicker, CloseAddModal]) = MainScreen"
    using close_modals u2 by blast
  then show ?thesis by (simp add: escape_def)
qed

lemma escape_to_main_witness:
  "reachable (\<lambda>_. True) (initial_state clock_mar10) \<and>
   ui_layer (run (initial_state clock_mar10) escape) = MainScreen"
  using escape_to_main [OF reachable.init [of "\<lambda>_. True" clock_mar10]]
  by (simp add: reachable.init)

end
