(* ===== verification/Persistence.thy ===== *)
theory Persistence
  imports AppEvents "HOL-Library.Monad_Syntax"
begin

text \<open>
  The persistence of App.js: the three AsyncStorage slots, the save effects
  that write the state into them once it is loaded (lines 124-140), and the
  reading of the slots by \<open>loadData\<close> (lines 102-122). Slots hold JSON
  values: \<open>JSON.parse (JSON.stringify v)\<close> gives back \<open>v\<close> for every JSON
  value, so the text of a slot is represented by the value it denotes.
  \<open>JSON.stringify\<close> writes a number that is NaN or infinite as \<open>null\<close>, and a
  transaction's \<open>dateISO\<close> is the string of \<open>Date.prototype.toISOString\<close>,
  read back by the \<open>Date\<close> constructor in \<open>isSameMonth\<close>. The decoders read a
  parsed object as the model's values, as App.js reads its properties
  (\<open>t.type\<close>, \<open>t.amount\<close>, \<open>categories[type]\<close>).
\<close>

datatype json =
    JNull
  | JBool bool
  | JNum rat
  | JStr string
  | JArr "json list"
  | JObj "(string \<times> json) list"

subsection \<open>Writing: JSON.stringify and toISOString\<close>

definition json_of_number :: "jsnum \<Rightarrow> json" where
  "json_of_number v = (case v of Fin r \<Rightarrow> JNum r | _ \<Rightarrow> JNull)"

definition json_of_amount :: "jsnum option \<Rightarrow> json" where
  "json_of_amount a = (case a of None \<Rightarrow> JNull | Some v \<Rightarrow> json_of_number v)"

text \<open>The last \<open>n\<close> decimal digits of \<open>k\<close>, zero-padded.\<close>

fun pad_digits :: "nat \<Rightarrow> nat \<Rightarrow> string" where
  "pad_digits 0 k = []"
| "pad_digits (Suc n) k = digit_char (k div 10 ^ n mod 10) # pad_digits n k"

text \<open>
  The year of the Date Time String Format: four digits for years 0 to 9999,
  otherwise a sign and six digits (the expanded years).
\<close>

definition iso_year :: "int \<Rightarrow> string" where
  "iso_year y =
     (if 0 \<le> y \<and> y \<le> 9999 then pad_digits 4 (nat y)
      else (if y < 0 then CHR ''-'' else CHR ''+'') # pad_digits 6 (nat \<bar>y\<bar>))"

definition iso_string :: "jsdate \<Rightarrow> string" where
  "iso_string d =
     iso_year (year d) @ CHR ''-'' # pad_digits 2 (nat (month d + 1)) @
     CHR ''-'' # pad_digits 2 (nat (day d)) @ ''T00:00:00.000Z''"

text \<open>
  The transaction object of \<open>handleAddTransaction\<close> with its keys in the
  order of the literal: \<open>id\<close>, \<open>dateISO\<close>, \<open>displayDate\<close>, then the spread
  form (\<open>type\<close>, \<open>amount\<close>, \<open>category\<close>, \<open>note\<close>), whose \<open>amount\<close> the
  parsed number overrides in place.
\<close>

definition txn_to_json :: "txn \<Rightarrow> json" where
  "txn_to_json t =
     JObj [(''id'', JStr (tid t)), (''dateISO'', JStr (iso_string (dateISO t))),
           (''displayDate'', JStr (displayDate t)), (''type'', JStr (type_name (ttype t))),
           (''amount'', json_of_amount (amount t)), (''category'', JStr (category t)),
           (''note'', JStr (tnote t))]"

definition categories_to_json :: "cat_registry \<Rightarrow> json" where
  "categories_to_json c =
     JObj [(''Income'', JArr (map JStr (income_cats c))), (''Expense'', JArr (map JStr (expense_cats c)))]"

definition theme_string :: "theme_mode \<Rightarrow> string" where
  "theme_string m = (case m of Light \<Rightarrow> ''light'' | Dark \<Rightarrow> ''dark'')"

subsection \<open>Reading: the Date constructor and the parsed objects\<close>

fun read_digits :: "nat \<Rightarrow> string \<Rightarrow> (nat \<times> string) option" where
  "read_digits 0 s = Some (0, s)"
| "read_digits (Suc n) [] = None"
| "read_digits (Suc n) (c # cs) =
     (if is_digit c then map_option (\<lambda>(v, r). (digit_val c * 10 ^ n + v, r)) (read_digits n cs)
      else None)"

definition expect :: "string \<Rightarrow> string \<Rightarrow> string option" where
  "expect p s = (if take (length p) s = p then Some (drop (length p) s) else None)"

text \<open>An expanded year \<open>-000000\<close> is not a valid date string.\<close>

definition read_year :: "string \<Rightarrow> (int \<times> string) option" where
  "read_year s =
     (case s of
        [] \<Rightarrow> None
      | c # r \<Rightarrow>
          if c = CHR ''+'' then map_option (\<lambda>(v, r'). (int v, r')) (read_digits 6 r)
          else if c = CHR ''-'' then
            (case read_digits 6 r of
               None \<Rightarrow> None
             | Some (v, r') \<Rightarrow> if v = 0 then None else Some (- int v, r'))
          else map_option (\<lambda>(v, r'). (int v, r')) (read_digits 4 s))"

text \<open>
  \<open>new Date(s)\<close> on a date string at midnight: a string with out-of-range
  fields is an invalid date, here \<open>None\<close>.
\<close>

definition parse_iso :: "string \<Rightarrow> jsdate option" where
  "parse_iso s = do {
     (y, r1) \<leftarrow> read_year s;
     r2 \<leftarrow> expect ''-'' r1;
     (m, r3) \<leftarrow> read_digits 2 r2;
     r4 \<leftarrow> expect ''-'' r3;
     (d, r5) \<leftarrow> read_digits 2 r4;
     r6 \<leftarrow> expect ''T00:00:00.000Z'' r5;
     let dt = \<lparr>year = y, month = int m - 1, day = int d\<rparr>;
     if r6 = [] \<and> valid_date dt then Some dt else None
   }"

fun json_string :: "json \<Rightarrow> string option" where
  "json_string (JStr s) = Some s"
| "json_string _ = None"

fun json_array :: "json \<Rightarrow> json list option" where
  "json_array (JArr xs) = Some xs"
| "json_array _ = None"

fun json_field :: "json \<Rightarrow> string \<Rightarrow> json option" where
  "json_field (JObj kvs) k = map_of kvs k"
| "json_field _ k = None"

text \<open>A stored amount: a number, or \<open>null\<close> (read as 0 by every total).\<close>

fun amount_of_json :: "json \<Rightarrow> jsnum option option" where
  "amount_of_json JNull = Some None"
| "amount_of_json (JNum r) = Some (Some (Fin r))"
| "amount_of_json _ = None"

definition type_of_name :: "string \<Rightarrow> ttype option" where
  "type_of_name n = (if n = ''Income'' then Some Income else if n = ''Expense'' then Some Expense else None)"

definition txn_of_json :: "json \<Rightarrow> txn option" where
  "txn_of_json j = do {
     i \<leftarrow> json_field j ''id'' \<bind> json_string;
     ds \<leftarrow> json_field j ''dateISO'' \<bind> json_string;
     d \<leftarrow> parse_iso ds;
     dd \<leftarrow> json_field j ''displayDate'' \<bind> json_string;
     tn \<leftarrow> json_field j ''type'' \<bind> json_string;
     ty \<leftarrow> type_of_name tn;
     a \<leftarrow> json_field j ''amount'' \<bind> amount_of_json;
     c \<leftarrow> json_field j ''category'' \<bind> json_string;
     n \<leftarrow> json_field j ''note'' \<bind> json_string;
     Some \<lparr>tid = i, dateISO = d, displayDate = dd, ttype = ty, amount = a, category = c, tnote = n\<rparr>
   }"

definition txns_of_json :: "json \<Rightarrow> txn list option" where
  "txns_of_json j = json_array j \<bind> (\<lambda>xs. those (map txn_of_json xs))"

definition names_of_json :: "json \<Rightarrow> string list option" where
  "names_of_json j = json_array j \<bind> (\<lambda>xs. those (map json_string xs))"

definition categories_of_json :: "json \<Rightarrow> cat_registry option" where
  "categories_of_json j = do {
     is \<leftarrow> json_field j ''Income'' \<bind> names_of_json;
     es \<leftarrow> json_field j ''Expense'' \<bind> names_of_json;
     Some \<lparr>income_cats = is, expense_cats = es\<rparr>
   }"

definition theme_of_string :: "string \<Rightarrow> theme_mode option" where
  "theme_of_string s = (if s = ''light'' then Some Light else if s = ''dark'' then Some Dark else None)"

text \<open>What a transaction is after a save and a reload: a non-finite amount is \<open>null\<close>.\<close>

definition json_normal :: "txn \<Rightarrow> txn" where
  "json_normal t = t\<lparr>amount := (case amount t of Some (Fin r) \<Rightarrow> Some (Fin r) | _ \<Rightarrow> None)\<rparr>"

subsection \<open>The storage and the save effects\<close>

record storage =
  slot_transactions :: "json option"
  slot_categories :: "json option"
  slot_theme :: "string option"

definition read_slot :: "(json \<Rightarrow> 'a option) \<Rightarrow> json option \<Rightarrow> 'a stored" where
  "read_slot dec v =
     (case v of None \<Rightarrow> Missing | Some j \<Rightarrow> (case dec j of None \<Rightarrow> Unparsable | Some x \<Rightarrow> Stored x))"

text \<open>The completion of the three \<open>getItem\<close> reads of \<open>loadData\<close>.\<close>

definition load_event :: "storage \<Rightarrow> event" where
  "load_event st =
     LoadDone (read_slot txns_of_json (slot_transactions st))
       (read_slot categories_of_json (slot_categories st)) (slot_theme st \<bind> theme_of_string)"

text \<open>
  The three effects after a render: each writes its slot when its value or
  \<open>isLoaded\<close> changed and the state is loaded. A slot whose value did not
  change already holds it, so the storage after the effects is the
  encoding of the loaded state, and nothing is written before loading.
\<close>

definition save_effects :: "app_state \<Rightarrow> storage \<Rightarrow> storage" where
  "save_effects s st =
     (if isLoaded s then
        \<lparr>slot_transactions = Some (JArr (map txn_to_json (transactions s))),
         slot_categories = Some (categories_to_json (categories s)),
         slot_theme = Some (theme_string (theme s))\<rparr>
      else st)"

definition session_step :: "app_state \<times> storage \<Rightarrow> event \<Rightarrow> app_state \<times> storage" where
  "session_step ss e = (let s' = step (fst ss) e in (s', save_effects s' (snd ss)))"

fun session_run :: "app_state \<times> storage \<Rightarrow> event list \<Rightarrow> app_state \<times> storage" where
  "session_run ss [] = ss"
| "session_run ss (e # es) = session_run (session_step ss e) es"

fun is_load :: "event \<Rightarrow> bool" where
  "is_load (LoadDone _ _ _) = True"
| "is_load LoadRejected = True"
| "is_load _ = False"

subsection \<open>Examples\<close>

text \<open>An empty storage (first launch), a saved lunch of 12.50 on 10 March 2025,
  and a session that loads it and switches the theme.\<close>

definition empty_storage :: storage where
  "empty_storage = \<lparr>slot_transactions = None, slot_categories = None, slot_theme = None\<rparr>"

definition lunch_txn :: txn where
  "lunch_txn = \<lparr>tid = ''1741600000000'', dateISO = \<lparr>year = 2025, month = 2, day = 10\<rparr>,
     displayDate = ''3/10/2025'', ttype = Expense, amount = Some (Fin (25 / 2)), category = ''Food'',
     tnote = ''lunch''\<rparr>"

definition lunch_session :: "event list" where
  "lunch_session = [LoadDone (Stored [lunch_txn]) Missing None, PressTheme]"

subsection \<open>Round trips\<close>


lemma read_digits_pad: "read_digits n (pad_digits n k @ r) = Some (k mod 10 ^ n, r)"
proof (induction n)
  case 0
  show ?case by simp
next
  case (Suc n)
  have d: "k div 10 ^ n mod 10 < 10" by simp
  have "k mod 10 ^ Suc n = 10 ^ n * (k div 10 ^ n mod 10) + k mod 10 ^ n"
    unfolding power_Suc2 by (rule mod_mult2_eq)
  then have "digit_val (digit_char (k div 10 ^ n mod 10)) * 10 ^ n + k mod 10 ^ n = k mod 10 ^ Suc n"
    using digit_char_digit(2) [OF d] by (simp only: mult.commute)
  then show ?case using Suc digit_char_digit(1) [OF d] by simp
qed

lemma expect_append [simp]: "expect p (p @ r) = Some r"
  by (simp add: expect_def)

lemma pad_digits_Cons:
  "0 < n \<Longrightarrow> pad_digits n k @ r = digit_char (k div 10 ^ (n - 1) mod 10) # (pad_digits (n - 1) k @ r)"
  by (cases n) simp_all

lemma digit_char_not_sign: "d < 10 \<Longrightarrow> digit_char d \<noteq> CHR ''+'' \<and> digit_char d \<noteq> CHR ''-''"
  using digit_char_digit(1) [of d] by (auto simp: is_digit_def)

lemma read_year_iso: "\<bar>y\<bar> < 1000000 \<Longrightarrow> read_year (iso_year y @ r) = Some (y, r)"
proof (cases "0 \<le> y \<and> y \<le> 9999")
  case True
  let ?c = "digit_char (nat y div 1000 mod 10)"
  have p: "pad_digits 4 (nat y) @ r = ?c # (pad_digits 3 (nat y) @ r)"
    by (simp add: pad_digits_Cons)
  have n: "nat y < 10000" using True by (simp add: nat_less_iff)
  have "read_digits 4 (pad_digits 4 (nat y) @ r) = Some (nat y, r)"
    using n by (simp only: read_digits_pad) simp
  then have "read_digits 4 (?c # (pad_digits 3 (nat y) @ r)) = Some (nat y, r)"
    by (simp only: p)
  then show ?thesis
    using True digit_char_not_sign [of "nat y div 1000 mod 10"]
    by (simp add: iso_year_def read_year_def p del: pad_digits.simps read_digits.simps)
next
  case False
  assume b: "\<bar>y\<bar> < 1000000"
  have "read_digits 6 (pad_digits 6 (nat \<bar>y\<bar>) @ r) = Some (nat \<bar>y\<bar>, r)"
    using b by (simp only: read_digits_pad) simp
  with False show ?thesis
    by (auto simp: iso_year_def read_year_def simp del: pad_digits.simps read_digits.simps)
qed

lemma parse_iso_iso_string:
  assumes "valid_date d" and "\<bar>year d\<bar> < 1000000"
  shows "parse_iso (iso_string d) = Some d"
proof -
  have v: "0 \<le> month d" "month d < 12" "1 \<le> day d" "day d \<le> 31"
    using assms(1) days_in_month_le [of "year d" "month d"] unfolding valid_date_def by linarith+
  have m: "read_digits 2 (pad_digits 2 (nat (month d + 1)) @ r) = Some (nat (month d + 1), r)" for r
    using v by (simp only: read_digits_pad) simp
  have dd: "read_digits 2 (pad_digits 2 (nat (day d)) @ r) = Some (nat (day d), r)" for r
    using v by (simp only: read_digits_pad) simp
  have e: "\<lparr>year = year d, month = month d, day = day d\<rparr> = d" by (cases d) simp
  show ?thesis
    using v assms
    by (simp add: parse_iso_def iso_string_def read_year_iso m dd e expect_def
        del: pad_digits.simps read_digits.simps)
qed

lemma type_of_name_type_name [simp]: "type_of_name (type_name ty) = Some ty"
  by (cases ty) (simp_all add: type_of_name_def type_name_def)

lemma amount_of_json_json_of_amount [simp]:
  "amount_of_json (json_of_amount a) = Some (case a of Some (Fin r) \<Rightarrow> Some (Fin r) | _ \<Rightarrow> None)"
proof (cases a)
  case (Some v)
  then show ?thesis by (cases v) (simp_all add: json_of_amount_def json_of_number_def)
qed (simp add: json_of_amount_def)

lemma txn_of_json_txn_to_json:
  assumes "valid_date (dateISO t)" and "\<bar>year (dateISO t)\<bar> < 1000000"
  shows "txn_of_json (txn_to_json t) = Some (json_normal t)"
  using parse_iso_iso_string [OF assms]
  by (simp add: txn_of_json_def txn_to_json_def json_normal_def)

lemma names_of_json_map_JStr [simp]: "names_of_json (JArr (map JStr xs)) = Some xs"
  by (induction xs) (simp_all add: names_of_json_def)

lemma categories_of_json_categories_to_json [simp]:
  "categories_of_json (categories_to_json c) = Some c"
  by (simp add: categories_of_json_def categories_to_json_def)

lemma theme_of_string_theme_string [simp]: "theme_of_string (theme_string m) = Some m"
  by (cases m) (simp_all add: theme_of_string_def theme_string_def)

lemma txns_of_json_roundtrip:
  "list_all (\<lambda>t. valid_date (dateISO t) \<and> \<bar>year (dateISO t)\<bar> < 1000000) ts \<Longrightarrow>
   txns_of_json (JArr (map txn_to_json ts)) = Some (map json_normal ts)"
  by (induction ts) (simp_all add: txns_of_json_def txn_of_json_txn_to_json)

lemma json_normal_finite:
  "(\<forall>v. amount t = Some v \<longrightarrow> js_finite v) \<Longrightarrow> json_normal t = t"
  by (cases "amount t") (auto simp: json_normal_def elim: js_finite.elims)

subsection \<open>Save, reload and the session\<close>

lemma load_saved:
  assumes "isLoaded s"
    and "list_all (\<lambda>t. valid_date (dateISO t) \<and> \<bar>year (dateISO t)\<bar> < 1000000) (transactions s)"
  shows "step (initial_state c) (load_event (save_effects s st)) =
           (initial_state c)\<lparr>transactions := map json_normal (transactions s),
              categories := categories s, theme := theme s, isLoaded := True\<rparr>"
  using assms
  by (simp add: step_def ui_layer_def initial_state_def load_event_def save_effects_def read_slot_def
      txns_of_json_roundtrip loadData_def)

text \<open>
  C15. Save and reload give back the ledger, the registry and the theme: when
  the state is loaded, every transaction date is a valid date within the
  range of the ISO format and every amount is a finite number, loading
  what the save effects wrote into a fresh start of the app yields the same
  transactions in the same order, the same categories and the same theme.
\<close>

theorem reload_roundtrip:
  assumes "isLoaded s"
    and "list_all (\<lambda>t. valid_date (dateISO t) \<and> \<bar>year (dateISO t)\<bar> < 1000000 \<and>
                       (\<forall>v. amount t = Some v \<longrightarrow> js_finite v)) (transactions s)"
  shows "let s' = step (initial_state c) (load_event (save_effects s st)) in
     transactions s' = transactions s \<and> categories s' = categories s \<and> theme s' = theme s \<and>
     isLoaded s' \<and> alert s' = None"
proof -
  have "map json_normal (transactions s) = transactions s"
    using assms(2) by (auto simp: list_all_iff json_normal_finite intro!: map_idI)
  then show ?thesis
    using load_saved [OF assms(1), of c st] assms(2)
    by (simp add: Let_def initial_state_def list_all_iff)
qed

lemma reload_roundtrip_witness:
  "let s = (filled_state [])\<lparr>transactions := [lunch_txn]\<rparr> in
     isLoaded s \<and>
     list_all (\<lambda>t. valid_date (dateISO t) \<and> \<bar>year (dateISO t)\<bar> < 1000000 \<and>
                   (\<forall>v. amount t = Some v \<longrightarrow> js_finite v)) (transactions s) \<and>
     transactions (step (initial_state clock_mar10) (load_event (save_effects s empty_storage))) = [lunch_txn]"
proof -
  let ?s = "(filled_state [])\<lparr>transactions := [lunch_txn]\<rparr>"
  have h: "isLoaded ?s"
    "list_all (\<lambda>t. valid_date (dateISO t) \<and> \<bar>year (dateISO t)\<bar> < 1000000 \<and>
                   (\<forall>v. amount t = Some v \<longrightarrow> js_finite v)) (transactions ?s)"
    by (simp_all add: filled_state_def lunch_txn_def valid_date_def days_in_month_def)
  show ?thesis
    using reload_roundtrip [OF h, of clock_mar10 empty_storage] h by (simp add: Let_def)
qed

text \<open>
  C16. Non-finite amounts do not survive a reload: \<open>JSON.stringify\<close>
  writes NaN, Infinity and -Infinity as \<open>null\<close>, which reads back as no
  amount. For every loaded state whose dates are in the range of the ISO
  format, a restart gives back each transaction in place with all its other
  fields, and its amount exactly when that amount is a finite number. A
  month whose balance showed NaN before the restart shows a number after it.
\<close>

theorem reload_nonfinite_amount:
  assumes "isLoaded s"
    and "list_all (\<lambda>t. valid_date (dateISO t) \<and> \<bar>year (dateISO t)\<bar> < 1000000) (transactions s)"
  shows "let s' = step (initial_state c) (load_event (save_effects s st)) in
     length (transactions s') = length (transactions s) \<and>
     (\<forall>i < length (transactions s).
        (transactions s' ! i)\<lparr>amount := amount (transactions s ! i)\<rparr> = transactions s ! i \<and>
        amount (transactions s' ! i) =
          (case amount (transactions s ! i) of
             Some v \<Rightarrow> if js_finite v then Some v else None
           | None \<Rightarrow> None))"
proof -
  have j: "\<And>t. (json_normal t)\<lparr>amount := amount t\<rparr> = t \<and>
      amount (json_normal t) = (case amount t of Some v \<Rightarrow> if js_finite v then Some v else None | None \<Rightarrow> None)"
  proof -
    fix t :: txn
    show "(json_normal t)\<lparr>amount := amount t\<rparr> = t \<and>
      amount (json_normal t) = (case amount t of Some v \<Rightarrow> if js_finite v then Some v else None | None \<Rightarrow> None)"
      by (cases "amount t") (auto simp: json_normal_def split: jsnum.split)
  qed
  show ?thesis
    using load_saved [OF assms, of c st] j by (simp add: Let_def)
qed

lemma reload_nonfinite_amount_witness:
  "let s = (filled_state [])\<lparr>transactions := [lunch_txn\<lparr>amount := Some NaN\<rparr>]\<rparr>;
       s' = step (initial_state clock_mar10) (load_event (save_effects s empty_storage)) in
     isLoaded s \<and> list_all (\<lambda>t. valid_date (dateISO t) \<and> \<bar>year (dateISO t)\<bar> < 1000000) (transactions s) \<and>
     amount (transactions s' ! 0) = None \<and> balance (totalsOf s) = NaN \<and> balance (totalsOf s') = 0"
proof -
  let ?s = "(filled_state [])\<lparr>transactions := [lunch_txn\<lparr>amount := Some NaN\<rparr>]\<rparr>"
  have a: "isLoaded ?s" by (simp add: filled_state_def)
  have v: "list_all (\<lambda>t. valid_date (dateISO t) \<and> \<bar>year (dateISO t)\<bar> < 1000000) (transactions ?s)"
    by (simp add: lunch_txn_def valid_date_def days_in_month_def)
  have am: "amount (transactions (step (initial_state clock_mar10) (load_event (save_effects ?s empty_storage))) ! 0) = None"
    using reload_nonfinite_amount [OF a v, of clock_mar10 empty_storage] by (simp add: Let_def)
  have l: "step (initial_state clock_mar10) (load_event (save_effects ?s empty_storage)) =
      (initial_state clock_mar10)\<lparr>transactions := [lunch_txn\<lparr>amount := None\<rparr>],
         categories := categories ?s, theme := theme ?s, isLoaded := True\<rparr>"
    using load_saved [OF a v, of clock_mar10 empty_storage] by (simp add: json_normal_def)
  have b: "balance (totalsOf ?s) = NaN \<and>
      balance (totalsOf ((initial_state clock_mar10)\<lparr>transactions := [lunch_txn\<lparr>amount := None\<rparr>],
         categories := categories ?s, theme := theme ?s, isLoaded := True\<rparr>)) = 0"
    by (simp add: Let_def totalsOf_def view_defs getTotals_def type_total_def amount_value_def
        lunch_txn_def filled_state_def initial_state_def clock_mar10_def js_sub_def js_zero_Fin)
  show ?thesis using a v am b by (simp only: Let_def l)
qed

lemma step_before_load: "\<not> isLoaded s \<Longrightarrow> \<not> is_load e \<Longrightarrow> step s e = s"
  by (cases e) (simp_all add: step_def ui_layer_def)

text \<open>
  C17. Nothing is written before loading completes: while the app is not
  loaded, every event other than the completion of the load leaves the state
  and the storage unchanged, so the load reads the data as stored.
\<close>

theorem session_no_save_before_load:
  assumes "\<not> isLoaded s" and "list_all (\<lambda>e. \<not> is_load e) es"
  shows "session_run (s, st) es = (s, st)"
  using assms(2)
  by (induction es) (simp_all add: session_step_def step_before_load [OF assms(1)] save_effects_def assms(1))

lemma session_no_save_before_load_witness:
  "\<not> isLoaded (initial_state clock_mar10) \<and>
   list_all (\<lambda>e. \<not> is_load e) [PressTheme, PressFab clock_mar10, PressSave clock_mar10] \<and>
   session_run (initial_state clock_mar10, empty_storage\<lparr>slot_theme := Some ''dark''\<rparr>)
     [PressTheme, PressFab clock_mar10, PressSave clock_mar10] =
     (initial_state clock_mar10, empty_storage\<lparr>slot_theme := Some ''dark''\<rparr>)"
  using session_no_save_before_load [of "initial_state clock_mar10"
      "[PressTheme, PressFab clock_mar10, PressSave clock_mar10]" "empty_storage\<lparr>slot_theme := Some ''dark''\<rparr>"]
  by (simp add: initial_state_def)

end
