(* ===== verification/Identity.thy ===== *)
theory Identity
  imports Persistence
begin

text \<open>
  Transaction ids. App.js uses \<open>Date.now().toString()\<close> as the id of a new
  transaction (line 232) and deletes by id (line 261). Ids are unique as
  long as the clock strictly increases between saves; two saves within the
  same millisecond give two transactions the same id, and deleting one of
  them deletes both, while with distinct ids a deletion through the
  interface removes exactly one transaction. Also here: the lifecycle of a transaction. Apart from a
  load, a step keeps some transactions in order and changes at most their
  category, or prepends the one a save creates.
\<close>

text \<open>The ids are distinct and all are readings of the clock before \<open>m\<close>.\<close>

definition ids_below :: "nat \<Rightarrow> app_state \<Rightarrow> bool" where
  "ids_below m s \<longleftrightarrow>
     distinct (map tid (transactions s)) \<and> (\<forall>t\<in>set (transactions s). \<exists>n<m. tid t = show_nat n)"

text \<open>An edit of a transaction that changes at most its category.\<close>

definition edit_only :: "(txn \<Rightarrow> txn) \<Rightarrow> bool" where
  "edit_only f \<longleftrightarrow> (\<forall>t. f t = t\<lparr>category := category (f t)\<rparr>)"

text \<open>The clock reading of an event that reads it for an id.\<close>

fun save_clock :: "event \<Rightarrow> nat option" where
  "save_clock (PressSave c) = Some (now_ms c)"
| "save_clock _ = None"

text \<open>A run after loading whose saves read the clock at \<open>m\<close> or later, strictly increasing.\<close>

fun clocks_from :: "nat \<Rightarrow> event list \<Rightarrow> bool" where
  "clocks_from m [] = True"
| "clocks_from m (e # es) =
     (\<not> is_load e \<and>
      (case save_clock e of None \<Rightarrow> clocks_from m es | Some t \<Rightarrow> m \<le> t \<and> clocks_from (Suc t) es))"

definition loaded_start :: app_state where
  "loaded_start = (initial_state clock_mar10)\<lparr>isLoaded := True\<rparr>"

definition clock_mar10_later :: clock where
  "clock_mar10_later = clock_mar10\<lparr>now_ms := Suc (now_ms clock_mar10)\<rparr>"

text \<open>Two expenses saved at the given clock readings.\<close>

definition two_saves :: "clock \<Rightarrow> clock \<Rightarrow> event list" where
  "two_saves c1 c2 =
     [PressFab c1, TypeAmount ''5'', PressCategoryChip ''Food'', PressSave c1,
      PressFab c2, TypeAmount ''7'', PressCategoryChip ''Food'', PressSave c2]"

lemma shape_self [simp]: "\<exists>P f. ts = map f (filter P ts) \<and> edit_only f"
  by (intro exI [of _ "\<lambda>_. True"] exI [of _ id]) (simp add: edit_only_def)

lemma edit_only_tid: "edit_only f \<Longrightarrow> tid (f t) = tid t"
  unfolding edit_only_def by (metis txn.select_convs(1) txn.surjective txn.update_convs(6))

lemma shape_execute:
  "transactions s' = transactions s \<Longrightarrow>
   \<exists>P f. transactions (executeCategoryDeletion n ty a s') = map f (filter P (transactions s)) \<and> edit_only f"
proof (cases a)
  case DeleteAction
  moreover assume "transactions s' = transactions s"
  ultimately show ?thesis
    by (intro exI [of _ "\<lambda>t. \<not> is_dependent n ty t"] exI [of _ id])
       (simp add: executeCategoryDeletion_def ledger_category_deletion_def delete_dependents_def
        edit_only_def)
next
  case ReassignAction
  assume t: "transactions s' = transactions s"
  show ?thesis
  proof (cases "reassignCategory s' = []")
    case True
    then show ?thesis using ReassignAction t
      by (simp add: executeCategoryDeletion_def ledger_category_deletion_def)
  next
    case False
    then show ?thesis using ReassignAction t
    by (intro exI [of _ "\<lambda>_. True"]
          exI [of _ "\<lambda>t. if is_dependent n ty t then t\<lparr>category := reassignCategory s'\<rparr> else t"])
       (auto simp: executeCategoryDeletion_def ledger_category_deletion_def reassign_dependents_def
         edit_only_def)
  qed
qed

lemma shape_delete:
  "transactions s' = transactions s \<Longrightarrow>
   \<exists>P f. transactions (deleteTransaction i s') = map f (filter P (transactions s)) \<and> edit_only f"
  by (intro exI [of _ "\<lambda>t. tid t \<noteq> i"] exI [of _ id])
     (simp add: deleteTransaction_def remove_transaction_def edit_only_def)

text \<open>
  Apart from a load and a save, a step keeps some of the transactions, in
  order, and changes at most their category.
\<close>

lemma step_shape:
  assumes "\<not> is_load e" and "save_clock e = None"
  shows "\<exists>P f. transactions (step s e) = map f (filter P (transactions s)) \<and> edit_only f"
proof (cases "ui_layer s")
  case Loading
  then show ?thesis using assms(1) by (cases e) (simp_all add: step_def)
next
  case DialogLayer
  then show ?thesis
    by (cases e) (auto simp: step_def intro: shape_execute shape_delete split: option.split alert_box.split)
next
  case DeleteModal
  then show ?thesis
    by (cases e) (auto simp: step_def intro: shape_execute split: option.split prod.split)
next
  case PickerModal
  then show ?thesis by (cases e) (simp_all add: step_def handler_defs)
next
  case AddModal
  then show ?thesis using assms(2)
    by (cases e) (simp_all add: step_def handleAddNewCategory_def handleDeleteCategoryInitiation_def
        Let_def split: sum.split)
next
  case MainScreen
  then show ?thesis by (cases e) (simp_all add: step_def handler_defs)
qed

lemma step_tids:
  assumes "\<not> is_load e" and "save_clock e = None"
  shows "\<exists>P. map tid (transactions (step s e)) = map tid (filter P (transactions s))"
proof -
  obtain P f where "transactions (step s e) = map f (filter P (transactions s))" "edit_only f"
    using step_shape [OF assms] by blast
  then show ?thesis by (intro exI [of _ P]) (simp add: comp_def edit_only_tid)
qed

lemma ids_below_filter:
  "ids_below m s \<Longrightarrow> map tid (transactions s') = map tid (filter P (transactions s)) \<Longrightarrow> ids_below m s'"
  unfolding ids_below_def
proof (intro conjI ballI)
  assume a: "distinct (map tid (transactions s)) \<and> (\<forall>t\<in>set (transactions s). \<exists>n<m. tid t = show_nat n)"
    and e: "map tid (transactions s') = map tid (filter P (transactions s))"
  show "distinct (map tid (transactions s'))" using a by (simp add: e distinct_map_filter)
  fix t assume "t \<in> set (transactions s')"
  then have "tid t \<in> tid ` set (filter P (transactions s))"
    using e by (metis image_eqI list.set_map)
  then show "\<exists>n<m. tid t = show_nat n" using a by auto
qed

lemma step_save_cases:
  "transactions (step s (PressSave c)) = transactions s \<or>
   transactions (step s (PressSave c)) =
     new_transaction (now_ms c) (now_date c) (currentDate s) (newTransaction s) # transactions s"
  by (cases "ui_layer s")
     (auto simp: step_def handleAddTransaction_def add_transaction_def split: sum.split)

lemma ids_below_save:
  assumes "ids_below m s" and "m \<le> now_ms c"
  shows "ids_below (Suc (now_ms c)) (step s (PressSave c))"
proof -
  have old: "\<forall>t\<in>set (transactions s). \<exists>n<Suc (now_ms c). tid t = show_nat n"
  proof
    fix t assume "t \<in> set (transactions s)"
    then obtain n where "n < m" "tid t = show_nat n" using assms(1) by (auto simp: ids_below_def)
    then show "\<exists>n<Suc (now_ms c). tid t = show_nat n" using assms(2) by (intro exI [of _ n]) simp
  qed
  have fresh: "show_nat (now_ms c) \<notin> tid ` set (transactions s)"
    using assms by (auto simp: ids_below_def show_nat_inj)
  show ?thesis
    using step_save_cases [of s c] assms(1) old fresh
    by (auto simp: ids_below_def new_transaction_def Let_def show_nat_inj)
qed

lemma ids_below_run:
  "ids_below m s \<Longrightarrow> clocks_from m es \<Longrightarrow> \<exists>m'. ids_below m' (run s es)"
proof (induction es arbitrary: s m)
  case Nil
  then show ?case by auto
next
  case (Cons e es)
  show ?case
  proof (cases "save_clock e")
    case None
    then obtain P where "map tid (transactions (step s e)) = map tid (filter P (transactions s))"
      using step_tids Cons.prems(2) by fastforce
    then have "ids_below m (step s e)" by (rule ids_below_filter [OF Cons.prems(1)])
    moreover have "clocks_from m es" using Cons.prems(2) None by simp
    ultimately show ?thesis using Cons.IH by simp
  next
    case (Some t)
    then obtain c where e: "e = PressSave c" "now_ms c = t" by (cases e) auto
    have m: "m \<le> t" "clocks_from (Suc t) es" using Cons.prems(2) Some by simp_all
    have "ids_below (Suc t) (step s e)"
      using ids_below_save [OF Cons.prems(1), of c] m(1) e by simp
    from Cons.IH [OF this m(2)] show ?thesis by simp
  qed
qed

text \<open>
  C18. Ids stay unique while the clock strictly increases: from a loaded
  state whose ids are distinct clock readings before \<open>m\<close>, every run without
  a reload whose saves read the clock at \<open>m\<close> or later, each later than the
  one before, ends with pairwise distinct transaction ids.
\<close>

theorem ids_unique:
  assumes "ids_below m s" and "clocks_from m es"
  shows "distinct (map tid (transactions (run s es)))"
  using ids_below_run [OF assms] by (auto simp: ids_below_def)

lemma ids_unique_witness:
  "ids_below 0 loaded_start \<and> clocks_from 0 (two_saves clock_mar10 clock_mar10_later) \<and>
   distinct (map tid (transactions (run loaded_start (two_saves clock_mar10 clock_mar10_later))))"
proof -
  have h: "ids_below 0 loaded_start" "clocks_from 0 (two_saves clock_mar10 clock_mar10_later)"
    by (simp_all add: ids_below_def loaded_start_def initial_state_def two_saves_def clock_mar10_later_def)
  show ?thesis using ids_unique [OF h] h by simp
qed

lemma tid_new_transaction [simp]: "tid (new_transaction ms now cur f) = show_nat ms"
  by (simp add: new_transaction_def Let_def)

text \<open>
  C19. Two saves within the same millisecond give two transactions the same
  id, and deleting one deletes both: for any state and any two forms that
  pass the check, saving the first and then the second at one clock reading
  prepends two transactions whose ids are both that reading, and the
  Delete of the confirmation for that id removes both of them (and any
  older transaction with the id) from the ledger.
\<close>

theorem same_ms_delete_both:
  assumes "famount (newTransaction s) \<noteq> []" and "fcategory (newTransaction s) \<noteq> []"
    and "famount f \<noteq> []" and "fcategory f \<noteq> []"
  shows "let s1 = handleAddTransaction c s;
             s2 = handleAddTransaction c (s1\<lparr>newTransaction := f\<rparr>);
             i = show_nat (now_ms c) in
     length (transactions s2) = length (transactions s) + 2 \<and>
     map tid (take 2 (transactions s2)) = [i, i] \<and>
     transactions (deleteTransaction i s2) = filter (\<lambda>t. tid t \<noteq> i) (transactions s)"
  using assms
  by (simp add: Let_def handleAddTransaction_def add_transaction_def deleteTransaction_def
      remove_transaction_def)

lemma same_ms_delete_both_witness:
  "let s = filled_state ''5''; f = \<lparr>ftype = Expense, famount = ''7'', fcategory = ''Food'', fnote = []\<rparr>;
       s2 = handleAddTransaction clock_mar10 ((handleAddTransaction clock_mar10 s)\<lparr>newTransaction := f\<rparr>) in
     famount (newTransaction s) \<noteq> [] \<and> fcategory (newTransaction s) \<noteq> [] \<and>
     famount f \<noteq> [] \<and> fcategory f \<noteq> [] \<and>
     length (transactions s2) = 2 \<and>
     map tid (take 2 (transactions s2)) = [show_nat (now_ms clock_mar10), show_nat (now_ms clock_mar10)] \<and>
     transactions (deleteTransaction (show_nat (now_ms clock_mar10)) s2) = []"
proof -
  let ?f = "\<lparr>ftype = Expense, famount = ''7'', fcategory = ''Food'', fnote = []\<rparr>"
  have h: "famount (newTransaction (filled_state ''5'')) \<noteq> []" "fcategory (newTransaction (filled_state ''5'')) \<noteq> []"
      "famount ?f \<noteq> []" "fcategory ?f \<noteq> []" "transactions (filled_state ''5'') = []"
    by (simp_all add: filled_state_def initial_state_def)
  show ?thesis
    using same_ms_delete_both [OF h(1-4), of clock_mar10] h
    by (simp add: Let_def) (metis numeral_2_eq_2 order_refl take_all)
qed

text \<open>
  C28. No field of a transaction other than its category changes after
  creation: after any step other than a load, every transaction of the
  ledger is a transaction of the ledger before with at most its category
  changed, or the new transaction that a save creates from the form.
\<close>

theorem txn_fields_frozen:
  assumes "\<not> is_load e" and "t' \<in> set (transactions (step s e))"
  shows "(\<exists>t\<in>set (transactions s). t' = t\<lparr>category := category t'\<rparr>) \<or>
         (\<exists>c. e = PressSave c \<and>
            t' = new_transaction (now_ms c) (now_date c) (currentDate s) (newTransaction s))"
proof (cases "save_clock e")
  case None
  then obtain P f where e: "transactions (step s e) = map f (filter P (transactions s))" "edit_only f"
    using step_shape [OF assms(1)] by blast
  then obtain t where "t \<in> set (transactions s)" "t' = f t" using assms(2) by auto
  with e(2) show ?thesis unfolding edit_only_def by metis
next
  case (Some m)
  then obtain c where c: "e = PressSave c" by (cases e) auto
  from step_save_cases [of s c] show ?thesis
  proof
    assume "transactions (step s (PressSave c)) = transactions s"
    then have "t' \<in> set (transactions s)" using assms(2) c by simp
    then show ?thesis by (intro disjI1 bexI [of _ t']) simp_all
  next
    assume "transactions (step s (PressSave c)) =
      new_transaction (now_ms c) (now_date c) (currentDate s) (newTransaction s) # transactions s"
    then have "t' = new_transaction (now_ms c) (now_date c) (currentDate s) (newTransaction s) \<or>
        t' \<in> set (transactions s)" using assms(2) c by simp
    then show ?thesis using c by (auto intro: bexI [of _ t'])
  qed
qed

lemma txn_fields_frozen_witness:
  "let s = filled_state ''12''; e = PressSave clock_mar10;
       t' = new_transaction (now_ms clock_mar10) (now_date clock_mar10) (currentDate s) (newTransaction s) in
     \<not> is_load e \<and> t' \<in> set (transactions (step s e)) \<and>
     (t' = new_transaction (now_ms clock_mar10) (now_date clock_mar10) (currentDate s) (newTransaction s))"
proof -
  let ?s = "filled_state ''12''"
  let ?t = "new_transaction (now_ms clock_mar10) (now_date clock_mar10) (currentDate ?s) (newTransaction ?s)"
  have h: "\<not> is_load (PressSave clock_mar10)" by simp
  have m: "?t \<in> set (transactions (step ?s (PressSave clock_mar10)))"
    by (simp add: step_def ui_layer_def filled_state_def initial_state_def handleAddTransaction_def
        add_transaction_def)
  show ?thesis using txn_fields_frozen [OF h m] h m by (simp add: Let_def)
qed

subsection \<open>Deleting by id\<close>

lemma gtxns_subset:
  "g \<in> set (getGroupedTransactions ts) \<Longrightarrow> set (gtxns g) \<subseteq> set ts"
proof -
  assume "g \<in> set (getGroupedTransactions ts)"
  then have "g \<in> set (abstract_groups ts)"
    unfolding getGroupedTransactions_def collect_groups_refines [symmetric]
    by (metis mset_sort_by_cmp set_mset_mset)
  then show ?thesis by (auto simp: abstract_groups_def group_of_def Let_def)
qed

lemma txn_shown_in_ledger: "txn_shown s i \<Longrightarrow> i \<in> tid ` set (transactions s)"
  unfolding txn_shown_def groupedTransactions_def
  by (auto simp: filteredTransactions_def getFilteredTransactions_def dest!: gtxns_subset)

text \<open>
  C33. With distinct ids, deleting a transaction through the interface
  removes exactly that transaction: a long press on a shown row and the
  dialog's Delete leave the ledger without the id, one entry shorter and
  otherwise unchanged in order.
\<close>

theorem delete_removes_one:
  assumes "ui_layer s = MainScreen" and "distinct (map tid (transactions s))" and "txn_shown s i"
  shows "let s' = run s [LongPressTxn i, AlertConfirm] in
     transactions s' = filter (\<lambda>t. tid t \<noteq> i) (transactions s) \<and>
     i \<notin> tid ` set (transactions s') \<and> length (transactions s') + 1 = length (transactions s)"
proof -
  have e1: "step s (LongPressTxn i) = confirmDelete i s"
    using assms(1,3) by (simp add: step_def)
  have "isLoaded s" using assms(1) by (simp add: ui_layer_iff)
  then have "ui_layer (confirmDelete i s) = DialogLayer"
    by (simp add: ui_layer_def confirmDelete_def)
  then have e2: "transactions (step (confirmDelete i s) AlertConfirm) = filter (\<lambda>t. tid t \<noteq> i) (transactions s)"
    by (simp add: step_def confirmDelete_def deleteTransaction_def remove_transaction_def)
  have "Suc (length (filter (\<lambda>t. tid t \<noteq> i) (transactions s))) = length (transactions s)"
    using assms(2) txn_shown_in_ledger [OF assms(3)] by (rule length_filter_distinct_key)
  then show ?thesis using e1 e2 by (auto simp: Let_def)
qed

lemma delete_removes_one_witness:
  "let s = loaded_start\<lparr>transactions := [march_txn ''1'' Expense 5 ''Food'', march_txn ''2'' Expense 7 ''Food''],
                        expandedCategories := (\<lambda>_. True)\<rparr> in
     ui_layer s = MainScreen \<and> distinct (map tid (transactions s)) \<and> txn_shown s ''1'' \<and>
     transactions (run s [LongPressTxn ''1'', AlertConfirm]) = [march_txn ''2'' Expense 7 ''Food'']"
proof -
  let ?s = "loaded_start\<lparr>transactions := [march_txn ''1'' Expense 5 ''Food'', march_txn ''2'' Expense 7 ''Food''],
                        expandedCategories := (\<lambda>_. True)\<rparr>"
  have u: "ui_layer ?s = MainScreen"
    by (simp add: ui_layer_def loaded_start_def initial_state_def)
  have d: "distinct (map tid (transactions ?s))"
    by (simp add: march_txn_def)
  have "filteredTransactions ?s = transactions ?s"
    by (simp add: view_defs march_txn_def loaded_start_def initial_state_def clock_mar10_def)
  then have "groupedTransactions ?s =
      [push_txn (new_group (march_txn ''1'' Expense 5 ''Food'')) (march_txn ''2'' Expense 7 ''Food'')]"
    by (simp add: groupedTransactions_def getGroupedTransactions_def collect_groups_def sort_by_cmp_def
        group_key_def type_name_def march_txn_def new_group_def push_txn_def)
  then have sh: "txn_shown ?s ''1''"
    by (simp add: txn_shown_def push_txn_def new_group_def march_txn_def)
  show ?thesis
    using delete_removes_one [OF u d sh] u d sh by (simp add: Let_def march_txn_def)
qed

end
