(* ===== verification/Legacy.thy ===== *)
theory Legacy
  imports Identity
begin

text \<open>
  The older copy of the component in src/unnamed/part_000, as a program of
  its own. Its hooks (lines 56-84) are App.js's without the grouping and
  category-deletion state: the record \<open>legacy_state\<close>, whose fields carry
  the prefix \<open>lg_\<close>. Its \<open>loadData\<close>, save effects, helpers and handlers
  (lines 93-260) are translated from its own lines, including the helpers
  whose text is the same as App.js's (\<open>isSameMonth\<close>, \<open>isFutureMonth\<close>,
  the filter and the totals, the transaction date and literal, the delete
  filter, \<open>changeMonth\<close>); only the JavaScript built-ins (the \<open>Date\<close>
  constructor and setters, \<open>parseFloat\<close>, \<open>trim\<close>, \<open>toLocaleDateString\<close>,
  \<open>Number\<close>, JSON) are the shared definitions. It differs in three places: \<open>handleAddNewCategory\<close> has no
  duplicate check (lines 232-243), the list shows the month's transactions
  ungrouped with a long press on each (lines 263-286 and 361-371), and the
  chips have no long press (no category deletion, no deletion modal).

  \<open>to_legacy\<close> forgets the state App.js added. The lemmas show that each
  helper of the older copy computes what its App.js counterpart computes,
  and that \<open>to_legacy\<close> maps every App.js step on a shared event to the older
  copy's step and every App.js save to the older copy's (a simulation of
  whole sessions), except where App.js refuses a duplicate category.
\<close>

record legacy_state =
  lg_theme :: theme_mode
  lg_isLoaded :: bool
  lg_transactions :: "txn list"
  lg_categories :: cat_registry
  lg_modalVisible :: bool
  lg_newTransaction :: txn_form
  lg_newCategoryName :: string
  lg_isAddingCategory :: bool
  lg_currentDate :: jsdate
  lg_pickerVisible :: bool
  lg_pickerYear :: int
  lg_alert :: "alert_box option"

definition legacy_initial :: "clock \<Rightarrow> legacy_state" where
  "legacy_initial c =
     \<lparr>lg_theme = Light, lg_isLoaded = False, lg_transactions = [],
      lg_categories = \<lparr>income_cats = [''Salary'', ''Gift'', ''Freelance''],
                       expense_cats = [''Food'', ''Transport'', ''Shopping'', ''Bills'']\<rparr>,
      lg_modalVisible = False,
      lg_newTransaction = \<lparr>ftype = Expense, famount = [], fcategory = [], fnote = []\<rparr>,
      lg_newCategoryName = [],
      lg_isAddingCategory = False, lg_currentDate = now_date c, lg_pickerVisible = False,
      lg_pickerYear = year (now_date c), lg_alert = None\<rparr>"

subsection \<open>Loading and saving\<close>

definition legacy_loadData ::
  "txn list stored \<Rightarrow> cat_registry stored \<Rightarrow> theme_mode option \<Rightarrow> legacy_state \<Rightarrow> legacy_state" where
  "legacy_loadData st sc th s =
     (case st of
        Unparsable \<Rightarrow> s\<lparr>lg_alert := Some load_error, lg_isLoaded := True\<rparr>
      | _ \<Rightarrow>
        (let s1 = (case st of Stored ts \<Rightarrow> s\<lparr>lg_transactions := ts\<rparr> | _ \<Rightarrow> s)
         in case sc of
              Unparsable \<Rightarrow> s1\<lparr>lg_alert := Some load_error, lg_isLoaded := True\<rparr>
            | _ \<Rightarrow>
              (let s2 = (case sc of Stored c \<Rightarrow> s1\<lparr>lg_categories := c\<rparr> | _ \<Rightarrow> s1);
                   s3 = (case th of Some t \<Rightarrow> s2\<lparr>lg_theme := t\<rparr> | None \<Rightarrow> s2)
               in s3\<lparr>lg_isLoaded := True\<rparr>)))"

definition legacy_loadRejected :: "legacy_state \<Rightarrow> legacy_state" where
  "legacy_loadRejected s = s\<lparr>lg_alert := Some load_error, lg_isLoaded := True\<rparr>"

definition legacy_save_effects :: "legacy_state \<Rightarrow> storage \<Rightarrow> storage" where
  "legacy_save_effects s st =
     (if lg_isLoaded s then
        \<lparr>slot_transactions = Some (JArr (map txn_to_json (lg_transactions s))),
         slot_categories = Some (categories_to_json (lg_categories s)),
         slot_theme = Some (theme_string (lg_theme s))\<rparr>
      else st)"

subsection \<open>The helpers\<close>

definition legacy_isSameMonth :: "jsdate \<Rightarrow> jsdate \<Rightarrow> bool" where
  "legacy_isSameMonth d1 d2 \<longleftrightarrow> month d1 = month d2 \<and> year d1 = year d2"

definition legacy_isFutureMonth :: "jsdate \<Rightarrow> jsdate \<Rightarrow> bool" where
  "legacy_isFutureMonth now date \<longleftrightarrow>
     date_lt (new_date (year now) (month now) 1) (new_date (year date) (month date) 1)"

definition legacy_getFilteredTransactions :: "jsdate \<Rightarrow> txn list \<Rightarrow> txn list" where
  "legacy_getFilteredTransactions cur txns = filter (\<lambda>t. legacy_isSameMonth (dateISO t) cur) txns"

definition legacy_getTotals :: "txn list \<Rightarrow> totals" where
  "legacy_getTotals ts =
     (let i = foldl (\<lambda>acc t. acc + amount_value t) 0 (filter (\<lambda>t. ttype t = Income) ts);
          e = foldl (\<lambda>acc t. acc + amount_value t) 0 (filter (\<lambda>t. ttype t = Expense) ts)
      in \<lparr>income = i, expense = e, balance = js_sub i e\<rparr>)"

text \<open>The date and the literal of a new transaction in \<open>handleAddTransaction\<close>.\<close>

definition legacy_transaction_date :: "jsdate \<Rightarrow> jsdate \<Rightarrow> jsdate" where
  "legacy_transaction_date now cur =
     (let t = set_date (day now) cur
      in if month t \<noteq> month cur then set_date 0 t else t)"

definition legacy_new_transaction :: "ms \<Rightarrow> jsdate \<Rightarrow> jsdate \<Rightarrow> txn_form \<Rightarrow> txn" where
  "legacy_new_transaction ms now cur f =
     (let d = legacy_transaction_date now cur
      in \<lparr>tid = show_nat ms, dateISO = d, displayDate = locale_date_string d,
          ttype = ftype f, amount = Some (parse_float (famount f)),
          category = fcategory f, tnote = fnote f\<rparr>)"

subsection \<open>The view and the handlers\<close>

definition legacy_filteredTransactions :: "legacy_state \<Rightarrow> txn list" where
  "legacy_filteredTransactions s = legacy_getFilteredTransactions (lg_currentDate s) (lg_transactions s)"

definition legacy_totals :: "legacy_state \<Rightarrow> totals" where
  "legacy_totals s = legacy_getTotals (legacy_filteredTransactions s)"

definition legacy_toggleTheme :: "legacy_state \<Rightarrow> legacy_state" where
  "legacy_toggleTheme s = s\<lparr>lg_theme := (if lg_theme s = Light then Dark else Light)\<rparr>"

definition legacy_handleAddTransaction :: "clock \<Rightarrow> legacy_state \<Rightarrow> legacy_state" where
  "legacy_handleAddTransaction c s =
     (if famount (lg_newTransaction s) = [] \<or> fcategory (lg_newTransaction s) = []
      then s\<lparr>lg_alert := Some (Notice ''Missing Info'' ''Please enter an amount and select a category.'')\<rparr>
      else s\<lparr>lg_transactions :=
               legacy_new_transaction (now_ms c) (now_date c) (lg_currentDate s) (lg_newTransaction s)
                 # lg_transactions s,
             lg_modalVisible := False,
             lg_newTransaction := \<lparr>ftype = Expense, famount = [], fcategory = [], fnote = []\<rparr>,
             lg_newCategoryName := [], lg_isAddingCategory := False\<rparr>)"

definition legacy_confirmDelete :: "txn_id \<Rightarrow> legacy_state \<Rightarrow> legacy_state" where
  "legacy_confirmDelete i s = s\<lparr>lg_alert := Some (ConfirmTxnDelete i)\<rparr>"

definition legacy_deleteTransaction :: "txn_id \<Rightarrow> legacy_state \<Rightarrow> legacy_state" where
  "legacy_deleteTransaction i s = s\<lparr>lg_transactions := filter (\<lambda>t. tid t \<noteq> i) (lg_transactions s)\<rparr>"

text \<open>No duplicate check: the trimmed name is appended whenever it is not empty.\<close>

definition legacy_handleAddNewCategory :: "legacy_state \<Rightarrow> legacy_state" where
  "legacy_handleAddNewCategory s =
     (let n = js_trim (lg_newCategoryName s); ty = ftype (lg_newTransaction s)
      in if n = [] then s
         else s\<lparr>lg_categories := set_cats_for ty (cats_for (lg_categories s) ty @ [n]) (lg_categories s),
                lg_newTransaction := (lg_newTransaction s)\<lparr>fcategory := n\<rparr>,
                lg_newCategoryName := [], lg_isAddingCategory := False\<rparr>)"

definition legacy_changeMonth :: "int \<Rightarrow> legacy_state \<Rightarrow> legacy_state" where
  "legacy_changeMonth direction s =
     s\<lparr>lg_currentDate := set_month (month (lg_currentDate s) + direction) (lg_currentDate s)\<rparr>"

definition legacy_openPicker :: "legacy_state \<Rightarrow> legacy_state" where
  "legacy_openPicker s = s\<lparr>lg_pickerYear := year (lg_currentDate s), lg_pickerVisible := True\<rparr>"

definition legacy_selectMonthYear :: "int \<Rightarrow> legacy_state \<Rightarrow> legacy_state" where
  "legacy_selectMonthYear monthIndex s =
     s\<lparr>lg_currentDate := new_date (lg_pickerYear s) monthIndex 1, lg_pickerVisible := False\<rparr>"

subsection \<open>The render as a state machine\<close>

text \<open>The layers of the older copy: no deletion modal.\<close>

definition legacy_ui_layer :: "legacy_state \<Rightarrow> layer" where
  "legacy_ui_layer s =
     (if \<not> lg_isLoaded s then Loading
      else if lg_alert s \<noteq> None then DialogLayer
      else if lg_pickerVisible s then PickerModal
      else if lg_modalVisible s then AddModal
      else MainScreen)"

fun legacy_loading_step :: "legacy_state \<Rightarrow> event \<Rightarrow> legacy_state" where
  "legacy_loading_step s (LoadDone st sc th) = legacy_loadData st sc th s"
| "legacy_loading_step s LoadRejected = legacy_loadRejected s"
| "legacy_loading_step s _ = s"

fun legacy_dialog_step :: "legacy_state \<Rightarrow> event \<Rightarrow> legacy_state" where
  "legacy_dialog_step s AlertConfirm =
     (case lg_alert s of
        Some (ConfirmTxnDelete i) \<Rightarrow> legacy_deleteTransaction i (s\<lparr>lg_alert := None\<rparr>)
      | _ \<Rightarrow> s\<lparr>lg_alert := None\<rparr>)"
| "legacy_dialog_step s AlertCancel =
     (case lg_alert s of
        Some (Notice _ _) \<Rightarrow> s
      | _ \<Rightarrow> s\<lparr>lg_alert := None\<rparr>)"
| "legacy_dialog_step s _ = s"

fun legacy_picker_step :: "legacy_state \<Rightarrow> event \<Rightarrow> legacy_state" where
  "legacy_picker_step s PickerPrevYear = s\<lparr>lg_pickerYear := lg_pickerYear s - 1\<rparr>"
| "legacy_picker_step s PickerNextYear = s\<lparr>lg_pickerYear := lg_pickerYear s + 1\<rparr>"
| "legacy_picker_step s (PickerSelectMonth i) =
     (if 0 \<le> i \<and> i < 12 then legacy_selectMonthYear i s else s)"
| "legacy_picker_step s ClosePicker = s\<lparr>lg_pickerVisible := False\<rparr>"
| "legacy_picker_step s _ = s"

text \<open>The add-transaction modal of the older copy: chips without long press.\<close>

fun legacy_add_modal_step :: "legacy_state \<Rightarrow> event \<Rightarrow> legacy_state" where
  "legacy_add_modal_step s CloseAddModal = s\<lparr>lg_modalVisible := False\<rparr>"
| "legacy_add_modal_step s (PressType ty) =
     s\<lparr>lg_newTransaction := (lg_newTransaction s)\<lparr>ftype := ty, fcategory := []\<rparr>\<rparr>"
| "legacy_add_modal_step s (TypeAmount txt) =
     s\<lparr>lg_newTransaction := (lg_newTransaction s)\<lparr>famount := txt\<rparr>\<rparr>"
| "legacy_add_modal_step s PressAddNew =
     (if lg_isAddingCategory s then s else s\<lparr>lg_isAddingCategory := True\<rparr>)"
| "legacy_add_modal_step s (TypeCategoryName n) =
     (if lg_isAddingCategory s then s\<lparr>lg_newCategoryName := n\<rparr> else s)"
| "legacy_add_modal_step s PressAddCategory =
     (if lg_isAddingCategory s then legacy_handleAddNewCategory s else s)"
| "legacy_add_modal_step s PressCancelCategory =
     (if lg_isAddingCategory s then s\<lparr>lg_isAddingCategory := False\<rparr> else s)"
| "legacy_add_modal_step s (PressCategoryChip cat) =
     (if \<not> lg_isAddingCategory s \<and> cat \<in> set (cats_for (lg_categories s) (ftype (lg_newTransaction s)))
      then s\<lparr>lg_newTransaction := (lg_newTransaction s)\<lparr>fcategory := cat\<rparr>\<rparr> else s)"
| "legacy_add_modal_step s (TypeNote n) =
     s\<lparr>lg_newTransaction := (lg_newTransaction s)\<lparr>fnote := n\<rparr>\<rparr>"
| "legacy_add_modal_step s (PressSave c) = legacy_handleAddTransaction c s"
| "legacy_add_modal_step s _ = s"

text \<open>The main screen of the older copy: a flat list of the month's transactions.\<close>

fun legacy_main_step :: "legacy_state \<Rightarrow> event \<Rightarrow> legacy_state" where
  "legacy_main_step s PressTheme = legacy_toggleTheme s"
| "legacy_main_step s PressPrevMonth = legacy_changeMonth (-1) s"
| "legacy_main_step s PressNextMonth = legacy_changeMonth 1 s"
| "legacy_main_step s PressMonthTitle = legacy_openPicker s"
| "legacy_main_step s (LongPressTxn i) =
     (if i \<in> tid ` set (legacy_filteredTransactions s) then legacy_confirmDelete i s else s)"
| "legacy_main_step s (PressFab c) =
     (if legacy_isFutureMonth (now_date c) (lg_currentDate s) then s else s\<lparr>lg_modalVisible := True\<rparr>)"
| "legacy_main_step s _ = s"

definition legacy_step :: "legacy_state \<Rightarrow> event \<Rightarrow> legacy_state" where
  "legacy_step s e =
     (case legacy_ui_layer s of
        Loading \<Rightarrow> legacy_loading_step s e
      | DialogLayer \<Rightarrow> legacy_dialog_step s e
      | PickerModal \<Rightarrow> legacy_picker_step s e
      | AddModal \<Rightarrow> legacy_add_modal_step s e
      | MainScreen \<Rightarrow> legacy_main_step s e
      | DeleteModal \<Rightarrow> s)"

fun legacy_run :: "legacy_state \<Rightarrow> event list \<Rightarrow> legacy_state" where
  "legacy_run s [] = s"
| "legacy_run s (e # es) = legacy_run (legacy_step s e) es"

text \<open>A step of the older copy and its save effects.\<close>

definition legacy_session_step :: "legacy_state \<times> storage \<Rightarrow> event \<Rightarrow> legacy_state \<times> storage" where
  "legacy_session_step ss e = (let s' = legacy_step (fst ss) e in (s', legacy_save_effects s' (snd ss)))"

fun legacy_session_run :: "legacy_state \<times> storage \<Rightarrow> event list \<Rightarrow> legacy_state \<times> storage" where
  "legacy_session_run ss [] = ss"
| "legacy_session_run ss (e # es) = legacy_session_run (legacy_session_step ss e) es"

subsection \<open>The two versions side by side\<close>

text \<open>The state of the older copy inside an App.js state.\<close>

definition to_legacy :: "app_state \<Rightarrow> legacy_state" where
  "to_legacy s =
     \<lparr>lg_theme = theme s, lg_isLoaded = isLoaded s, lg_transactions = transactions s,
      lg_categories = categories s, lg_modalVisible = modalVisible s,
      lg_newTransaction = newTransaction s, lg_newCategoryName = newCategoryName s,
      lg_isAddingCategory = isAddingCategory s, lg_currentDate = currentDate s,
      lg_pickerVisible = pickerVisible s, lg_pickerYear = pickerYear s, lg_alert = alert s\<rparr>"

text \<open>The events whose elements both versions render the same way.\<close>

fun shared_event :: "event \<Rightarrow> bool" where
  "shared_event (PressGroup _) = False"
| "shared_event (LongPressTxn _) = False"
| "shared_event (LongPressCategoryChip _) = False"
| "shared_event _ = True"

text \<open>An App.js state the older copy can be in: no deletion modal or dialog of App.js's own.\<close>

fun app_only_alert :: "alert_box option \<Rightarrow> bool" where
  "app_only_alert (Some (ConfirmCategoryDelete _ _)) = True"
| "app_only_alert _ = False"

definition legacy_compatible :: "app_state \<Rightarrow> bool" where
  "legacy_compatible s \<longleftrightarrow> \<not> deleteModalVisible s \<and> \<not> app_only_alert (alert s)"

text \<open>A run of shared events on which App.js never meets an existing category name.\<close>

fun shared_run :: "app_state \<Rightarrow> event list \<Rightarrow> bool" where
  "shared_run s [] = True"
| "shared_run s (e # es) =
     (shared_event e \<and>
      (e = PressAddCategory \<longrightarrow>
         js_trim (newCategoryName s) \<notin> set (cats_for (categories s) (ftype (newTransaction s)))) \<and>
      shared_run (step s e) es)"

subsection \<open>Simulation\<close>

lemma to_legacy_sel [simp]:
  "lg_theme (to_legacy s) = theme s"
  "lg_isLoaded (to_legacy s) = isLoaded s"
  "lg_transactions (to_legacy s) = transactions s"
  "lg_categories (to_legacy s) = categories s"
  "lg_modalVisible (to_legacy s) = modalVisible s"
  "lg_newTransaction (to_legacy s) = newTransaction s"
  "lg_newCategoryName (to_legacy s) = newCategoryName s"
  "lg_isAddingCategory (to_legacy s) = isAddingCategory s"
  "lg_currentDate (to_legacy s) = currentDate s"
  "lg_pickerVisible (to_legacy s) = pickerVisible s"
  "lg_pickerYear (to_legacy s) = pickerYear s"
  "lg_alert (to_legacy s) = alert s"
  by (simp_all add: to_legacy_def)

lemma to_legacy_upd [simp]:
  "to_legacy (s\<lparr>theme := v1\<rparr>) = (to_legacy s)\<lparr>lg_theme := v1\<rparr>"
  "to_legacy (s\<lparr>isLoaded := v2\<rparr>) = (to_legacy s)\<lparr>lg_isLoaded := v2\<rparr>"
  "to_legacy (s\<lparr>transactions := v3\<rparr>) = (to_legacy s)\<lparr>lg_transactions := v3\<rparr>"
  "to_legacy (s\<lparr>categories := v4\<rparr>) = (to_legacy s)\<lparr>lg_categories := v4\<rparr>"
  "to_legacy (s\<lparr>modalVisible := v5\<rparr>) = (to_legacy s)\<lparr>lg_modalVisible := v5\<rparr>"
  "to_legacy (s\<lparr>newTransaction := v6\<rparr>) = (to_legacy s)\<lparr>lg_newTransaction := v6\<rparr>"
  "to_legacy (s\<lparr>newCategoryName := v7\<rparr>) = (to_legacy s)\<lparr>lg_newCategoryName := v7\<rparr>"
  "to_legacy (s\<lparr>isAddingCategory := v8\<rparr>) = (to_legacy s)\<lparr>lg_isAddingCategory := v8\<rparr>"
  "to_legacy (s\<lparr>currentDate := v9\<rparr>) = (to_legacy s)\<lparr>lg_currentDate := v9\<rparr>"
  "to_legacy (s\<lparr>pickerVisible := v10\<rparr>) = (to_legacy s)\<lparr>lg_pickerVisible := v10\<rparr>"
  "to_legacy (s\<lparr>pickerYear := v11\<rparr>) = (to_legacy s)\<lparr>lg_pickerYear := v11\<rparr>"
  "to_legacy (s\<lparr>alert := v12\<rparr>) = (to_legacy s)\<lparr>lg_alert := v12\<rparr>"
  by (simp_all add: to_legacy_def)

lemma to_legacy_initial: "to_legacy (initial_state c) = legacy_initial c"
  by (simp add: to_legacy_def initial_state_def legacy_initial_def default_categories_def empty_form_def)

text \<open>Each helper of the older copy computes what its App.js counterpart computes.\<close>

lemma legacy_helpers_agree:
  "legacy_isSameMonth = isSameMonth"
  "legacy_isFutureMonth = isFutureMonth"
  "legacy_getFilteredTransactions = getFilteredTransactions"
  "legacy_getTotals = getTotals"
  "legacy_transaction_date = transaction_date"
  "legacy_new_transaction = new_transaction"
  by (intro ext;
      simp add: legacy_isSameMonth_def isSameMonth_def legacy_isFutureMonth_def isFutureMonth_def
        legacy_getFilteredTransactions_def getFilteredTransactions_def legacy_getTotals_def
        getTotals_def type_total_def legacy_transaction_date_def transaction_date_def
        legacy_new_transaction_def new_transaction_def)+

lemma legacy_save_effects_to_legacy: "legacy_save_effects (to_legacy s) st = save_effects s st"
  by (simp add: legacy_save_effects_def save_effects_def)

lemma legacy_ui_layer_to_legacy:
  "\<not> deleteModalVisible s \<Longrightarrow> legacy_ui_layer (to_legacy s) = ui_layer s"
  by (simp add: legacy_ui_layer_def ui_layer_def to_legacy_def)

lemma to_legacy_handlers:
  "to_legacy (loadData st sc th s) = legacy_loadData st sc th (to_legacy s)"
  "to_legacy (loadRejected s) = legacy_loadRejected (to_legacy s)"
  "to_legacy (toggleTheme s) = legacy_toggleTheme (to_legacy s)"
  "to_legacy (handleAddTransaction c s) = legacy_handleAddTransaction c (to_legacy s)"
  "to_legacy (confirmDelete i s) = legacy_confirmDelete i (to_legacy s)"
  "to_legacy (deleteTransaction i s) = legacy_deleteTransaction i (to_legacy s)"
  "to_legacy (openPicker s) = legacy_openPicker (to_legacy s)"
  "to_legacy (selectMonthYear m s) = legacy_selectMonthYear m (to_legacy s)"
  by (simp_all add: to_legacy_def loadData_def legacy_loadData_def loadRejected_def
      legacy_loadRejected_def toggleTheme_def legacy_toggleTheme_def handleAddTransaction_def
      legacy_handleAddTransaction_def add_transaction_def alert_of_error_def empty_form_def
      legacy_helpers_agree confirmDelete_def legacy_confirmDelete_def
      deleteTransaction_def legacy_deleteTransaction_def remove_transaction_def
      openPicker_def legacy_openPicker_def
      selectMonthYear_def legacy_selectMonthYear_def Let_def
      split: stored.splits option.splits sum.splits)

lemma to_legacy_handleAddNewCategory:
  assumes "alert s = None"
    and "js_trim (newCategoryName s) \<notin> set (cats_for (categories s) (ftype (newTransaction s)))"
  shows "to_legacy (handleAddNewCategory s) = legacy_handleAddNewCategory (to_legacy s)"
  using assms
  by (simp add: handleAddNewCategory_def legacy_handleAddNewCategory_def add_category_def
      alert_of_error_def to_legacy_def Let_def)

lemma step_to_legacy:
  assumes "legacy_compatible s" and "shared_event e"
    and "e = PressAddCategory \<longrightarrow>
           js_trim (newCategoryName s) \<notin> set (cats_for (categories s) (ftype (newTransaction s)))"
  shows "to_legacy (step s e) = legacy_step (to_legacy s) e"
proof -
  have d: "\<not> deleteModalVisible s" and a: "\<not> app_only_alert (alert s)"
    using assms(1) by (simp_all add: legacy_compatible_def)
  have l: "legacy_ui_layer (to_legacy s) = ui_layer s"
    using d by (rule legacy_ui_layer_to_legacy)
  show ?thesis
  proof (cases "ui_layer s")
    case Loading
    then show ?thesis using l by (cases e) (simp_all add: step_def legacy_step_def to_legacy_handlers)
  next
    case DialogLayer
    then show ?thesis using l a
      by (cases e) (auto simp: step_def legacy_step_def to_legacy_handlers
          split: option.splits alert_box.splits)
  next
    case DeleteModal
    then show ?thesis using d by (simp add: ui_layer_iff)
  next
    case PickerModal
    then show ?thesis using l
      by (cases e) (simp_all add: step_def legacy_step_def to_legacy_handlers)
  next
    case AddModal
    then have "alert s = None" by (simp add: ui_layer_iff)
    then show ?thesis using AddModal l assms(2,3) to_legacy_handleAddNewCategory [of s]
      by (cases e) (simp_all add: step_def legacy_step_def to_legacy_handlers chip_shown_def)
  next
    case MainScreen
    then show ?thesis using l assms(2)
      by (cases e) (simp_all add: step_def legacy_step_def to_legacy_handlers
          legacy_changeMonth_def changeMonth_def legacy_helpers_agree)
  qed
qed

lemma app_only_alert_of_error: "\<not> app_only_alert (alert_of_error e)"
  by (cases e) (simp_all add: alert_of_error_def)

lemma legacy_compatible_upd [simp]:
  "legacy_compatible (s\<lparr>theme := v1\<rparr>) = legacy_compatible s"
  "legacy_compatible (s\<lparr>isLoaded := v2\<rparr>) = legacy_compatible s"
  "legacy_compatible (s\<lparr>transactions := v3\<rparr>) = legacy_compatible s"
  "legacy_compatible (s\<lparr>categories := v4\<rparr>) = legacy_compatible s"
  "legacy_compatible (s\<lparr>modalVisible := v5\<rparr>) = legacy_compatible s"
  "legacy_compatible (s\<lparr>newTransaction := v6\<rparr>) = legacy_compatible s"
  "legacy_compatible (s\<lparr>newCategoryName := v7\<rparr>) = legacy_compatible s"
  "legacy_compatible (s\<lparr>isAddingCategory := v8\<rparr>) = legacy_compatible s"
  "legacy_compatible (s\<lparr>currentDate := v9\<rparr>) = legacy_compatible s"
  "legacy_compatible (s\<lparr>pickerVisible := v10\<rparr>) = legacy_compatible s"
  "legacy_compatible (s\<lparr>pickerYear := v11\<rparr>) = legacy_compatible s"
  "legacy_compatible (s\<lparr>alert := v12\<rparr>) \<longleftrightarrow> \<not> deleteModalVisible s \<and> \<not> app_only_alert v12"
  by (simp_all add: legacy_compatible_def)

lemma legacy_compatible_handlers:
  assumes "legacy_compatible s"
  shows "legacy_compatible (loadData st sc th s)" "legacy_compatible (loadRejected s)"
    "legacy_compatible (toggleTheme s)" "legacy_compatible (handleAddTransaction c s)"
    "legacy_compatible (confirmDelete i s)" "legacy_compatible (deleteTransaction i s)"
    "legacy_compatible (handleAddNewCategory s)" "legacy_compatible (openPicker s)"
    "legacy_compatible (selectMonthYear m s)"
  using assms
  by (simp_all add: legacy_compatible_def loadData_def loadRejected_def load_error_def
      handler_defs deleteTransaction_def handleAddTransaction_def handleAddNewCategory_def
      app_only_alert_of_error Let_def split: stored.split option.split sum.split)

lemma step_legacy_compatible:
  assumes "legacy_compatible s" and "shared_event e"
  shows "legacy_compatible (step s e)"
proof -
  have d: "\<not> deleteModalVisible s" and a: "\<not> app_only_alert (alert s)"
    using assms(1) by (simp_all add: legacy_compatible_def)
  show ?thesis
  proof (cases "ui_layer s")
    case Loading
    then show ?thesis using assms(1) by (cases e) (simp_all add: step_def legacy_compatible_handlers)
  next
    case DialogLayer
    then show ?thesis using assms(1) d a
      by (cases e) (auto simp: step_def legacy_compatible_handlers split: option.split alert_box.split)
  next
    case DeleteModal
    then show ?thesis using d by (simp add: ui_layer_iff)
  next
    case PickerModal
    then show ?thesis using assms(1) by (cases e) (simp_all add: step_def legacy_compatible_handlers)
  next
    case AddModal
    then show ?thesis using assms
      by (cases e) (simp_all add: step_def legacy_compatible_handlers)
  next
    case MainScreen
    then show ?thesis using assms
      by (cases e) (simp_all add: step_def legacy_compatible_handlers)
  qed
qed

text \<open>
  C21. App.js refines the older copy: from a state the older copy can be in,
  along any run of events both versions render alike on which App.js never
  meets an existing category name, forgetting App.js's grouping and deletion
  state gives the older copy's run, and the two sessions leave the same
  storage behind.
\<close>

theorem legacy_simulation:
  assumes "legacy_compatible s" and "shared_run s es"
  shows "to_legacy (run s es) = legacy_run (to_legacy s) es \<and>
         map_prod to_legacy id (session_run (s, st) es) = legacy_session_run (to_legacy s, st) es"
  using assms
proof (induction es arbitrary: s st)
  case Nil
  then show ?case by simp
next
  case (Cons e es)
  have eq: "legacy_step (to_legacy s) e = to_legacy (step s e)"
    using Cons.prems by (intro step_to_legacy [symmetric]) simp_all
  have "legacy_compatible (step s e)"
    using Cons.prems by (intro step_legacy_compatible) simp_all
  then show ?case
    using Cons.IH [of "step s e" "save_effects (step s e) st"] Cons.prems
    by (simp add: eq session_step_def legacy_session_step_def legacy_save_effects_to_legacy Let_def)
qed

lemma legacy_simulation_witness:
  "legacy_compatible loaded_start \<and>
   shared_run loaded_start [PressTheme, PressFab clock_mar10, PressAddNew, TypeCategoryName ''Travel'', PressAddCategory] \<and>
   to_legacy (run loaded_start [PressTheme, PressFab clock_mar10, PressAddNew, TypeCategoryName ''Travel'', PressAddCategory]) =
   legacy_run (to_legacy loaded_start) [PressTheme, PressFab clock_mar10, PressAddNew, TypeCategoryName ''Travel'', PressAddCategory] \<and>
   map_prod to_legacy id (session_run (loaded_start, empty_storage)
     [PressTheme, PressFab clock_mar10, PressAddNew, TypeCategoryName ''Travel'', PressAddCategory]) =
   legacy_session_run (to_legacy loaded_start, empty_storage)
     [PressTheme, PressFab clock_mar10, PressAddNew, TypeCategoryName ''Travel'', PressAddCategory]"
proof -
  have c: "legacy_compatible loaded_start"
    by (simp add: legacy_compatible_def loaded_start_def initial_state_def)
  have r: "shared_run loaded_start [PressTheme, PressFab clock_mar10, PressAddNew, TypeCategoryName ''Travel'', PressAddCategory]"
    by (simp add: loaded_start_def initial_state_def step_def ui_layer_def toggleTheme_def
        isFutureMonth_def clock_mar10_def new_date_def make_day_def norm_day.simps date_lt_def
        days_in_month_def leap_year_def js_trim_def is_ws_def cats_for_def default_categories_def
        empty_form_def)
  show ?thesis
    using legacy_simulation [OF c r, of empty_storage] c r by simp
qed

text \<open>
  C20. The older copy lets a category be added twice: in any state with the
  add-transaction modal on top and the new category field open, when the
  trimmed name is already listed for the form's type, the older copy's Add
  appends it again, so the list is no longer free of duplicates, while
  App.js's Add leaves the categories as they are and opens the duplicate
  notice.
\<close>

theorem legacy_duplicate_category:
  assumes "ui_layer s = AddModal" and "isAddingCategory s"
    and "js_trim (newCategoryName s) \<in> set (cats_for (categories s) (ftype (newTransaction s)))"
    and "js_trim (newCategoryName s) \<noteq> []"
  shows "let ty = ftype (newTransaction s); n = js_trim (newCategoryName s);
             l = legacy_step (to_legacy s) PressAddCategory; a = step s PressAddCategory in
     cats_for (lg_categories l) ty = cats_for (categories s) ty @ [n] \<and>
     \<not> distinct (cats_for (lg_categories l) ty) \<and>
     categories a = categories s \<and> alert a = Some (Notice ''Error'' ''Category already exists.'')"
proof -
  have d: "\<not> deleteModalVisible s" using assms(1) by (simp add: ui_layer_iff)
  have l: "legacy_step (to_legacy s) PressAddCategory = legacy_handleAddNewCategory (to_legacy s)"
    using assms(1,2) legacy_ui_layer_to_legacy [OF d] by (simp add: legacy_step_def)
  have a: "step s PressAddCategory = handleAddNewCategory s"
    using assms(1,2) by (simp add: step_def)
  show ?thesis
    using assms(3,4) unfolding l a
    by (simp add: Let_def legacy_handleAddNewCategory_def handleAddNewCategory_def add_category_def
        alert_of_error_def)
qed

lemma legacy_duplicate_category_witness:
  "let s = (filled_state [])\<lparr>isAddingCategory := True, newCategoryName := '' Food ''\<rparr> in
     ui_layer s = AddModal \<and> isAddingCategory s \<and>
     js_trim (newCategoryName s) \<in> set (cats_for (categories s) (ftype (newTransaction s))) \<and>
     js_trim (newCategoryName s) \<noteq> [] \<and>
     cats_for (lg_categories (legacy_step (to_legacy s) PressAddCategory)) Expense =
       [''Food'', ''Transport'', ''Shopping'', ''Bills'', ''Food''] \<and>
     categories (step s PressAddCategory) = default_categories"
proof -
  let ?s = "(filled_state [])\<lparr>isAddingCategory := True, newCategoryName := '' Food ''\<rparr>"
  have t: "js_trim '' Food '' = ''Food''" by (simp add: js_trim_def is_ws_def)
  have h: "ui_layer ?s = AddModal" "isAddingCategory ?s"
    "js_trim (newCategoryName ?s) \<in> set (cats_for (categories ?s) (ftype (newTransaction ?s)))"
    "js_trim (newCategoryName ?s) \<noteq> []"
    using t by (simp_all add: ui_layer_def filled_state_def initial_state_def cats_for_def default_categories_def)
  have c: "ftype (newTransaction ?s) = Expense" "categories ?s = default_categories"
    by (simp_all add: filled_state_def initial_state_def)
  show ?thesis
    using legacy_duplicate_category [OF h] h c t by (simp add: Let_def cats_for_def default_categories_def)
qed

end
