(* ===== verification/Format.thy ===== *)
theory Format
  imports AppState
begin

text \<open>
  The display of amounts: \<open>formatCurrency(amount)\<close> is
  \<open>'$' + Number(amount).toFixed(2)\<close> (App.js lines 143-145), used for each
  transaction, each group total and the balance, income and expense of the
  month (lines 387, 413, 473, 482, 492). \<open>Number(null)\<close> is 0, as
  \<open>amount_value\<close> reads it. \<open>toFixed(2)\<close> follows ECMAScript: NaN and the
  infinities print as their names; otherwise the sign, then the integer
  \<open>n\<close> closest to \<open>100 |x|\<close> (the larger on a tie) written with at least three
  digits and a point before the last two. Values of \<open>10^21\<close> or more switch to
  \<open>Number::toString\<close>, whose shortest round-trip digits need the double
  format; they are left out (\<open>None\<close>).
\<close>

text \<open>The digits of \<open>n\<close>, padded to three, with a point before the last two.\<close>

definition fixed2_digits :: "nat \<Rightarrow> string" where
  "fixed2_digits n =
     (let m = replicate (3 - length (show_nat n)) (CHR ''0'') @ show_nat n; k = length m
      in take (k - 2) m @ CHR ''.'' # drop (k - 2) m)"

definition round_cents :: "rat \<Rightarrow> nat" where
  "round_cents x = nat \<lfloor>\<bar>x\<bar> * 100 + 1 / 2\<rfloor>"

definition to_fixed2 :: "jsnum \<Rightarrow> string option" where
  "to_fixed2 v =
     (case v of
        NaN \<Rightarrow> Some ''NaN''
      | PInf \<Rightarrow> Some ''Infinity''
      | NInf \<Rightarrow> Some ''-Infinity''
      | Fin x \<Rightarrow>
          if 10 ^ 21 \<le> \<bar>x\<bar> then None
          else Some ((if x < 0 then ''-'' else []) @ fixed2_digits (round_cents x)))"

definition formatCurrency :: "jsnum \<Rightarrow> string option" where
  "formatCurrency v = map_option (\<lambda>m. CHR ''$'' # m) (to_fixed2 v)"

text \<open>The summary card: balance, income and expense of the viewed month.\<close>

definition summary_texts :: "app_state \<Rightarrow> string option \<times> string option \<times> string option" where
  "summary_texts s =
     (let t = totalsOf s
      in (formatCurrency (balance t), formatCurrency (income t), formatCurrency (expense t)))"

subsection \<open>Digits\<close>

lemma nat_digits_lt: "d \<in> set (nat_digits n) \<Longrightarrow> d < 10"
proof (induction n rule: nat_digits.induct)
  case (1 n)
  then show ?case by (cases "n < 10") (auto simp: nat_digits.simps [of n])
qed

lemma nat_digits_ne: "nat_digits n \<noteq> []"
  by (simp add: nat_digits.simps [of n])

lemma show_nat_digits: "list_all is_digit (show_nat n)" "show_nat n \<noteq> []"
  by (auto simp: show_nat_def list_all_iff nat_digits_lt digit_char_digit nat_digits_ne)

lemma foldl_digits_acc:
  "foldl (\<lambda>n c. 10 * n + digit_val c) a ys = a * 10 ^ length ys + foldl (\<lambda>n c. 10 * n + digit_val c) 0 ys"
proof (induction ys arbitrary: a)
  case Nil
  then show ?case by simp
next
  case (Cons y ys)
  have "foldl (\<lambda>n c. 10 * n + digit_val c) (10 * a + digit_val y) ys =
      (10 * a + digit_val y) * 10 ^ length ys + foldl (\<lambda>n c. 10 * n + digit_val c) 0 ys"
    by (rule Cons.IH)
  moreover have "foldl (\<lambda>n c. 10 * n + digit_val c) (digit_val y) ys =
      digit_val y * 10 ^ length ys + foldl (\<lambda>n c. 10 * n + digit_val c) 0 ys"
    by (rule Cons.IH)
  ultimately show ?case by (simp add: algebra_simps)
qed

lemma digits_value_append:
  "digits_value (xs @ ys) = digits_value xs * 10 ^ length ys + digits_value ys"
  unfolding digits_value_def foldl_append
  by (rule foldl_digits_acc [of "foldl (\<lambda>n c. 10 * n + digit_val c) 0 xs" ys])

lemma digits_value_zeros: "digits_value (replicate k (CHR ''0'') @ m) = digits_value m"
  by (induction k) (simp_all add: digits_value_def digit_val_def)

lemma digit_not_special:
  "is_digit c \<Longrightarrow> \<not> is_ws c \<and> c \<noteq> CHR ''-'' \<and> c \<noteq> CHR ''+'' \<and> c \<noteq> CHR ''.'' \<and> c \<noteq> CHR ''I''"
  by (auto simp: is_digit_def is_ws_def)

lemma parse_float_decimal:
  assumes "a \<noteq> []" and "list_all is_digit a" and "list_all is_digit b"
  shows "parse_float ((if neg then ''-'' else []) @ a @ CHR ''.'' # b) =
           Fin ((if neg then - 1 else 1) * of_nat (digits_value (a @ b)) / 10 ^ length b)"
proof -
  obtain c cs where a: "a = c # cs" using assms(1) by (cases a) auto
  have c: "is_digit c" using assms(2) a by simp
  have nd: "\<not> is_digit CHR ''.''" by (simp add: is_digit_def)
  have tw: "takeWhile is_digit (a @ CHR ''.'' # b) = a" "dropWhile is_digit (a @ CHR ''.'' # b) = CHR ''.'' # b"
    using assms(2) nd by (simp_all add: list_all_iff)
  have tb: "takeWhile is_digit b = b" "dropWhile is_digit b = []"
    using assms(3) by (simp_all add: list_all_iff)
  have ss: "split_sign ((if neg then ''-'' else []) @ a @ CHR ''.'' # b) = (neg, a @ CHR ''.'' # b)"
    using digit_not_special [OF c] by (cases neg) (simp_all add: split_sign_def a)
  have ws: "dropWhile is_ws ((if neg then ''-'' else []) @ a @ CHR ''.'' # b) =
      (if neg then ''-'' else []) @ a @ CHR ''.'' # b"
    using digit_not_special [OF c] by (cases neg) (simp_all add: a is_ws_def)
  have inf: "take 8 (a @ CHR ''.'' # b) \<noteq> ''Infinity''"
    using digit_not_special [OF c] by (simp add: a)
  have sc: "scale10 q (- int (length b)) = q / 10 ^ length b" for q
    by (simp add: scale10_def)
  show ?thesis
    using assms(1) inf by (simp add: parse_float_def ws ss tw tb exponent_part_def sc del: take_append)
qed

lemma fixed2_digits_shape:
  "\<exists>a b. fixed2_digits n = a @ CHR ''.'' # b \<and> a \<noteq> [] \<and> list_all is_digit a \<and>
     list_all is_digit b \<and> length b = 2 \<and> digits_value (a @ b) = n"
proof -
  let ?m = "replicate (3 - length (show_nat n)) (CHR ''0'') @ show_nat n"
  have k: "3 \<le> length ?m" by simp
  have d: "list_all is_digit ?m"
    using show_nat_digits(1) [of n] by (auto simp: is_digit_def list_all_iff)
  have v: "digits_value ?m = n" by (simp add: digits_value_zeros digits_value_show_nat)
  let ?a = "take (length ?m - 2) ?m" and ?b = "drop (length ?m - 2) ?m"
  have "fixed2_digits n = ?a @ CHR ''.'' # ?b" by (simp add: fixed2_digits_def Let_def)
  moreover have "?a \<noteq> []" "length ?b = 2" using k show_nat_digits(2) [of n] by auto
  moreover have "list_all is_digit ?a" "list_all is_digit ?b"
    using d by (auto simp: list_all_iff dest: in_set_takeD in_set_dropD)
  moreover have "digits_value (?a @ ?b) = n" using v by (simp only: append_take_drop_id)
  ultimately show ?thesis by blast
qed

lemma round_cents_bound: "\<bar>of_nat (round_cents x) - \<bar>x\<bar> * 100\<bar> \<le> (1 / 2 :: rat)"
proof -
  let ?y = "\<bar>x\<bar> * 100 + 1 / 2"
  have f: "of_int \<lfloor>?y\<rfloor> \<le> ?y" "?y < of_int \<lfloor>?y\<rfloor> + 1" by linarith+
  have "0 \<le> \<lfloor>?y\<rfloor>" by simp
  then have "of_nat (round_cents x) = (of_int \<lfloor>?y\<rfloor> :: rat)" by (simp add: round_cents_def)
  with f show ?thesis by linarith
qed

text \<open>
  C23. A displayed amount is the value rounded to cents: for every finite
  amount below \<open>10^21\<close> in magnitude, \<open>formatCurrency\<close> yields \<open>$\<close> followed by
  a decimal text that \<open>parseFloat\<close> reads back as a whole number of cents
  within half a cent of the amount.
\<close>

theorem formatCurrency_cents:
  assumes "\<bar>x\<bar> < 10 ^ 21"
  shows "\<exists>str k. formatCurrency (Fin x) = Some (CHR ''$'' # str) \<and>
           parse_float str = Fin (of_int k / 100) \<and> \<bar>of_int k / 100 - x\<bar> \<le> 1 / 200"
proof -
  obtain a b where ab: "fixed2_digits (round_cents x) = a @ CHR ''.'' # b" "a \<noteq> []"
      "list_all is_digit a" "list_all is_digit b" "length b = 2" "digits_value (a @ b) = round_cents x"
    using fixed2_digits_shape by blast
  let ?neg = "x < 0"
  let ?str = "(if ?neg then ''-'' else []) @ a @ CHR ''.'' # b"
  let ?k = "(if ?neg then - 1 else 1) * int (round_cents x)"
  have fc: "formatCurrency (Fin x) = Some (CHR ''$'' # ?str)"
    using assms ab(1) by (simp add: formatCurrency_def to_fixed2_def)
  have pf: "parse_float ?str = Fin (of_int ?k / 100)"
    using parse_float_decimal [OF ab(2-4), of ?neg] ab(5,6) by simp
  have "\<bar>of_int ?k / 100 - x\<bar> \<le> 1 / 200"
    using round_cents_bound [of x] by (cases ?neg) (simp_all add: abs_if split: if_splits)
  with fc pf show ?thesis by blast
qed

lemma formatCurrency_cents_witness:
  "\<bar>25 / 2 :: rat\<bar> < 10 ^ 21 \<and> formatCurrency (Fin (25 / 2)) = Some ''$12.50'' \<and>
   (\<exists>str k. formatCurrency (Fin (25 / 2)) = Some (CHR ''$'' # str) \<and>
      parse_float str = Fin (of_int k / 100) \<and> \<bar>of_int k / 100 - 25 / 2\<bar> \<le> (1 / 200 :: rat))"
proof -
  have h: "\<bar>25 / 2 :: rat\<bar> < 10 ^ 21" by simp
  have "\<lfloor>(2501 / 2 :: rat)\<rfloor> = 1250" by (simp add: floor_eq_iff)
  then have r: "round_cents (25 / 2) = 1250" by (simp add: round_cents_def)
  have "formatCurrency (Fin (25 / 2)) = Some ''$12.50''"
    by (simp add: formatCurrency_def to_fixed2_def r fixed2_digits_def show_nat_def nat_digits.simps
        digit_char_def char_of_eq_iff)
  then show ?thesis using formatCurrency_cents [OF h] h by simp
qed

text \<open>
  What the user sees after an unreadable amount: once \<open>"abc"\<close> is saved
  as an expense of the viewed month, the summary card shows the balance as
  \<open>$NaN\<close>.
\<close>

theorem nan_balance_display:
  "fst (summary_texts (handleAddTransaction clock_mar10 (filled_state ''abc''))) = Some ''$NaN''"
proof -
  let ?s = "handleAddTransaction clock_mar10 (filled_state ''abc'')"
  have p: "parse_float ''abc'' = NaN"
    by (simp add: parse_float_def is_ws_def is_digit_def split_sign_def)
  have "balance (totalsOf ?s) = NaN"
    using p by (simp add: handleAddTransaction_def add_transaction_def filled_state_def
        initial_state_def new_transaction_def Let_def totalsOf_def view_defs getTotals_def
        type_total_def amount_value_def transaction_date_clamp valid_date_mar10 js_sub_def
        clock_mar10_def valid_date_def days_in_month_def leap_year_def)
  then show ?thesis by (simp add: summary_texts_def Let_def formatCurrency_def to_fixed2_def)
qed

end
