(* ===== verification/Display.thy ===== *)
theory Display
  imports AppState
begin

text \<open>
  What the main screen and the month picker display: the colour palette of
  the theme (\<open>THEMES\<close>, App.js lines 21-48, read as \<open>colors\<close> at line 58),
  the month names (\<open>MONTHS\<close>, lines 50-53), the month title
  \<open>getMonthYear\<close> (lines 147-149, \<open>toLocaleString\<close> with a long month and a
  numeric year in the en-US locale, for years from 1 on) and the picker's
  month grid (lines 686-704): twelve cells with the first three letters of
  each month, the cell of the viewed month highlighted when the picker shows
  the viewed year. Record fields carry the prefix \<open>col_\<close>: the names
  \<open>income\<close> and \<open>expense\<close> are already the totals' fields.
\<close>

record palette =
  col_primary :: string
  col_secondary :: string
  col_accent :: string
  col_background :: string
  col_card :: string
  col_text :: string
  col_subText :: string
  col_income :: string
  col_expense :: string
  col_border :: string
  col_statusBarStyle :: string

definition THEMES :: "theme_mode \<Rightarrow> palette" where
  "THEMES m = (case m of
     Light \<Rightarrow> \<lparr>col_primary = ''#4A90E2'', col_secondary = ''#50E3C2'', col_accent = ''#F5A623'',
       col_background = ''#F5F7FA'', col_card = ''#FFFFFF'', col_text = ''#333333'',
       col_subText = ''#888888'', col_income = ''#2ECC71'', col_expense = ''#E74C3C'',
       col_border = ''#E1E4E8'', col_statusBarStyle = ''dark-content''\<rparr>
   | Dark \<Rightarrow> \<lparr>col_primary = ''#5A9DF2'', col_secondary = ''#50E3C2'', col_accent = ''#F5A623'',
       col_background = ''#121212'', col_card = ''#1E1E1E'', col_text = ''#FFFFFF'',
       col_subText = ''#AAAAAA'', col_income = ''#2ECC71'', col_expense = ''#FF6B6B'',
       col_border = ''#333333'', col_statusBarStyle = ''light-content''\<rparr>)"

definition colors :: "app_state \<Rightarrow> palette" where
  "colors s = THEMES (theme s)"

definition MONTHS :: "string list" where
  "MONTHS = [''January'', ''February'', ''March'', ''April'', ''May'', ''June'',
             ''July'', ''August'', ''September'', ''October'', ''November'', ''December'']"

definition getMonthYear :: "jsdate \<Rightarrow> string" where
  "getMonthYear d = MONTHS ! nat (month d) @ CHR '' '' # show_int (year d)"

text \<open>A cell of the month grid: its label and whether it is highlighted.\<close>

definition picker_cell :: "app_state \<Rightarrow> nat \<Rightarrow> string \<times> bool" where
  "picker_cell s i =
     (take 3 (MONTHS ! i),
      int i = month (currentDate s) \<and> pickerYear s = year (currentDate s))"

definition picker_cells :: "app_state \<Rightarrow> (string \<times> bool) list" where
  "picker_cells s = map (picker_cell s) [0..<length MONTHS]"

subsection \<open>The title and the picker\<close>

lemma new_date_first:
  assumes "0 \<le> m" and "m < 12"
  shows "new_date y m 1 = \<lparr>year = (if 0 \<le> y \<and> y \<le> 99 then 1900 + y else y), month = m, day = 1\<rparr>"
proof -
  let ?y = "if 0 \<le> y \<and> y \<le> 99 then 1900 + y else y"
  have "valid_date \<lparr>year = ?y, month = m, day = 1\<rparr>"
    using assms(1,2) days_in_month_ge [of ?y m] by (simp add: valid_date_def)
  then show ?thesis using assms by (simp add: new_date_def make_day_def norm_day_id)
qed

lemma filter_upt_index:
  "filter (\<lambda>i. int i = m) [0..<n] = (if 0 \<le> m \<and> m < int n then [nat m] else [])"
  by (induction n) auto

lemma show_int_2024: "show_int 2024 = ''2024''"
  by (simp add: show_int_def show_nat_def nat_digits.simps digit_char_def char_of_eq_iff)

text \<open>
  C25. Choosing a month in the picker shows that month: for a picker year
  from 100 on and a month index 0..11, \<open>selectMonthYear\<close> views the first
  day of that month of that year, closes the picker, and the title reads the
  month's name followed by the year.
\<close>

theorem selectMonthYear_title:
  assumes "0 \<le> i" and "i < 12" and "100 \<le> pickerYear s"
  shows "currentDate (selectMonthYear i s) = \<lparr>year = pickerYear s, month = i, day = 1\<rparr> \<and>
         \<not> pickerVisible (selectMonthYear i s) \<and>
         getMonthYear (currentDate (selectMonthYear i s)) =
           MONTHS ! nat i @ CHR '' '' # show_int (pickerYear s)"
  using new_date_first [OF assms(1,2), of "pickerYear s"] assms(3)
  by (simp add: selectMonthYear_def getMonthYear_def)

lemma selectMonthYear_title_witness:
  "let s = (initial_state clock_mar10)\<lparr>pickerYear := 2024\<rparr> in
     0 \<le> (1::int) \<and> (1::int) < 12 \<and> 100 \<le> pickerYear s \<and>
     getMonthYear (currentDate (selectMonthYear 1 s)) = ''February 2024''"
proof -
  let ?s = "(initial_state clock_mar10)\<lparr>pickerYear := 2024\<rparr>"
  have h: "0 \<le> (1::int)" "(1::int) < 12" "100 \<le> pickerYear ?s" by simp_all
  show ?thesis
    using selectMonthYear_title [OF h] by (simp add: Let_def getMonthYear_def MONTHS_def show_int_2024)
qed

text \<open>
  C26. The picker's year is given to the Date constructor, which reads the
  years 0 to 99 as 1900 to 1999: for a picker year in 0..99 and any month
  index, \<open>selectMonthYear\<close> views that month of the year 1900 later, never
  the year the picker displayed.
\<close>

theorem picker_two_digit_year:
  assumes "0 \<le> i" and "i < 12" and "0 \<le> pickerYear s" and "pickerYear s \<le> 99"
  shows "currentDate (selectMonthYear i s) = \<lparr>year = 1900 + pickerYear s, month = i, day = 1\<rparr> \<and>
         year (currentDate (selectMonthYear i s)) \<noteq> pickerYear s"
  using new_date_first [OF assms(1,2), of "pickerYear s"] assms(3,4)
  by (simp add: selectMonthYear_def)

lemma picker_two_digit_year_witness:
  "0 \<le> (0::int) \<and> (0::int) < 12 \<and> 0 \<le> pickerYear ((initial_state clock_mar10)\<lparr>pickerYear := 99\<rparr>) \<and>
   pickerYear ((initial_state clock_mar10)\<lparr>pickerYear := 99\<rparr>) \<le> 99 \<and>
   currentDate (selectMonthYear 0 ((initial_state clock_mar10)\<lparr>pickerYear := 99\<rparr>)) =
     \<lparr>year = 1999, month = 0, day = 1\<rparr>"
  using picker_two_digit_year [of 0 "(initial_state clock_mar10)\<lparr>pickerYear := 99\<rparr>"] by simp

text \<open>
  C27. Opening the picker highlights the viewed month and only it: the
  picker starts at the viewed year, and of the twelve cells exactly the one
  at the viewed month's index is highlighted.
\<close>

theorem openPicker_highlight:
  assumes "valid_date (currentDate s)"
  shows "filter (\<lambda>i. snd (picker_cell (openPicker s) i)) [0..<length MONTHS] =
           [nat (month (currentDate s))]"
proof -
  have "length MONTHS = 12" by (simp add: MONTHS_def)
  then show ?thesis
    using assms by (simp add: picker_cell_def openPicker_def filter_upt_index valid_date_def)
qed

lemma openPicker_highlight_witness:
  "valid_date (currentDate (initial_state clock_mar10)) \<and>
   filter (\<lambda>i. snd (picker_cell (openPicker (initial_state clock_mar10)) i)) [0..<length MONTHS] = [2]"
proof -
  have h: "valid_date (currentDate (initial_state clock_mar10))"
    using valid_date_mar10 by (simp add: initial_state_def)
  show ?thesis using openPicker_highlight [OF h] h by (simp add: initial_state_def clock_mar10_def)
qed

end
