(* ===== verification/ListView.thy ===== *)
theory ListView
  imports Format
begin

text \<open>
  The transaction list of the main screen (App.js lines 374-427 and
  499-515): a \<open>FlatList\<close> over \<open>groupedTransactions\<close> that renders each group
  with \<open>renderCategoryBlock\<close>, and the empty-state text when there is no
  group. A block shows the category, the count of its transactions, the
  formatted total and the expand marker; when the group is expanded in
  \<open>expandedCategories\<close> it lists its transactions with
  \<open>renderTransactionItem\<close>: the first five characters of the display date,
  the note after a dash when it is not empty, and the formatted amount. The
  colour of a row or a total follows the type (\<open>item_kind\<close>, \<open>block_kind\<close>);
  styles and icons are not modelled.
\<close>

record item_view =
  item_date :: string
  item_note :: "string option"
  item_amount :: "string option"
  item_kind :: ttype

definition renderTransactionItem :: "txn \<Rightarrow> item_view" where
  "renderTransactionItem t =
     \<lparr>item_date = take 5 (displayDate t),
      item_note = (if tnote t = [] then None else Some (''- '' @ tnote t)),
      item_amount = formatCurrency (amount_value t), item_kind = ttype t\<rparr>"

record block_view =
  block_title :: string
  block_count :: string
  block_total :: "string option"
  block_kind :: ttype
  block_expanded :: bool
  block_items :: "item_view list"

definition renderCategoryBlock :: "app_state \<Rightarrow> txn_group \<Rightarrow> block_view" where
  "renderCategoryBlock s g =
     (let isExpanded = expandedCategories s (gkey g)
      in \<lparr>block_title = gcategory g,
          block_count = show_nat (length (gtxns g)) @ '' transactions'',
          block_total = formatCurrency (gtotal g), block_kind = gtype g,
          block_expanded = isExpanded,
          block_items = (if isExpanded then map renderTransactionItem (gtxns g) else [])\<rparr>)"

datatype list_view = EmptyList string | Blocks "block_view list"

definition transaction_list :: "app_state \<Rightarrow> list_view" where
  "transaction_list s =
     (if groupedTransactions s = [] then EmptyList ''No transactions for this month.''
      else Blocks (map (renderCategoryBlock s) (groupedTransactions s)))"

text \<open>The rows a list view shows, block after block.\<close>

fun list_rows :: "list_view \<Rightarrow> item_view list" where
  "list_rows (EmptyList _) = []"
| "list_rows (Blocks bs) = concat (map block_items bs)"

subsection \<open>Digits of the date label\<close>

lemma length_show_int:
  "1 \<le> i \<Longrightarrow> i \<le> 9 \<Longrightarrow> length (show_int i) = 1"
  "10 \<le> i \<Longrightarrow> i \<le> 99 \<Longrightarrow> length (show_int i) = 2"
proof -
  assume "1 \<le> i" "i \<le> 9"
  then show "length (show_int i) = 1"
    by (simp add: show_int_def show_nat_def nat_digits.simps)
next
  assume i: "10 \<le> i" "i \<le> 99"
  then have "nat i div 10 < 10" by linarith
  with i show "length (show_int i) = 2"
    by (simp add: show_int_def show_nat_def nat_digits.simps [of "nat i"] nat_digits.simps [of "nat i div 10"])
qed

lemma show_int_ne: "show_int i \<noteq> []"
  by (simp add: show_int_def show_nat_digits)

lemma take_prefix_eq:
  assumes "length p \<le> n" and "r \<noteq> []"
  shows "take n (p @ r) = p \<longleftrightarrow> length p = n"
  using assms by (auto simp: take_append)

subsection \<open>The rows of the list\<close>

lemma groupedTransactions_mset:
  "mset (groupedTransactions s) =
     mset (map (group_of (filteredTransactions s)) (first_occurrences (map group_key (filteredTransactions s))))"
  by (simp add: groupedTransactions_def getGroupedTransactions_def collect_groups_refines abstract_groups_def)

lemma filter_key_filter:
  "filter (\<lambda>x. g x = k) (filter (\<lambda>t. E (g t)) ts) = (if E k then filter (\<lambda>x. g x = k) ts else [])"
  by (induction ts) auto

lemma mset_concat_map:
  "mset (concat (map f xs)) = sum_list (map (\<lambda>x. mset (f x)) xs)"
  by (induction xs) simp_all

lemma mset_map_singletons:
  "sum_list (map (\<lambda>x. {#f x#}) xs) = mset (map f xs)"
  by (induction xs) simp_all

subsection \<open>The date label and the rows\<close>

text \<open>
  C30. The date label of a transaction row is \<open>displayDate.slice(0, 5)\<close>;
  on the en-US date \<open>M/D/YYYY\<close> it is the month and day exactly when both
  have two digits (October to December, from the 10th). Otherwise the label
  runs on into the separator or the year: January 5, 2024 shows
  \<open>1/5/2\<close>.
\<close>

theorem transaction_date_label:
  assumes "valid_date d" and "displayDate t = locale_date_string d"
  shows "item_date (renderTransactionItem t) = show_int (month d + 1) @ ''/'' @ show_int (day d)
         \<longleftrightarrow> 9 \<le> month d \<and> 10 \<le> day d"
proof -
  have dm: "days_in_month (year d) (month d) \<le> 31"
    by (simp add: days_in_month_def)
  have m: "length (show_int (month d + 1)) = (if 9 \<le> month d then 2 else 1)"
    using assms(1) length_show_int [of "month d + 1"] by (auto simp: valid_date_def)
  have "1 \<le> day d" "day d \<le> 31"
    using assms(1) dm unfolding valid_date_def by linarith+
  then have dd: "length (show_int (day d)) = (if 10 \<le> day d then 2 else 1)"
    using length_show_int [of "day d"] by auto
  have "item_date (renderTransactionItem t) =
      take 5 ((show_int (month d + 1) @ ''/'' @ show_int (day d)) @ ''/'' @ show_int (year d))"
    by (simp add: renderTransactionItem_def assms(2) locale_date_string_def)
  moreover have "length (show_int (month d + 1) @ ''/'' @ show_int (day d)) \<le> 5"
    using m dd by simp
  ultimately show ?thesis
    using m dd by (simp only: take_prefix_eq [OF _ list.simps(3)]) simp
qed

lemma transaction_date_label_witness:
  "valid_date \<lparr>year = 2024, month = 0, day = 5\<rparr> \<and>
   displayDate \<lparr>tid = ''1'', dateISO = \<lparr>year = 2024, month = 0, day = 5\<rparr>,
      displayDate = locale_date_string \<lparr>year = 2024, month = 0, day = 5\<rparr>, ttype = Expense,
      amount = Some (Fin 5), category = ''Food'', tnote = []\<rparr> = locale_date_string \<lparr>year = 2024, month = 0, day = 5\<rparr> \<and>
   item_date (renderTransactionItem \<lparr>tid = ''1'', dateISO = \<lparr>year = 2024, month = 0, day = 5\<rparr>,
      displayDate = locale_date_string \<lparr>year = 2024, month = 0, day = 5\<rparr>, ttype = Expense,
      amount = Some (Fin 5), category = ''Food'', tnote = []\<rparr>) \<noteq> ''1/5'' \<and>
   item_date (renderTransactionItem \<lparr>tid = ''1'', dateISO = \<lparr>year = 2024, month = 0, day = 5\<rparr>,
      displayDate = locale_date_string \<lparr>year = 2024, month = 0, day = 5\<rparr>, ttype = Expense,
      amount = Some (Fin 5), category = ''Food'', tnote = []\<rparr>) = ''1/5/2''"
proof -
  have v: "valid_date \<lparr>year = 2024, month = 0, day = 5\<rparr>"
    by (simp add: valid_date_def days_in_month_def)
  have s: "show_int 1 = ''1''" "show_int 5 = ''5''" "show_int 2024 = ''2024''"
    by (simp_all add: show_int_def show_nat_def nat_digits.simps digit_char_def char_of_eq_iff)
  show ?thesis
    using transaction_date_label [OF v, of "\<lparr>tid = ''1'', dateISO = \<lparr>year = 2024, month = 0, day = 5\<rparr>,
      displayDate = locale_date_string \<lparr>year = 2024, month = 0, day = 5\<rparr>, ttype = Expense,
      amount = Some (Fin 5), category = ''Food'', tnote = []\<rparr>"] v s
    by (simp add: renderTransactionItem_def locale_date_string_def)
qed

text \<open>
  C31. The rows of the transaction list are the viewed month's transactions
  whose group is expanded, each rendered once: as multisets, the rows of all
  blocks equal the rendered transactions of the month filtered by
  \<open>expandedCategories\<close> of their group key (and there is no row when the list
  shows its empty text).
\<close>

theorem transaction_list_rows:
  "mset (list_rows (transaction_list s)) =
     mset (map renderTransactionItem
       (filter (\<lambda>t. expandedCategories s (group_key t)) (filteredTransactions s)))"
proof -
  let ?ts = "filteredTransactions s" and ?E = "expandedCategories s"
  let ?ks = "first_occurrences (map group_key ?ts)"
  let ?G = "groupedTransactions s"
  show ?thesis
  proof (cases "?G = []")
    case True
    then have "?ks = []"
      using groupedTransactions_mset [of s] by simp
    then have "?ts = []"
      by (metis first_occurrences_set list.set(1) map_is_Nil_conv set_empty2)
    with True show ?thesis by (simp add: transaction_list_def)
  next
    case False
    have k: "\<And>k. mset (block_items (renderCategoryBlock s (group_of ?ts k))) =
        sum_list (map (\<lambda>x. {#renderTransactionItem x#})
          (filter (\<lambda>x. group_key x = k) (filter (\<lambda>t. ?E (group_key t)) ?ts)))"
      unfolding filter_key_filter mset_map_singletons
      by (simp add: renderCategoryBlock_def group_of_def Let_def)
    have "mset (list_rows (transaction_list s)) =
        sum_list (map (\<lambda>g. mset (block_items (renderCategoryBlock s g))) ?G)"
      using False by (simp add: transaction_list_def mset_concat_map comp_def)
    also have "\<dots> = sum_list (map (\<lambda>g. mset (block_items (renderCategoryBlock s g))) (map (group_of ?ts) ?ks))"
      by (rule sum_list_mset_eq [OF groupedTransactions_mset])
    also have "\<dots> = sum_list (map (\<lambda>k. sum_list (map (\<lambda>x. {#renderTransactionItem x#})
        (filter (\<lambda>x. group_key x = k) (filter (\<lambda>t. ?E (group_key t)) ?ts)))) ?ks)"
      by (simp only: map_map comp_def k)
    also have "\<dots> = mset (map renderTransactionItem (filter (\<lambda>t. ?E (group_key t)) ?ts))"
      by (subst sum_list_keys_subset) (auto simp: mset_map_singletons)
    finally show ?thesis .
  qed
qed

end
