(* ===== verification/FutureGate.thy ===== *)
theory FutureGate
  imports AppRuns Identity
begin

text \<open>
  The gate on future months. App.js renders the add button only when
  \<open>isFutureMonth(currentDate)\<close> is false (line 518), so that no entry is
  added to a month after the current one; the add modal then dates the
  entry in the viewed month (\<open>handleAddTransaction\<close>). The clock is read at
  the press of the add button and again at the save. This theory follows
  the month of the latest clock reading along a run and shows that no
  transaction is ever dated in a later month, as long as the clock's month
  never goes back.
\<close>

text \<open>The first day of a date's month, as \<open>isFutureMonth\<close> builds it (lines 159-160).\<close>

definition month_start :: "jsdate \<Rightarrow> jsdate" where
  "month_start d = new_date (year d) (month d) 1"

text \<open>The clock reading an event carries.\<close>

fun clock_of :: "event \<Rightarrow> clock option" where
  "clock_of (PressFab c) = Some c"
| "clock_of (PressSave c) = Some c"
| "clock_of _ = None"

text \<open>The month of the latest clock reading after a run, from \<open>m\<close> before it.\<close>

fun run_month :: "jsdate \<Rightarrow> event list \<Rightarrow> jsdate" where
  "run_month m [] = m"
| "run_month m (e # es) =
     run_month (case clock_of e of None \<Rightarrow> m | Some c \<Rightarrow> month_start (now_date c)) es"

text \<open>A run after loading whose clock readings are in month \<open>m\<close> or later, never going back.\<close>

fun clock_months_from :: "jsdate \<Rightarrow> event list \<Rightarrow> bool" where
  "clock_months_from m [] = True"
| "clock_months_from m (e # es) =
     (\<not> is_load e \<and>
      (case clock_of e of
         None \<Rightarrow> clock_months_from m es
       | Some c \<Rightarrow> \<not> date_lt (month_start (now_date c)) m \<and>
                   clock_months_from (month_start (now_date c)) es))"

text \<open>A date whose month is not after the month starting at \<open>m\<close>.\<close>

definition not_after :: "jsdate \<Rightarrow> jsdate \<Rightarrow> bool" where
  "not_after m d \<longleftrightarrow> \<not> date_lt m (month_start d)"

text \<open>
  No transaction lies after month \<open>m\<close>, and while the add modal is open it
  adds to a month that is not after \<open>m\<close> and the picker is closed.
\<close>

definition no_future :: "jsdate \<Rightarrow> app_state \<Rightarrow> bool" where
  "no_future m s \<longleftrightarrow>
     list_all (\<lambda>t. not_after m (dateISO t)) (transactions s) \<and>
     (modalVisible s \<longrightarrow> not_after m (currentDate s) \<and> \<not> pickerVisible s)"

subsection \<open>Months and the order of dates\<close>

lemma isFutureMonth_month_start:
  "isFutureMonth now d \<longleftrightarrow> date_lt (month_start now) (month_start d)"
  by (simp add: isFutureMonth_def month_start_def)

lemma not_after_mono:
  "not_after m d \<Longrightarrow> \<not> date_lt m' m \<Longrightarrow> not_after m' d"
  by (auto simp: not_after_def date_lt_def)

lemma no_future_mono:
  "no_future m s \<Longrightarrow> \<not> date_lt m' m \<Longrightarrow> no_future m' s"
  by (auto simp: no_future_def list_all_iff intro: not_after_mono)

lemma month_start_transaction_date:
  "valid_date now \<Longrightarrow> valid_date cur \<Longrightarrow> month_start (transaction_date now cur) = month_start cur"
  by (simp add: transaction_date_clamp month_start_def)

lemma edit_only_dateISO: "edit_only f \<Longrightarrow> dateISO (f t) = dateISO t"
  unfolding edit_only_def by (metis txn.select_convs(2) txn.surjective txn.update_convs(6))

subsection \<open>The fields of the gate under the handlers\<close>

lemma handlers_keep_view:
  "modalVisible (toggleTheme s) = modalVisible s \<and> pickerVisible (toggleTheme s) = pickerVisible s \<and>
   currentDate (toggleTheme s) = currentDate s"
  "modalVisible (confirmDelete i s) = modalVisible s \<and> pickerVisible (confirmDelete i s) = pickerVisible s \<and>
   currentDate (confirmDelete i s) = currentDate s"
  "modalVisible (deleteTransaction i s) = modalVisible s \<and>
   pickerVisible (deleteTransaction i s) = pickerVisible s \<and> currentDate (deleteTransaction i s) = currentDate s"
  "modalVisible (handleAddNewCategory s) = modalVisible s \<and>
   pickerVisible (handleAddNewCategory s) = pickerVisible s \<and> currentDate (handleAddNewCategory s) = currentDate s"
  "modalVisible (handleDeleteCategoryInitiation n s) = modalVisible s \<and>
   pickerVisible (handleDeleteCategoryInitiation n s) = pickerVisible s \<and>
   currentDate (handleDeleteCategoryInitiation n s) = currentDate s"
  "modalVisible (executeCategoryDeletion n ty a s) = modalVisible s \<and>
   pickerVisible (executeCategoryDeletion n ty a s) = pickerVisible s \<and>
   currentDate (executeCategoryDeletion n ty a s) = currentDate s"
  "modalVisible (toggleCategory k s) = modalVisible s \<and> pickerVisible (toggleCategory k s) = pickerVisible s \<and>
   currentDate (toggleCategory k s) = currentDate s"
  by (simp_all add: handler_defs deleteTransaction_def handleAddNewCategory_def
      handleDeleteCategoryInitiation_def executeCategoryDeletion_def Let_def split: sum.split)

subsection \<open>The gate along a run\<close>

lemma gate_view_step:
  assumes nl: "\<not> is_load e" and nc: "clock_of e = None"
    and np: "modalVisible s \<longrightarrow> \<not> pickerVisible s" and mv: "modalVisible (step s e)"
  shows "modalVisible s \<and> currentDate (step s e) = currentDate s \<and> \<not> pickerVisible (step s e)"
proof (cases "ui_layer s")
  case Loading
  then have "step s e = loading_step s e" by (simp add: step_def)
  then show ?thesis using nl mv np by (cases e) simp_all
next
  case DialogLayer
  then have "step s e = dialog_step s e" by (simp add: step_def)
  then show ?thesis using mv np
    by (cases e) (auto simp: handlers_keep_view split: option.splits alert_box.splits)
next
  case DeleteModal
  then have "step s e = delete_modal_step s e" by (simp add: step_def)
  then show ?thesis using mv np
    by (cases e) (auto simp: handlers_keep_view split: option.splits prod.splits)
next
  case PickerModal
  then have st: "step s e = picker_step s e" by (simp add: step_def)
  have "pickerVisible s" using PickerModal by (simp add: ui_layer_iff)
  then have "\<not> modalVisible s" using np by blast
  then show ?thesis using st mv by (cases e) (auto simp: selectMonthYear_def split: if_splits)
next
  case AddModal
  then have st: "step s e = add_modal_step s e" by (simp add: step_def)
  have "modalVisible s" "\<not> pickerVisible s" using AddModal by (simp_all add: ui_layer_iff)
  with st show ?thesis using nc mv by (cases e) (simp_all add: handlers_keep_view)
next
  case MainScreen
  then have st: "step s e = main_step s e" by (simp add: step_def)
  have "\<not> modalVisible s" using MainScreen by (simp add: ui_layer_iff)
  with st show ?thesis using nc mv by (cases e) (auto simp: handler_defs split: if_splits)
qed

lemma step_PressFab:
  "step s (PressFab c) =
     (if ui_layer s = MainScreen \<and> \<not> isFutureMonth (now_date c) (currentDate s)
      then s\<lparr>modalVisible := True\<rparr> else s)"
  by (cases "ui_layer s") (simp_all add: step_def)

lemma step_PressSave:
  "step s (PressSave c) = (if ui_layer s = AddModal then handleAddTransaction c s else s)"
  by (cases "ui_layer s") (simp_all add: step_def)

lemma no_future_step:
  assumes nf: "no_future m s" and d: "dates_ok s" and nl: "\<not> is_load e" and ed: "event_dates_ok e"
    and ck: "case clock_of e of None \<Rightarrow> True | Some c \<Rightarrow> \<not> date_lt (month_start (now_date c)) m"
  shows "no_future (case clock_of e of None \<Rightarrow> m | Some c \<Rightarrow> month_start (now_date c)) (step s e)"
proof (cases "clock_of e")
  case None
  then have sc: "save_clock e = None" by (cases e) simp_all
  obtain P f where tr: "transactions (step s e) = map f (filter P (transactions s))" and eo: "edit_only f"
    using step_shape [OF nl sc] by blast
  have "list_all (\<lambda>t. not_after m (dateISO t)) (transactions (step s e))"
    using nf tr eo by (auto simp: no_future_def list_all_iff edit_only_dateISO)
  moreover have "modalVisible (step s e) \<longrightarrow> not_after m (currentDate (step s e)) \<and> \<not> pickerVisible (step s e)"
    using gate_view_step [OF nl None] nf by (auto simp: no_future_def)
  ultimately show ?thesis using None by (simp add: no_future_def)
next
  case (Some c)
  let ?m = "month_start (now_date c)"
  have nf': "no_future ?m s" using no_future_mono [OF nf] ck Some by simp
  from Some consider (fab) "e = PressFab c" | (save) "e = PressSave c" by (cases e) auto
  then show ?thesis
  proof cases
    case fab
    have "ui_layer s = MainScreen \<Longrightarrow> \<not> pickerVisible s" by (simp add: ui_layer_iff)
    then show ?thesis using nf' fab
      by (auto simp: step_PressFab no_future_def not_after_def isFutureMonth_month_start)
  next
    case save
    show ?thesis
    proof (cases "ui_layer s = AddModal")
      case True
      then have mv: "modalVisible s" by (simp add: ui_layer_iff)
      have v: "valid_date (now_date c)" "valid_date (currentDate s)"
        using ed save d by (simp_all add: dates_ok_def)
      have "not_after ?m (currentDate s)" using nf' mv by (simp add: no_future_def)
      then have "not_after ?m (dateISO (new_transaction (now_ms c) (now_date c) (currentDate s) (newTransaction s)))"
        using v by (simp add: new_transaction_def not_after_def month_start_transaction_date Let_def)
      then show ?thesis using nf' save True
        by (auto simp: step_PressSave handleAddTransaction_def add_transaction_def no_future_def
            split: sum.split)
    next
      case False
      then show ?thesis using nf' save Some by (simp add: step_PressSave)
    qed
  qed
qed

lemma no_future_run:
  "no_future m s \<Longrightarrow> dates_ok s \<Longrightarrow> clock_months_from m es \<Longrightarrow> list_all event_dates_ok es \<Longrightarrow>
   no_future (run_month m es) (run s es)"
proof (induction es arbitrary: s m)
  case Nil
  then show ?case by simp
next
  case (Cons e es)
  let ?m = "case clock_of e of None \<Rightarrow> m | Some c \<Rightarrow> month_start (now_date c)"
  have "no_future ?m (step s e)"
    using Cons.prems by (intro no_future_step) (auto split: option.split)
  moreover have "dates_ok (step s e)" using Cons.prems by (simp add: dates_ok_step)
  moreover have "clock_months_from ?m es" using Cons.prems(3) by (simp split: option.splits)
  ultimately show ?case using Cons.IH Cons.prems(4) by simp
qed

text \<open>
  C32. The add button's gate holds for whole runs: from a loaded state with
  no transaction after month \<open>m\<close>, along any run without reload whose clock
  readings bring valid dates in month \<open>m\<close> or later, never going back, no
  transaction is ever dated in a month after the latest clock reading.
\<close>

theorem no_future_transactions:
  assumes "no_future m s" and "dates_ok s" and "clock_months_from m es" and "list_all event_dates_ok es"
  shows "list_all (\<lambda>t. not_after (run_month m es) (dateISO t)) (transactions (run s es))"
  using no_future_run [OF assms] by (simp add: no_future_def)

lemma no_future_transactions_witness:
  "no_future (month_start (now_date clock_mar10)) loaded_start \<and> dates_ok loaded_start \<and>
   clock_months_from (month_start (now_date clock_mar10))
     [PressFab clock_mar10, TypeAmount ''5'', PressCategoryChip ''Food'', PressSave clock_mar10] \<and>
   list_all event_dates_ok [PressFab clock_mar10, TypeAmount ''5'', PressCategoryChip ''Food'', PressSave clock_mar10] \<and>
   list_all (\<lambda>t. not_after (month_start (now_date clock_mar10)) (dateISO t))
     (transactions (run loaded_start [PressFab clock_mar10, TypeAmount ''5'', PressCategoryChip ''Food'', PressSave clock_mar10]))"
proof -
  have h: "no_future (month_start (now_date clock_mar10)) loaded_start" "dates_ok loaded_start"
    "clock_months_from (month_start (now_date clock_mar10))
       [PressFab clock_mar10, TypeAmount ''5'', PressCategoryChip ''Food'', PressSave clock_mar10]"
    "list_all event_dates_ok [PressFab clock_mar10, TypeAmount ''5'', PressCategoryChip ''Food'', PressSave clock_mar10]"
    by (simp_all add: no_future_def loaded_start_def initial_state_def dates_ok_def valid_date_mar10 date_lt_def)
  show ?thesis using no_future_transactions [OF h] h by simp
qed

end
