(* ===== verification/Spec2Isabelle.thy ===== *)
theory Spec2Isabelle
  imports AppRuns Legacy Format Display ListView FutureGate SaveFailures
begin

text \<open>
  \<^bold>\<open>Spendy expense tracker: a verification development of src/App.js.\<close>

  The program is one React Native component, \<open>App\<close> in src/App.js. Its state
  is a set of \<open>useState\<close> hooks (lines 56-93): the transaction array, the
  category object with one list of names per type, the theme, the form of the
  add-transaction modal, the viewed month, the month picker, the expanded
  groups, the category-deletion modal and its target. Handlers (lines
  211-372) change that state in response to the callbacks of the JSX (lines
  436-789); the month view (filter, totals, grouping and order, lines
  164-208) is recomputed from the state on every render; \<open>loadData\<close> (lines
  102-122) fills the state from AsyncStorage once, and three effects (lines
  124-140) write it back after loading. \<open>Alert.alert\<close> dialogs are modal:
  their buttons run the rest of a handler.

  \<^bold>\<open>Theories and correspondence to the code.\<close>
  \<^item> Prelude: the collections \<open>handler_defs\<close> and \<open>view_defs\<close>, the error
    datatype \<open>validation_error\<close> (one constructor per refusing
    \<open>Alert.alert\<close> of the handlers), sum_list/foldl/filter lemmas shared by
    the totals proofs, and \<open>first_occurrences\<close>, the key order of a JS
    object built by insertion.
  \<^item> JsNum: JS numbers as \<open>jsnum\<close> (finite values as exact rationals, the
    two infinities and NaN) with JS addition (JsNumSum makes it an instance
    of \<open>comm_monoid_add\<close>, so that the library's \<open>sum_list\<close> lemmas apply);
    \<open>parse_float\<close> (parseFloat: leading white space, sign, digits, fraction,
    exponent, Infinity, NaN otherwise) and \<open>show_nat\<close> (Number.toString of
    \<open>Date.now()\<close>).
  \<^item> Dates: JS \<open>Date\<close> as local calendar fields; \<open>norm_day\<close> is the day
    overflow of MakeDay (a \<open>function\<close> with a measure), \<open>set_date\<close>,
    \<open>set_month\<close> and \<open>new_date\<close> model setDate, setMonth and the
    constructor; \<open>transaction_date\<close> is the rollover rule of
    handleAddTransaction (lines 221-229), \<open>changeMonth\<close> lines 349-353,
    \<open>isSameMonth\<close> and \<open>isFutureMonth\<close> the helpers of lines 148-162.
  \<^item> Ledger: the transaction record \<open>txn\<close>, the form \<open>txn_form\<close>, and the
    list operations of the handlers: \<open>add_transaction\<close> (guard and prepend of
    handleAddTransaction), \<open>remove_transaction\<close> (confirmDelete),
    \<open>delete_dependents\<close>, \<open>reassign_dependents\<close> and
    \<open>ledger_category_deletion\<close> (executeCategoryDeletion).
  \<^item> Registry: the \<open>categories\<close> object as \<open>cat_registry\<close>,
    \<open>add_category\<close> (trim, empty and duplicate guards, append) and
    \<open>remove_category\<close>, with the well-formedness \<open>registry_wf\<close> (no duplicate
    names) that both preserve.
  \<^item> MonthView: \<open>getFilteredTransactions\<close>, \<open>getTotals\<close> and
    \<open>getGroupedTransactions\<close> (lines 164-208). The forEach over an object is a
    foldl over an association list (\<open>collect_groups\<close>); \<open>sort\<close> with the
    comparator is \<open>sort_by_cmp\<close>, a stable insertion sort (the one property
    of Array.prototype.sort the code relies on). The abstract grouping
    \<open>group_of\<close> keeps the code's order of addition: a group's total is its
    amounts added left to right from 0.
  \<^item> AppState: the hooks as the record \<open>app_state\<close>, the open dialog as its
    \<open>alert\<close> field, and one function per handler with the handler's name;
    a handler that refuses sets \<open>alert\<close> to the message (\<open>alert_of_error\<close>),
    except for an empty category name, where it returns without a dialog.
    \<open>loadData\<close> takes the three stored values already parsed
    (\<open>Missing\<close> for a null item, \<open>Unparsable\<close> for a JSON.parse that throws)
    and follows the sequential setters and the catch block.
  \<^item> AppEvents: every JSX callback as a constructor of \<open>event\<close>;
    \<open>ui_layer\<close> says which element is on top (spinner, dialog, deletion
    modal, picker, add modal, main screen) and \<open>step\<close> dispatches the event
    to that layer, where conditionally rendered elements carry their
    condition as a guard. \<open>run\<close> folds a list of events.
  \<^item> AppInvariants: \<open>reachable allowed\<close>, the states a run of allowed
    events reaches from the first render (loads satisfy \<open>load_ok\<close>: stored
    data as the app itself writes it), with the invariants \<open>ui_inv\<close>
    (registry without duplicates, form category valid, modal nesting) and
    \<open>refs_inv\<close> (no transaction refers to a missing category), each proved
    preserved layer by layer and then by rule induction.
  \<^item> Persistence: the three AsyncStorage slots (\<open>storage\<close>) hold JSON
    values (\<open>json\<close>); \<open>save_effects\<close> is the three effects of lines
    124-140 with their \<open>isLoaded\<close> guard, \<open>txn_to_json\<close> the saved object
    with \<open>iso_string\<close> for toISOString (four-digit and expanded years), and
    \<open>load_event\<close> the completion of the reads of \<open>loadData\<close>, decoding the
    slots with \<open>txn_of_json\<close> and \<open>parse_iso\<close> (the Date constructor on
    the ISO string). \<open>session_step\<close> is a step followed by the effects.
  \<^item> Identity: transaction ids (\<open>Date.now().toString()\<close>, line 232):
    \<open>ids_below\<close> says the ids are distinct earlier clock readings, and
    \<open>clocks_from\<close> that the saves of a run read a strictly increasing
    clock; \<open>show_nat\<close> is injective because \<open>digits_value\<close> reads it back.
    \<open>step_shape\<close> says what a step does to the ledger: it filters it and
    edits at most the category (\<open>edit_only\<close>), unless it loads or saves.
  \<^item> Legacy: the older copy src/unnamed/part_000 as a program of its own:
    its state \<open>legacy_state\<close>, its \<open>legacy_loadData\<close> and save effects,
    its helpers (\<open>legacy_isFutureMonth\<close>, \<open>legacy_getTotals\<close>,
    \<open>legacy_transaction_date\<close>, \<open>legacy_new_transaction\<close>, ...) and
    handlers translated from its own lines, \<open>legacy_step\<close> and
    \<open>legacy_session_run\<close>; only the JavaScript built-ins are shared with the
    App.js model. \<open>to_legacy\<close> forgets App.js's added state.
  \<^item> AppRuns: properties of whole runs: \<open>dates_ok\<close> (the viewed date and
    every transaction date are valid calendar dates) and the escape sequence
    \<open>escape\<close> back to the main screen.
  \<^item> Format: \<open>formatCurrency\<close> and \<open>to_fixed2\<close> (toFixed(2), lines
    143-145) and the texts of the summary card (\<open>summary_texts\<close>).
  \<^item> Display: the palettes \<open>THEMES\<close> and \<open>colors\<close>, the month names
    \<open>MONTHS\<close>, the title \<open>getMonthYear\<close> and the picker's month grid
    (\<open>picker_cells\<close>).
  \<^item> ListView: the transaction list of the main screen (lines 374-427 and
    499-515): \<open>renderTransactionItem\<close> and \<open>renderCategoryBlock\<close> as the
    texts they show (\<open>item_view\<close>, \<open>block_view\<close>), and
    \<open>transaction_list\<close>, the blocks of \<open>groupedTransactions\<close> or the
    empty-state text.
  \<^item> FutureGate: the add button's gate \<open>isFutureMonth\<close> over whole runs:
    \<open>month_start\<close> (the first of a month, as \<open>isFutureMonth\<close> builds it),
    the month of the latest clock reading (\<open>run_month\<close>) and the invariant
    \<open>no_future\<close> (no transaction after that month; an open add modal adds to
    a month not after it).
  \<^item> SaveFailures: the three save effects as React runs them
    (\<open>save_effects_deps\<close>: an effect runs when its value or \<open>isLoaded\<close>
    changed, and a failed \<open>setItem\<close> leaves its slot as it was) and the
    session with failing writes (\<open>deps_session_run\<close>).

  \<^bold>\<open>What the lemmas show.\<close> The grouped view refines an abstract grouping
  (per-key member lists in ledger order, not re-sorted by date although a
  comment of App.js says so, each total added left to right); its
  comparator sort equals the library's \<open>sort_key\<close> when amounts are finite,
  hence the Income-first, descending-total order. Each
  handler's behaviour is stated on every branch, refusals included: each
  validation error changes only the dialog, and an empty category name is
  ignored without one. \<open>loadData\<close> is characterised on every combination of
  read outcomes; a categories slot that fails to parse leaves a partial load
  (transactions kept, categories and theme at their defaults). Over reachable
  states, the registry stays duplicate-free and the modals nest as rendered;
  without the Android back button on the deletion modal, no transaction ever
  refers to a deleted category, and from every reachable state with a chosen
  reassignment target the back button and two more events leave one that
  does (the target is left stale). \<open>changeMonth\<close> is
  characterised exactly, including its overflow on the 29th to 31st, and an
  unparseable amount is shown to be stored as NaN and to make the balance NaN.
  Persistence: toISOString and its parse, and the JSON encoding of
  transactions, categories and theme and their decoding, are inverse; a
  reload gives back the state when amounts are finite, nothing is written
  before loading, and on any state a reload gives back every transaction
  with its amount only when that amount is finite (NaN and the infinities
  come back as \<open>null\<close>, read as 0). Ids stay distinct while the clock
  increases between saves; any two saves in one millisecond share an id,
  and one deletion then removes both; with distinct ids, deleting a
  shown transaction removes exactly that one. After creation, no field of a
  transaction but its category ever changes. Each helper of the older copy
  computes what its App.js counterpart computes, and the older copy steps and
  saves exactly like App.js on every shared event, except that it accepts a
  duplicate category wherever App.js refuses one. From every
  reachable state five events lead back to the main screen; a displayed
  amount reads back as whole cents within half a cent of the value, and
  the NaN balance is displayed as \<open>$NaN\<close>. Choosing a month in the picker
  views and titles that month, except that picker years 0 to 99 land in
  the 1900s; opening the picker highlights exactly the viewed month.
  The rows of the list are the month's transactions of the expanded groups,
  each once; a row's date label, \<open>displayDate.slice(0, 5)\<close>, is the month
  and day only when both have two digits (January 5 shows \<open>1/5/2\<close>).
  Without failing writes, the dependency-driven save effects keep the
  storage exactly as rewriting every slot does; after a failed transactions
  write the slot stays as it was for as long as the ledger does not change,
  so a reload loses the saved transaction although later saves succeed.
  Along a run whose clock months never go back, no transaction is ever
  dated in a month after the latest clock reading.

  \<^bold>\<open>Modelling choices.\<close> Finite numbers are exact rationals: IEEE rounding
  of sums and overflow to Infinity are not modelled. The grouping lemmas
  state each total as the code's left-to-right sum, so they hold of any
  addition; the order lemmas need finite totals, and a claim that group
  totals add up to the month totals is left out, because with doubles it
  fails (0.1 + 0.2 + 0.3 in one order differs from 0.1 + (0.2 + 0.3)).
  Dates have no time of day and no time zone: all dates are local midnight
  and the clock supplies the local calendar date with the millisecond
  reading; \<open>toISOString\<close> therefore shows the local date at midnight.
  A slot holds the JSON value its text denotes (\<open>JSON.parse\<close> inverts
  \<open>JSON.stringify\<close> on JSON values); saves complete in order; their
  failure is modelled in SaveFailures only. \<open>toLocaleDateString\<close> is the en-US format; String.prototype.trim
  removes ASCII white space only. \<open>toFixed\<close> rounds the exact value half
  up; on a double such as 1.005, stored below its decimal, JavaScript prints
  1.00 where the model prints 1.01. No loop of the program is unbounded, so
  no fuel is needed: \<open>norm_day\<close> (the carrying inside the engine's MakeDay,
  not a loop of App.js) terminates by its measure, and every other function
  is structural.

  \<^bold>\<open>Not modelled.\<close> The text level of JSON (\<open>JSON.stringify\<close> and
  \<open>JSON.parse\<close> are library functions; the slots hold the values they
  denote); the storage keys, which are the same in both copies; a stored
  theme other than light or dark; styles, THEMES colours,
  icons and layout, which carry no behaviour (the footer text included); \<open>toFixed\<close> on values of \<open>10^21\<close> or more
  (exponent notation of the double's shortest digits).
\<close>

end
